(* ===== verification/Prelude.thy ===== *)
theory Prelude
  imports Complex_Main "HOL-Library.Multiset" "HOL-Library.Sublist"
begin

text \<open>
  Shared vocabulary of the ESG development: the exceptions of \<^verbatim>\<open>src/esg/exceptions.py\<close>
  and the Python built-in exceptions the code can raise, the Python string built-ins the
  code calls (\<^verbatim>\<open>str.isspace\<close>, \<^verbatim>\<open>str.strip\<close>, \<^verbatim>\<open>str.lower\<close>, substring
  \<^verbatim>\<open>in\<close>), \<^verbatim>\<open>round(x, 2)\<close> on exact rationals, and \<^verbatim>\<open>sorted(..., reverse=True)\<close>
  with the lemmas the component theories share about them.
\<close>

named_theorems py_simps "evaluation rules of the modelled Python built-ins"

section \<open>Exceptions\<close>

text \<open>
  \<^verbatim>\<open>ESGServiceError\<close> and its subclass \<^verbatim>\<open>ExternalAPIError\<close> (exceptions.py), and the
  built-in exceptions that the modelled code can let escape. An operation that may raise
  returns \<open>exc + 'a\<close>.
\<close>

datatype exc =
    ESGServiceError string
  | ExternalAPIError string
  | JSONDecodeError
  | TypeError
  | AttributeError

text \<open>\<^verbatim>\<open>except ESGServiceError\<close> also catches the subclass.\<close>

fun is_esg_error :: "exc \<Rightarrow> bool" where
  "is_esg_error (ESGServiceError _) = True"
| "is_esg_error (ExternalAPIError _) = True"
| "is_esg_error _ = False"

type_synonym 'a result = "exc + 'a"

text \<open>Sequencing of operations that may raise: the first exception propagates.\<close>

definition rbind :: "'a result \<Rightarrow> ('a \<Rightarrow> 'b result) \<Rightarrow> 'b result" where
  "rbind r f = (case r of Inl x \<Rightarrow> Inl x | Inr a \<Rightarrow> f a)"

text \<open>\<^verbatim>\<open>[f(x) for x in xs]\<close> where \<open>f\<close> may raise.\<close>

fun result_map :: "('a \<Rightarrow> 'b result) \<Rightarrow> 'a list \<Rightarrow> 'b list result" where
  "result_map f [] = Inr []"
| "result_map f (x # xs) = rbind (f x) (\<lambda>y. rbind (result_map f xs) (\<lambda>ys. Inr (y # ys)))"

lemma rbind_Inl [simp]: "rbind (Inl x) f = Inl x"
  by (simp add: rbind_def)

lemma rbind_Inr [simp]: "rbind (Inr a) f = f a"
  by (simp add: rbind_def)

lemma rbindE [elim]: "rbind r f = Inr b \<Longrightarrow> (\<And>a. r = Inr a \<Longrightarrow> f a = Inr b \<Longrightarrow> P) \<Longrightarrow> P"
  by (cases r) auto

lemma rbind_eq_Inr: "rbind r f = Inr b \<longleftrightarrow> (\<exists>a. r = Inr a \<and> f a = Inr b)"
  by (cases r) auto

lemma result_map_Inr_length: "result_map f xs = Inr ys \<Longrightarrow> length ys = length xs"
  by (induction xs arbitrary: ys) (auto simp: rbind_eq_Inr)

lemma result_map_Inr_all:
  "result_map f xs = Inr ys \<Longrightarrow> (\<And>x y. f x = Inr y \<Longrightarrow> P y) \<Longrightarrow> \<forall>y \<in> set ys. P y"
  by (induction xs arbitrary: ys) (auto simp: rbind_eq_Inr)

lemma result_map_total: "(\<And>x. x \<in> set xs \<Longrightarrow> \<exists>y. f x = Inr y) \<Longrightarrow> \<exists>ys. result_map f xs = Inr ys"
proof (induction xs)
  case (Cons a xs)
  then obtain y ys where "f a = Inr y" "result_map f xs = Inr ys" by force
  then show ?case by simp
qed simp

lemma result_map_Inr_nth:
  "result_map f xs = Inr ys \<Longrightarrow> i < length xs \<Longrightarrow> f (xs ! i) = Inr (ys ! i)"
proof (induction xs arbitrary: ys i)
  case (Cons x xs)
  then obtain y ys' where "f x = Inr y" "result_map f xs = Inr ys'" "ys = y # ys'"
    by (auto simp: rbind_eq_Inr)
  with Cons show ?case by (cases i) auto
qed simp

section \<open>Strings\<close>

text \<open>
  \<^verbatim>\<open>str.isspace\<close> (and the regular expression class \<^verbatim>\<open>\s\<close>, which uses the same
  table) on the one-byte characters: tab, line feed, vertical tab, form feed, carriage
  return, the four separators 0x1C to 0x1F and the blank.
\<close>

definition py_isspace :: "char \<Rightarrow> bool" where
  "py_isspace c \<longleftrightarrow> (let n = of_char c :: nat in (9 \<le> n \<and> n \<le> 13) \<or> (28 \<le> n \<and> n \<le> 32))"

definition py_strip :: "string \<Rightarrow> string" where
  "py_strip s = rev (dropWhile py_isspace (rev (dropWhile py_isspace s)))"

definition py_lower_char :: "char \<Rightarrow> char" where
  "py_lower_char c =
     (let n = of_char c :: nat in if 65 \<le> n \<and> n \<le> 90 then char_of (n + 32) else c)"

definition py_lower :: "string \<Rightarrow> string" where
  "py_lower s = map py_lower_char s"

text \<open>Substring test \<^verbatim>\<open>needle in hay\<close>.\<close>

fun py_in :: "string \<Rightarrow> string \<Rightarrow> bool" where
  "py_in n [] \<longleftrightarrow> n = []"
| "py_in n (h # hs) \<longleftrightarrow> prefix n (h # hs) \<or> py_in n hs"

lemma py_isspace_blank [simp, py_simps]: "py_isspace (CHR '' '')"
  by (simp add: py_isspace_def)

lemma py_isspace_lower [simp]: "py_isspace (py_lower_char c) \<longleftrightarrow> py_isspace c"
  unfolding py_isspace_def py_lower_char_def Let_def
  by auto

lemma py_lower_char_idem [simp]: "py_lower_char (py_lower_char c) = py_lower_char c"
  by (simp add: py_lower_char_def Let_def)

lemma py_lower_idem [simp]: "py_lower (py_lower s) = py_lower s"
  by (simp add: py_lower_def)

lemma py_in_append_right: "py_in n ys \<Longrightarrow> py_in n (xs @ ys)"
  by (induction xs) auto

lemma py_in_iff_sublist: "py_in n hs \<longleftrightarrow> (\<exists>a b. hs = a @ n @ b)"
proof (induction hs)
  case Nil
  then show ?case by simp
next
  case (Cons h hs)
  show ?case
  proof
    assume "py_in n (h # hs)"
    then consider "prefix n (h # hs)" | "py_in n hs" by auto
    then show "\<exists>a b. h # hs = a @ n @ b"
    proof cases
      case 1
      then obtain zs where "h # hs = n @ zs" by (auto simp: prefix_def)
      then have "h # hs = [] @ n @ zs" by simp
      then show ?thesis by blast
    next
      case 2
      with Cons.IH obtain a b where "hs = a @ n @ b" by blast
      then show ?thesis by (metis append_Cons)
    qed
  next
    assume "\<exists>a b. h # hs = a @ n @ b"
    then obtain a b where ab: "h # hs = a @ n @ b" by blast
    show "py_in n (h # hs)"
    proof (cases a)
      case Nil
      with ab have "prefix n (h # hs)" by (auto simp: prefix_def)
      then show ?thesis by simp
    next
      case (Cons a0 a')
      with ab Cons.IH show ?thesis by auto
    qed
  qed
qed

section \<open>Lists\<close>

lemma dropWhile_all: "\<forall>x \<in> set xs. P x \<Longrightarrow> dropWhile P xs = []"
  by simp

lemma takeWhile_all: "\<forall>x \<in> set xs. P x \<Longrightarrow> takeWhile P xs = xs"
  by (simp add: takeWhile_eq_all_conv)

section \<open>Rounding\<close>

text \<open>
  \<^verbatim>\<open>round(x, 2)\<close>: the nearest multiple of 1/100, ties to the even neighbour. Python
  rounds the binary double exactly; the model computes on exact rationals, so it agrees
  with the code wherever the value is a multiple of 1/200 or not near a tie.
\<close>

definition round_half_even :: "rat \<Rightarrow> int" where
  "round_half_even x =
     (let f = \<lfloor>x\<rfloor>; d = x - of_int f in
      if d < 1/2 then f else if 1/2 < d then f + 1 else if even f then f else f + 1)"

definition round2 :: "rat \<Rightarrow> rat" where
  "round2 x = of_int (round_half_even (x * 100)) / 100"

lemma round_half_even_bounds:
  "x - 1/2 \<le> of_int (round_half_even x) \<and> of_int (round_half_even x) \<le> x + 1/2"
proof -
  have lo: "of_int \<lfloor>x\<rfloor> \<le> x" and hi: "x < of_int \<lfloor>x\<rfloor> + 1"
    using floor_correct [of x] by simp_all
  show ?thesis
    unfolding round_half_even_def Let_def using lo hi
    by (simp split: if_split, linarith)
qed

lemma round_half_even_int [simp]: "round_half_even (of_int k) = k"
  by (simp add: round_half_even_def)

section \<open>Sorting\<close>

text \<open>
  \<^verbatim>\<open>sorted(xs, key=f, reverse=True)\<close>. CPython reverses the list, sorts it stably
  ascending and reverses the result, so elements with equal keys keep their input order.
\<close>

definition py_sorted_desc :: "('a \<Rightarrow> 'k::linorder) \<Rightarrow> 'a list \<Rightarrow> 'a list" where
  "py_sorted_desc f xs = rev (sort_key f (rev xs))"

lemma mset_py_sorted_desc [simp]: "mset (py_sorted_desc f xs) = mset xs"
  by (simp add: py_sorted_desc_def)

lemma set_py_sorted_desc [simp]: "set (py_sorted_desc f xs) = set xs"
  by (simp add: py_sorted_desc_def)

lemma length_py_sorted_desc [simp]: "length (py_sorted_desc f xs) = length xs"
  by (simp add: py_sorted_desc_def)

lemma py_sorted_desc_sorted: "sorted (rev (map f (py_sorted_desc f xs)))"
  by (simp add: py_sorted_desc_def rev_map)

lemma py_sorted_desc_stable:
  "filter (\<lambda>y. f y = k) (py_sorted_desc f xs) = filter (\<lambda>y. f y = k) xs"
  by (simp add: py_sorted_desc_def rev_filter [symmetric] sort_key_stable)

lemma rbind_eq_Inl: "rbind r f = Inl x \<Longrightarrow> r = Inl x \<or> (\<exists>a. r = Inr a \<and> f a = Inl x)"
  by (cases r) auto

lemma result_map_Inl: "result_map f xs = Inl x \<Longrightarrow> \<exists>y \<in> set xs. f y = Inl x"
  by (induction xs) (auto dest!: rbind_eq_Inl)

lemma sorted_wrt_subseq: "subseq ys xs \<Longrightarrow> sorted_wrt R xs \<Longrightarrow> sorted_wrt R ys"
  by (induction rule: list_emb.induct) (auto dest: list_emb_set)

lemma sorted_wrt_prefix: "prefix ys xs \<Longrightarrow> sorted_wrt R xs \<Longrightarrow> sorted_wrt R ys"
  by (auto simp: prefix_def sorted_wrt_append)

lemma py_sorted_desc_sorted_wrt:
  "sorted_wrt (\<lambda>a b. f b \<le> f a) (py_sorted_desc f xs)"
  using py_sorted_desc_sorted [of f xs] by (simp add: rev_map sorted_wrt_rev sorted_wrt_map)

text \<open>The descending sort agrees with the library's stable sort on the negated key.\<close>

lemma py_sorted_desc_eq_sort_key:
  fixes f :: "'a \<Rightarrow> 'b::linordered_ab_group_add"
  shows "py_sorted_desc f xs = sort_key (\<lambda>x. - f x) xs"
proof (rule properties_for_sort_key [symmetric])
  show "mset (py_sorted_desc f xs) = mset xs" by simp
next
  fix k
  have "filter (\<lambda>x. - f k = - f x) (py_sorted_desc f xs) = filter (\<lambda>y. f y = f k) (py_sorted_desc f xs)"
    by (metis neg_equal_iff_equal)
  also have "\<dots> = filter (\<lambda>y. f y = f k) xs"
    by (rule py_sorted_desc_stable)
  also have "\<dots> = filter (\<lambda>x. - f k = - f x) xs"
    by (metis neg_equal_iff_equal)
  finally show "filter (\<lambda>x. - f k = - f x) (py_sorted_desc f xs) = filter (\<lambda>x. - f k = - f x) xs" .
next
  show "sorted (map (\<lambda>x. - f x) (py_sorted_desc f xs))"
    using py_sorted_desc_sorted_wrt [of f xs] by (simp add: sorted_wrt_map)
qed

lemma insort_key_greatest: "\<forall>z \<in> set zs. f z < f y \<Longrightarrow> insort_key f y zs = zs @ [y]"
  by (induction zs) auto

lemma py_sorted_desc_snoc_greatest:
  "\<forall>x \<in> set xs. f x < f y \<Longrightarrow> py_sorted_desc f (xs @ [y]) = y # py_sorted_desc f xs"
  by (simp add: py_sorted_desc_def insort_key_greatest)

lemma rbind_assoc: "rbind (rbind m f) g = rbind m (\<lambda>x. rbind (f x) g)"
  by (cases m) simp_all

end
