(* ===== verification/Text.thy ===== *)
theory Text
  imports Prelude
begin

text \<open>
  The text helpers of \<^verbatim>\<open>src/esg/utils.py\<close>: \<^verbatim>\<open>normalize_company_name\<close> (strip, then
  replace each run of whitespace by one blank), \<^verbatim>\<open>make_cache_key\<close> (namespace prefix
  and a digest of the lower-cased normalised name) and \<^verbatim>\<open>detect_esg_aspects\<close>. The
  abstract specification of normalisation is Python's \<^verbatim>\<open>' '.join(s.split())\<close>:
  \<open>normalize_company_name\<close> refines it, splitting a normalised name gives back its
  words, and so normalisation is idempotent and the cache key depends only on the
  lower-cased words of the name.
\<close>

section \<open>Definitions\<close>

text \<open>\<^verbatim>\<open>re.sub(r"\s+", " ", s)\<close>: every maximal run of whitespace becomes one blank.\<close>

function sub_ws :: "string \<Rightarrow> string" where
  "sub_ws [] = []"
| "sub_ws (c # cs) =
     (if py_isspace c then CHR '' '' # sub_ws (dropWhile py_isspace cs) else c # sub_ws cs)"
  by pat_completeness auto
termination
  by (relation "measure length") (auto simp: le_imp_less_Suc length_dropWhile_le)

definition normalize_company_name :: "string \<Rightarrow> string" where
  "normalize_company_name name = sub_ws (py_strip name)"

text \<open>
  \<^verbatim>\<open>make_cache_key\<close>: the digest is \<^verbatim>\<open>hashlib.sha1(...).hexdigest()\<close>, a library
  function the code only calls; it is the parameter \<open>digest\<close>.
\<close>

definition make_cache_key :: "(string \<Rightarrow> string) \<Rightarrow> string \<Rightarrow> string" where
  "make_cache_key digest company_name =
     ''esg:company:'' @ digest (py_lower (normalize_company_name company_name))"

text \<open>
  \<^verbatim>\<open>detect_esg_aspects\<close>: the keyword map is a dict from aspect to keyword set, kept as
  an association list in the dict's insertion order; the aspects with a keyword that
  occurs in the lower-cased text, in that order.
\<close>

definition detect_esg_aspects :: "string \<Rightarrow> (string \<times> string list) list \<Rightarrow> string list" where
  "detect_esg_aspects text keyword_map =
     (let lowered = py_lower text
      in map fst (filter (\<lambda>(aspect, keywords). \<exists>k \<in> set keywords. py_in k lowered) keyword_map))"

subsection \<open>The reference: \<^verbatim>\<open>' '.join(s.split())\<close>\<close>

function py_split :: "string \<Rightarrow> string list" where
  "py_split s =
     (let t = dropWhile py_isspace s
      in if t = [] then []
         else takeWhile (\<lambda>c. \<not> py_isspace c) t # py_split (dropWhile (\<lambda>c. \<not> py_isspace c) t))"
  by pat_completeness auto
termination
proof (relation "measure length")
  fix s t
  assume t: "t = dropWhile py_isspace s" and ne: "t \<noteq> []"
  then have "\<not> py_isspace (hd t)"
    by (metis hd_dropWhile)
  with ne have "length (dropWhile (\<lambda>c. \<not> py_isspace c) t) < length t"
    by (cases t) (auto simp: le_imp_less_Suc length_dropWhile_le)
  with t show "(dropWhile (\<lambda>c. \<not> py_isspace c) t, s) \<in> measure length"
    using length_dropWhile_le [of py_isspace s] by simp
qed simp

declare py_split.simps [simp del]

fun py_join :: "string \<Rightarrow> string list \<Rightarrow> string" where
  "py_join sep [] = []"
| "py_join sep [w] = w"
| "py_join sep (w # ws) = w @ sep @ py_join sep ws"

definition is_word :: "string \<Rightarrow> bool" where
  "is_word w \<longleftrightarrow> w \<noteq> [] \<and> (\<forall>c \<in> set w. \<not> py_isspace c)"

definition no_trailing_space :: "string \<Rightarrow> bool" where
  "no_trailing_space s \<longleftrightarrow> s = [] \<or> \<not> py_isspace (last s)"

section \<open>Splitting and joining\<close>

lemma py_split_nonspace_append:
  "\<forall>c \<in> set ys. py_isspace c \<Longrightarrow> py_split (xs @ ys) = py_split xs"
proof (induction xs rule: py_split.induct)
  case (1 s)
  let ?t = "dropWhile py_isspace s"
  show ?case
  proof (cases "?t = []")
    case True
    with "1.prems" have "dropWhile py_isspace (s @ ys) = []"
      by (simp add: dropWhile_append)
    with True show ?thesis by (simp add: Let_def py_split.simps [of s] py_split.simps [of "s @ ys"])
  next
    case False
    then have dw: "dropWhile py_isspace (s @ ys) = ?t @ ys"
      by (auto simp: dropWhile_eq_Nil_conv)
    have tw: "takeWhile (\<lambda>c. \<not> py_isspace c) (?t @ ys) = takeWhile (\<lambda>c. \<not> py_isspace c) ?t"
      using "1.prems" by (cases ys) (auto simp: takeWhile_append takeWhile_all)
    have dn: "dropWhile (\<lambda>c. \<not> py_isspace c) (?t @ ys) = dropWhile (\<lambda>c. \<not> py_isspace c) ?t @ ys"
      using "1.prems" by (cases ys) (auto simp: dropWhile_append dropWhile_eq_Nil_conv)
    from "1.IH" [OF refl False "1.prems"] False dw tw dn show ?thesis
      by (simp add: Let_def py_split.simps [of s] py_split.simps [of "s @ ys"])
  qed
qed

lemma py_split_space_prepend:
  "\<forall>c \<in> set ys. py_isspace c \<Longrightarrow> py_split (ys @ xs) = py_split xs"
  by (simp add: Let_def py_split.simps [of "ys @ xs"] py_split.simps [of xs])

lemma py_split_space_Cons [simp]: "py_isspace c \<Longrightarrow> py_split (c # xs) = py_split xs"
  by (simp add: Let_def py_split.simps [of "c # xs"] py_split.simps [of xs])

lemma py_split_Nil [simp]: "py_split [] = []"
  by (simp add: py_split.simps)

lemma py_split_words: "w \<in> set (py_split s) \<Longrightarrow> is_word w"
proof (induction s rule: py_split.induct)
  case (1 s)
  let ?t = "dropWhile py_isspace s"
  from "1.prems" have ne: "?t \<noteq> []"
    by (auto simp: Let_def py_split.simps [of s] split: if_splits)
  then have hd: "\<not> py_isspace (hd ?t)"
    by (metis hd_dropWhile)
  from "1.prems" ne have
    "w \<in> set (takeWhile (\<lambda>c. \<not> py_isspace c) ?t # py_split (dropWhile (\<lambda>c. \<not> py_isspace c) ?t))"
    by (simp add: Let_def py_split.simps [of s] del: dropWhile_eq_Nil_conv)
  then consider
      "w = takeWhile (\<lambda>c. \<not> py_isspace c) ?t"
    | "w \<in> set (py_split (dropWhile (\<lambda>c. \<not> py_isspace c) ?t))"
    by auto
  then show ?case
  proof cases
    case 1
    with ne hd show ?thesis
      by (cases ?t) (auto simp: is_word_def dest: set_takeWhileD)
  next
    case 2
    with "1.IH" [OF refl ne] show ?thesis .
  qed
qed

lemma py_split_nonspace_Cons:
  "\<not> py_isspace c \<Longrightarrow>
   py_split (c # cs) =
     takeWhile (\<lambda>x. \<not> py_isspace x) (c # cs) # py_split (dropWhile (\<lambda>x. \<not> py_isspace x) cs)"
  by (simp add: Let_def py_split.simps [of "c # cs"])

lemma py_split_word: "is_word w \<Longrightarrow> py_split w = [w]"
  by (cases w) (auto simp: is_word_def py_split_nonspace_Cons takeWhile_all dropWhile_all)

lemma py_split_join:
  "\<forall>w \<in> set ws. is_word w \<Longrightarrow> py_split (py_join '' '' ws) = ws"
proof (induction "'' ''" ws rule: py_join.induct)
  case 1
  then show ?case by simp
next
  case (2 w)
  then show ?case by (simp add: py_split_word)
next
  case (3 w v vs)
  then have w: "is_word w" by simp
  then obtain c cs where wc: "w = c # cs" and nsp: "\<forall>x \<in> set w. \<not> py_isspace x"
    by (cases w) (auto simp: is_word_def)
  have "py_split (w @ '' '' @ py_join '' '' (v # vs)) =
        w # py_split ('' '' @ py_join '' '' (v # vs))"
    using nsp wc by (simp add: py_split_nonspace_Cons)
  also have "\<dots> = w # (v # vs)"
    using 3 by simp
  finally show ?case by simp
qed

lemma py_split_nonempty: "\<exists>c \<in> set s. \<not> py_isspace c \<Longrightarrow> py_split s \<noteq> []"
  by (simp add: Let_def py_split.simps [of s] dropWhile_eq_Nil_conv)

lemma sub_ws_word_append: "\<forall>c \<in> set w. \<not> py_isspace c \<Longrightarrow> sub_ws (w @ r) = w @ sub_ws r"
  by (induction w) auto

lemma sub_ws_split:
  "no_trailing_space s \<Longrightarrow>
   sub_ws s = (if s \<noteq> [] \<and> py_isspace (hd s) then CHR '' '' # py_join '' '' (py_split s)
               else py_join '' '' (py_split s))"
proof (induction s rule: py_split.induct)
  case (1 s)
  let ?t = "dropWhile py_isspace s"
  show ?case
  proof (cases "?t = []")
    case True
    with "1.prems" have "s = []"
      by (cases s rule: rev_cases) (auto simp: no_trailing_space_def)
    then show ?thesis by simp
  next
    case False
    define w where "w = takeWhile (\<lambda>c. \<not> py_isspace c) ?t"
    define r where "r = dropWhile (\<lambda>c. \<not> py_isspace c) ?t"
    have t_eq: "?t = w @ r"
      by (simp add: w_def r_def)
    have s_eq: "s = takeWhile py_isspace s @ w @ r"
      by (metis t_eq takeWhile_dropWhile_id)
    have w_nsp: "\<forall>c \<in> set w. \<not> py_isspace c"
      by (auto simp: w_def dest: set_takeWhileD)
    have split_s: "py_split s = w # py_split r"
      using False by (simp add: Let_def py_split.simps [of s] w_def r_def del: dropWhile_eq_Nil_conv)
    have r_hd: "r \<noteq> [] \<Longrightarrow> py_isspace (hd r)"
      unfolding r_def by (metis hd_dropWhile)
    have r_nt: "no_trailing_space r"
    proof (cases "r = []")
      case False
      then have "last r = last s" by (subst s_eq) simp
      moreover from False s_eq have "s \<noteq> []" by (metis append_is_Nil_conv)
      ultimately show ?thesis using "1.prems" by (simp add: no_trailing_space_def)
    qed (simp add: no_trailing_space_def)
    have IH: "sub_ws r = (if r \<noteq> [] \<and> py_isspace (hd r) then CHR '' '' # py_join '' '' (py_split r)
                          else py_join '' '' (py_split r))"
      using "1.IH" [OF refl False] r_nt by (simp add: r_def)
    have sub_t: "sub_ws ?t = py_join '' '' (py_split s)"
    proof (cases "r = []")
      case True
      then show ?thesis using t_eq w_nsp split_s sub_ws_word_append [of w "[]"] by simp
    next
      case False
      with r_nt have "\<exists>c \<in> set r. \<not> py_isspace c"
        by (auto simp: no_trailing_space_def)
      then obtain v vs where "py_split r = v # vs"
        by (metis py_split_nonempty neq_Nil_conv)
      with False IH r_hd t_eq w_nsp split_s show ?thesis
        by (simp add: sub_ws_word_append)
    qed
    show ?thesis
    proof (cases "py_isspace (hd s)")
      case True
      from False have "s \<noteq> []" by auto
      then obtain c cs where "s = c # cs" by (cases s) auto
      with True sub_t show ?thesis by simp
    next
      case False
      with \<open>?t \<noteq> []\<close> have "?t = s" by (cases s) auto
      with False sub_t show ?thesis by simp
    qed
  qed
qed

theorem normalize_company_name_split_join:
  "normalize_company_name s = py_join '' '' (py_split s)"
proof -
  let ?u = "dropWhile py_isspace s"
  let ?s' = "py_strip s"
  have u_eq: "?u = ?s' @ rev (takeWhile py_isspace (rev ?u))"
    unfolding py_strip_def by (metis rev_append rev_rev_ident takeWhile_dropWhile_id)
  have nt: "no_trailing_space ?s'"
    unfolding no_trailing_space_def py_strip_def
    by (metis hd_dropWhile last_rev rev_is_Nil_conv)
  have nl: "?s' = [] \<or> \<not> py_isspace (hd ?s')"
  proof (cases "?s' = []")
    case False
    then have "hd ?s' = hd ?u" by (subst u_eq) simp
    moreover from False u_eq have "?u \<noteq> []" by (metis append_is_Nil_conv)
    ultimately show ?thesis by (metis hd_dropWhile)
  qed simp
  have "py_split ?s' = py_split ?u"
    by (subst u_eq, rule py_split_nonspace_append [symmetric]) (auto dest: set_takeWhileD)
  also have "\<dots> = py_split s"
    by (metis py_split_space_prepend set_takeWhileD takeWhile_dropWhile_id)
  finally have "py_split ?s' = py_split s" .
  with sub_ws_split [OF nt] nl show ?thesis
    by (auto simp: normalize_company_name_def)
qed

lemma py_lower_join: "py_lower (py_join sep ws) = py_join (py_lower sep) (map py_lower ws)"
  by (induction sep ws rule: py_join.induct) (simp_all add: py_lower_def)

lemma py_lower_blank [simp]: "py_lower '' '' = '' ''"
  by (simp add: py_lower_def py_lower_char_def)

lemma is_word_lower: "is_word w \<Longrightarrow> is_word (py_lower w)"
  by (auto simp: is_word_def py_lower_def)

theorem normalize_company_name_idem:
  "normalize_company_name (normalize_company_name s) = normalize_company_name s"
  by (simp add: normalize_company_name_split_join py_split_join py_split_words)

lemma lower_normalize: "py_lower (normalize_company_name s) = py_join '' '' (map py_lower (py_split s))"
  by (simp add: normalize_company_name_split_join py_lower_join)

theorem make_cache_key_words:
  "map py_lower (py_split a) = map py_lower (py_split b) \<Longrightarrow>
   make_cache_key digest a = make_cache_key digest b"
  by (simp add: make_cache_key_def lower_normalize)

theorem make_cache_key_inj:
  assumes "inj digest" and "make_cache_key digest a = make_cache_key digest b"
  shows "map py_lower (py_split a) = map py_lower (py_split b)"
proof -
  from assms have "py_join '' '' (map py_lower (py_split a)) = py_join '' '' (map py_lower (py_split b))"
    by (simp add: make_cache_key_def lower_normalize inj_eq)
  then have "py_split (py_join '' '' (map py_lower (py_split a))) =
             py_split (py_join '' '' (map py_lower (py_split b)))" by simp
  then show ?thesis
    by (simp add: py_split_join is_word_lower py_split_words)
qed

section \<open>Aspect detection\<close>

lemma detect_esg_aspects_iff:
  "a \<in> set (detect_esg_aspects text km) \<longleftrightarrow>
   (\<exists>ks. (a, ks) \<in> set km \<and> (\<exists>k \<in> set ks. py_in k (py_lower text)))"
  by (force simp: detect_esg_aspects_def)

lemma detect_esg_aspects_lower:
  "detect_esg_aspects (py_lower text) km = detect_esg_aspects text km"
  by (simp add: detect_esg_aspects_def)

lemma detect_esg_aspects_keys_of:
  "set (detect_esg_aspects text km) \<subseteq> set (map fst km)"
  by (auto simp: detect_esg_aspects_def)

lemma detect_esg_aspects_subseq:
  "subseq (detect_esg_aspects text km) (map fst km)"
  unfolding detect_esg_aspects_def Let_def
  by (rule subseq_map, rule subseq_filter_left)

text \<open>C21: normalize_company_name joins the whitespace-separated words of the name with single spaces, and splitting its result gives the same words.\<close>

theorem normalize_company_name_refines:
  "normalize_company_name s = py_join '' '' (py_split s) \<and> py_split (normalize_company_name s) = py_split s"
  by (simp add: normalize_company_name_split_join py_split_join py_split_words)

text \<open>C22: For an injective digest, two names have the same cache key exactly when their lower-cased words are the same.\<close>

theorem make_cache_key_eq_iff:
  "inj digest \<Longrightarrow>
   make_cache_key digest a = make_cache_key digest b \<longleftrightarrow> map py_lower (py_split a) = map py_lower (py_split b)"
  by (blast intro: make_cache_key_words dest: make_cache_key_inj)

end
