(* ===== verification/Keywords.thy ===== *)
theory Keywords
  imports Text
begin

text \<open>
  The static keyword taxonomy of \<^verbatim>\<open>src/esg/keywords.py\<close>. The Python sets are lists in
  source order: the heuristic only asks whether some keyword occurs, so the iteration
  order of a set does not matter there, and the prompt sorts \<^verbatim>\<open>ALL_KEYWORDS\<close>.
\<close>

definition ENVIRONMENTAL_KEYWORDS :: "string list" where
  "ENVIRONMENTAL_KEYWORDS =
     [''emission'', ''emissions'', ''carbon'', ''pollution'', ''climate'', ''waste'',
      ''deforestation'', ''environment'', ''biodiversity'', ''renewable'', ''sustainability'',
      ''water scarcity'', ''pipeline leak'', ''oil spill'', ''toxic'', ''greenhouse'',
      ''air quality'']"

definition SOCIAL_KEYWORDS :: "string list" where
  "SOCIAL_KEYWORDS =
     [''labour'', ''labor'', ''worker'', ''strike'', ''union'', ''discrimination'',
      ''harassment'', ''human rights'', ''privacy'', ''safety'', ''fatality'', ''community'',
      ''protest'', ''diversity'', ''inclusive'']"

definition GOVERNANCE_KEYWORDS :: "string list" where
  "GOVERNANCE_KEYWORDS =
     [''governance'', ''board'', ''fraud'', ''bribery'', ''audit'', ''corruption'',
      ''whistleblower'', ''accounting'', ''transparency'', ''sebi'', ''sec'', ''compliance'',
      ''tax evasion'', ''money laundering'', ''insider trading'']"

definition ESG_KEYWORDS :: "(string \<times> string list) list" where
  "ESG_KEYWORDS =
     [(''environment'', ENVIRONMENTAL_KEYWORDS), (''social'', SOCIAL_KEYWORDS),
      (''governance'', GOVERNANCE_KEYWORDS)]"

definition ALL_KEYWORDS :: "string list" where
  "ALL_KEYWORDS = remdups (concat (map snd ESG_KEYWORDS))"

lemma ESG_KEYWORDS_aspects: "map fst ESG_KEYWORDS = [''environment'', ''social'', ''governance'']"
  by (simp add: ESG_KEYWORDS_def)

lemma set_ALL_KEYWORDS:
  "set ALL_KEYWORDS = set ENVIRONMENTAL_KEYWORDS \<union> set SOCIAL_KEYWORDS \<union> set GOVERNANCE_KEYWORDS"
  by (auto simp: ALL_KEYWORDS_def ESG_KEYWORDS_def)

lemma keywords_lower_case:
  "\<forall>k \<in> set ALL_KEYWORDS. py_lower k = k"
  by (simp add: ALL_KEYWORDS_def ESG_KEYWORDS_def ENVIRONMENTAL_KEYWORDS_def SOCIAL_KEYWORDS_def
      GOVERNANCE_KEYWORDS_def py_lower_def py_lower_char_def)

end
