(* ===== verification/Json.thy ===== *)
theory Json
  imports Prelude
begin

text \<open>
  The values the code receives from \<^verbatim>\<open>json.loads\<close> and handles as Python objects:
  \<open>json\<close> has one constructor per Python type a JSON document decodes to (\<^verbatim>\<open>None\<close>,
  \<^verbatim>\<open>bool\<close>, \<^verbatim>\<open>int\<close>, \<^verbatim>\<open>float\<close> with its non-finite values, \<^verbatim>\<open>str\<close>,
  \<^verbatim>\<open>list\<close>, \<^verbatim>\<open>dict\<close>). On them: truthiness (\<^verbatim>\<open>if x\<close>, \<^verbatim>\<open>x or y\<close>),
  \<^verbatim>\<open>d.get(k, default)\<close>, which raises \<^verbatim>\<open>AttributeError\<close> on a non-dict, iteration
  (\<^verbatim>\<open>for x in v\<close>), which raises \<^verbatim>\<open>TypeError\<close> on a non-iterable, and the built-in
  \<^verbatim>\<open>float(v)\<close>, with its string syntax. A \<^verbatim>\<open>dict\<close> is the list of pairs it was built
  from: lookup finds the last pair with the key, as \<^verbatim>\<open>dict(pairs)\<close> does.
\<close>

datatype pyfloat = Fin rat | NaN | PosInf | NegInf

datatype json =
    JNone
  | JBool bool
  | JInt int
  | JFloat pyfloat
  | JStr string
  | JList "json list"
  | JDict "(string \<times> json) list"

fun py_truthy :: "json \<Rightarrow> bool" where
  "py_truthy JNone = False"
| "py_truthy (JBool b) = b"
| "py_truthy (JInt i) = (i \<noteq> 0)"
| "py_truthy (JFloat (Fin r)) = (r \<noteq> 0)"
| "py_truthy (JFloat _) = True"
| "py_truthy (JStr s) = (s \<noteq> [])"
| "py_truthy (JList xs) = (xs \<noteq> [])"
| "py_truthy (JDict kvs) = (kvs \<noteq> [])"

fun is_jstr :: "json \<Rightarrow> bool" where
  "is_jstr (JStr _) = True"
| "is_jstr _ = False"

fun jstr_val :: "json \<Rightarrow> string" where
  "jstr_val (JStr s) = s"
| "jstr_val _ = []"

text \<open>\<^verbatim>\<open>x or y\<close>.\<close>

definition py_or :: "json \<Rightarrow> json \<Rightarrow> json" where
  "py_or x y = (if py_truthy x then x else y)"

definition dict_lookup :: "(string \<times> json) list \<Rightarrow> string \<Rightarrow> json option" where
  "dict_lookup kvs k = map_of (rev kvs) k"

text \<open>\<^verbatim>\<open>d[k] = v\<close>: a key already there keeps its place.\<close>

fun dict_set :: "(string \<times> json) list \<Rightarrow> string \<Rightarrow> json \<Rightarrow> (string \<times> json) list" where
  "dict_set [] k v = [(k, v)]"
| "dict_set ((k', v') # kvs) k v = (if k' = k then (k, v) # kvs else (k', v') # dict_set kvs k v)"

text \<open>\<^verbatim>\<open>v.get(k, default)\<close>; \<^verbatim>\<open>v.get(k)\<close> is the default \<^verbatim>\<open>None\<close>.\<close>

fun py_get :: "json \<Rightarrow> string \<Rightarrow> json \<Rightarrow> json result" where
  "py_get (JDict kvs) k d = Inr (case dict_lookup kvs k of None \<Rightarrow> d | Some v \<Rightarrow> v)"
| "py_get _ k d = Inl AttributeError"

text \<open>\<^verbatim>\<open>for x in v\<close>: a list yields its elements, a dict its keys, a string its characters.\<close>

fun py_iter :: "json \<Rightarrow> json list result" where
  "py_iter (JList xs) = Inr xs"
| "py_iter (JDict kvs) = Inr (map JStr (remdups (map fst kvs)))"
| "py_iter (JStr s) = Inr (map (\<lambda>c. JStr [c]) s)"
| "py_iter _ = Inl TypeError"

subsection \<open>The built-in \<^verbatim>\<open>float\<close>\<close>

definition is_digit :: "char \<Rightarrow> bool" where
  "is_digit c \<longleftrightarrow> (let n = of_char c :: nat in 48 \<le> n \<and> n \<le> 57)"

fun digits_val :: "nat \<Rightarrow> string \<Rightarrow> nat" where
  "digits_val acc [] = acc"
| "digits_val acc (c # cs) = digits_val (10 * acc + (of_char c - 48)) cs"

text \<open>The exponent of a decimal literal: empty, or \<^verbatim>\<open>e\<close>/\<^verbatim>\<open>E\<close>, a sign and digits.\<close>

definition parse_exponent :: "string \<Rightarrow> int option" where
  "parse_exponent s =
     (case s of
        [] \<Rightarrow> Some 0
      | e # r \<Rightarrow>
          if e \<noteq> CHR ''e'' \<and> e \<noteq> CHR ''E'' then None
          else
            let (neg, ds) = (case r of
                               c # r' \<Rightarrow> if c = CHR ''-'' then (True, r')
                                        else if c = CHR ''+'' then (False, r') else (False, r)
                             | [] \<Rightarrow> (False, r))
            in if ds \<noteq> [] \<and> (\<forall>c \<in> set ds. is_digit c)
               then Some ((if neg then -1 else 1) * int (digits_val 0 ds)) else None)"

definition scale10 :: "rat \<Rightarrow> int \<Rightarrow> rat" where
  "scale10 x e = (if 0 \<le> e then x * 10 ^ nat e else x / 10 ^ nat (- e))"

text \<open>An unsigned decimal literal: digits, an optional point and digits, at least one digit.\<close>

definition parse_unsigned :: "string \<Rightarrow> rat option" where
  "parse_unsigned s =
     (let ip = takeWhile is_digit s; r1 = dropWhile is_digit s;
          (fp, r2) = (case r1 of
                        c # r \<Rightarrow> if c = CHR ''.'' then (takeWhile is_digit r, dropWhile is_digit r)
                                 else ([], r1)
                      | [] \<Rightarrow> ([], []))
      in if ip = [] \<and> fp = [] then None
         else map_option (\<lambda>e. scale10 (of_nat (digits_val 0 (ip @ fp)) / 10 ^ length fp) e)
                (parse_exponent r2))"

definition parse_special :: "string \<Rightarrow> pyfloat option" where
  "parse_special s =
     (let l = py_lower s in
      if l = ''nan'' then Some NaN
      else if l = ''inf'' \<or> l = ''infinity'' then Some PosInf else None)"

fun py_neg :: "pyfloat \<Rightarrow> pyfloat" where
  "py_neg (Fin r) = Fin (- r)"
| "py_neg NaN = NaN"
| "py_neg PosInf = NegInf"
| "py_neg NegInf = PosInf"

definition parse_float :: "string \<Rightarrow> pyfloat option" where
  "parse_float str =
     (let s = py_strip str;
          (neg, body) = (case s of
                           c # r \<Rightarrow> if c = CHR ''-'' then (True, r)
                                    else if c = CHR ''+'' then (False, r) else (False, s)
                         | [] \<Rightarrow> (False, []));
          v = (case parse_special body of
                 Some f \<Rightarrow> Some f
               | None \<Rightarrow> map_option Fin (parse_unsigned body))
      in if neg then map_option py_neg v else v)"

text \<open>
  \<^verbatim>\<open>float(v)\<close>; \<open>None\<close> is the \<^verbatim>\<open>TypeError\<close> or \<^verbatim>\<open>ValueError\<close> it raises
  (\<^verbatim>\<open>_coerce_score\<close> catches both alike).
\<close>

fun py_float :: "json \<Rightarrow> pyfloat option" where
  "py_float (JBool b) = Some (Fin (if b then 1 else 0))"
| "py_float (JInt i) = Some (Fin (of_int i))"
| "py_float (JFloat f) = Some f"
| "py_float (JStr s) = parse_float s"
| "py_float _ = None"

lemma py_get_non_dict: "\<forall>kvs. v \<noteq> JDict kvs \<Longrightarrow> py_get v k d = Inl AttributeError"
  by (cases v) auto

lemma py_get_Inl: "py_get v k d = Inl x \<Longrightarrow> x = AttributeError"
  by (cases v) auto

lemma py_iter_Inl: "py_iter v = Inl x \<Longrightarrow> x = TypeError"
  by (cases v) auto


text \<open>Lower-casing keeps the signs, and no other character lower-cases to one.\<close>

lemma py_lower_char_sign:
  assumes "d \<in> {CHR ''-'', CHR ''+''}"
  shows "py_lower_char c = d \<longleftrightarrow> c = d"
proof -
  have "char_of (of_char c + 32 :: nat) \<noteq> d" if "65 \<le> (of_char c :: nat)" "of_char c \<le> (90 :: nat)"
  proof
    assume "char_of (of_char c + 32 :: nat) = d"
    then have "of_char (char_of (of_char c + 32 :: nat) :: char) = (of_char d :: nat)" by simp
    with that assms show False by (auto simp: of_char_of)
  qed
  with assms show ?thesis by (auto simp: py_lower_char_def Let_def)
qed

text \<open>Every spelling \<^verbatim>\<open>float()\<close> reads as NaN: \<^verbatim>\<open>nan\<close> in any case, with an optional
  sign and surrounding whitespace.\<close>

lemma parse_float_NaN:
  assumes "py_lower (py_strip s) \<in> {''nan'', ''+nan'', ''-nan''}"
  shows "parse_float s = Some NaN"
proof -
  from assms obtain c r where cr: "py_strip s = c # r"
    by (cases "py_strip s") (auto simp: py_lower_def)
  from assms cr consider "py_lower_char c = CHR ''n''" "py_lower r = ''an''"
    | "py_lower_char c = CHR ''+''" "py_lower r = ''nan''" | "py_lower_char c = CHR ''-''" "py_lower r = ''nan''"
    by (auto simp: py_lower_def)
  then show ?thesis
  proof cases
    case 1
    then have "c \<noteq> CHR ''-''" "c \<noteq> CHR ''+''" by (auto simp: py_lower_char_def)
    with 1 cr show ?thesis by (simp add: parse_float_def parse_special_def py_lower_def)
  next
    case 2
    with py_lower_char_sign [of "CHR ''+''" c] cr show ?thesis
      by (simp add: parse_float_def parse_special_def)
  next
    case 3
    with py_lower_char_sign [of "CHR ''-''" c] cr show ?thesis
      by (simp add: parse_float_def parse_special_def)
  qed
qed

end
