(* ===== verification/Dates.thy ===== *)
theory Dates
  imports Json
begin

text \<open>
  The datetime helpers of \<^verbatim>\<open>src/esg/utils.py\<close> (\<^verbatim>\<open>safe_parse_datetime\<close>,
  \<^verbatim>\<open>ensure_aware\<close>, \<^verbatim>\<open>isoformat\<close>) and the two \<^verbatim>\<open>strftime\<close> formats of
  \<^verbatim>\<open>src/esg/services.py\<close>. A \<^verbatim>\<open>datetime\<close> is its calendar fields and its UTC
  offset in seconds (\<open>None\<close> for a naive value). \<^verbatim>\<open>dateutil.parser.parse\<close> is a library
  the code only calls: it is the parameter \<open>parser\<close>, \<open>None\<close> where it raises.
  Python orders two naive values by wall clock, two aware values by the instant, and
  raises \<^verbatim>\<open>TypeError\<close> on \<^verbatim>\<open><\<close> between a naive and an aware one:
  \<open>dt_order_key\<close> and \<open>dt_comparable\<close> say so.
\<close>

record datetime =
  dt_year :: int
  dt_month :: nat
  dt_day :: nat
  dt_hour :: nat
  dt_minute :: nat
  dt_second :: nat
  dt_micro :: nat
  dt_tz :: "int option"

definition is_aware :: "datetime \<Rightarrow> bool" where
  "is_aware dt \<longleftrightarrow> dt_tz dt \<noteq> None"

definition ensure_aware :: "datetime \<Rightarrow> datetime" where
  "ensure_aware dt = (if dt_tz dt \<noteq> None then dt else dt\<lparr>dt_tz := Some 0\<rparr>)"

definition safe_parse_datetime :: "(string \<Rightarrow> datetime option) \<Rightarrow> json \<Rightarrow> datetime option" where
  "safe_parse_datetime parser value =
     (if \<not> py_truthy value then None
      else case value of JStr s \<Rightarrow> map_option ensure_aware (parser s) | _ \<Rightarrow> None)"

subsection \<open>Ordering\<close>

text \<open>Days since 1970-01-01 of a proleptic Gregorian date.\<close>

definition days_from_civil :: "int \<Rightarrow> nat \<Rightarrow> nat \<Rightarrow> int" where
  "days_from_civil y m d =
     (let y' = (if m \<le> 2 then y - 1 else y);
          era = y' div 400;
          yoe = y' - era * 400;
          mp = (if 2 < m then int m - 3 else int m + 9);
          doy = (153 * mp + 2) div 5 + int d - 1;
          doe = yoe * 365 + yoe div 4 - yoe div 100 + doy
      in era * 146097 + doe - 719468)"

definition wall_micros :: "datetime \<Rightarrow> int" where
  "wall_micros dt =
     ((days_from_civil (dt_year dt) (dt_month dt) (dt_day dt) * 86400
       + int (dt_hour dt) * 3600 + int (dt_minute dt) * 60 + int (dt_second dt)) * 1000000
      + int (dt_micro dt))"

definition dt_order_key :: "datetime \<Rightarrow> int" where
  "dt_order_key dt = (case dt_tz dt of None \<Rightarrow> wall_micros dt | Some off \<Rightarrow> wall_micros dt - off * 1000000)"

definition dt_comparable :: "datetime \<Rightarrow> datetime \<Rightarrow> bool" where
  "dt_comparable a b \<longleftrightarrow> is_aware a = is_aware b"

subsection \<open>Rendering\<close>

fun nat_str :: "nat \<Rightarrow> string" where
  "nat_str n = (if n < 10 then [char_of (48 + n)] else nat_str (n div 10) @ [char_of (48 + n mod 10)])"

declare nat_str.simps [simp del]

definition int_str :: "int \<Rightarrow> string" where
  "int_str i = (if i < 0 then CHR ''-'' # nat_str (nat (- i)) else nat_str (nat i))"

definition pad :: "nat \<Rightarrow> nat \<Rightarrow> string" where
  "pad w n = (let s = nat_str n in replicate (w - length s) CHR ''0'' @ s)"

definition month_abbr :: "nat \<Rightarrow> string" where
  "month_abbr m =
     [''Jan'', ''Feb'', ''Mar'', ''Apr'', ''May'', ''Jun'', ''Jul'', ''Aug'', ''Sep'', ''Oct'',
      ''Nov'', ''Dec''] ! (m - 1)"

text \<open>\<^verbatim>\<open>%04d\<close> of the year, with the sign of a negative year in front.\<close>

definition year_str :: "int \<Rightarrow> string" where
  "year_str y = (if y < 0 then CHR ''-'' # pad 4 (nat (- y)) else pad 4 (nat y))"

definition tz_str :: "int \<Rightarrow> string" where
  "tz_str off =
     (let a = nat \<bar>off\<bar>; hh = a div 3600; mm = a mod 3600 div 60; ss = a mod 60
      in (if off < 0 then CHR ''-'' else CHR ''+'') # pad 2 hh @ '':'' @ pad 2 mm
         @ (if ss \<noteq> 0 then '':'' @ pad 2 ss else []))"

definition dt_isoformat :: "datetime \<Rightarrow> string" where
  "dt_isoformat dt =
     year_str (dt_year dt) @ ''-'' @ pad 2 (dt_month dt) @ ''-'' @ pad 2 (dt_day dt) @ ''T''
     @ pad 2 (dt_hour dt) @ '':'' @ pad 2 (dt_minute dt) @ '':'' @ pad 2 (dt_second dt)
     @ (if dt_micro dt \<noteq> 0 then ''.'' @ pad 6 (dt_micro dt) else [])
     @ (case dt_tz dt of None \<Rightarrow> [] | Some off \<Rightarrow> tz_str off)"

text \<open>\<^verbatim>\<open>isoformat(dt)\<close> of utils.py: aware first.\<close>

definition isoformat :: "datetime \<Rightarrow> string" where
  "isoformat dt = dt_isoformat (ensure_aware dt)"

text \<open>\<^verbatim>\<open>strftime('%b %d, %Y')\<close> (glibc: \<^verbatim>\<open>%Y\<close> is not padded).\<close>

definition strftime_date :: "datetime \<Rightarrow> string" where
  "strftime_date dt = month_abbr (dt_month dt) @ '' '' @ pad 2 (dt_day dt) @ '', '' @ int_str (dt_year dt)"

text \<open>\<^verbatim>\<open>strftime('%b %d, %Y at %I:%M %p UTC')\<close>.\<close>

definition strftime_generated :: "datetime \<Rightarrow> string" where
  "strftime_generated dt =
     strftime_date dt @ '' at ''
     @ pad 2 (if dt_hour dt mod 12 = 0 then 12 else dt_hour dt mod 12) @ '':'' @ pad 2 (dt_minute dt)
     @ (if dt_hour dt < 12 then '' AM'' else '' PM'') @ '' UTC''"

lemma is_aware_ensure_aware [simp]: "is_aware (ensure_aware dt)"
  by (simp add: is_aware_def ensure_aware_def)

lemma safe_parse_datetime_aware:
  "safe_parse_datetime parser v = Some dt \<Longrightarrow> is_aware dt"
  by (auto simp: safe_parse_datetime_def split: if_splits json.splits)

lemma ensure_aware_idem [simp]: "ensure_aware (ensure_aware dt) = ensure_aware dt"
  by (simp add: ensure_aware_def)

lemma ensure_aware_naive_key:
  "dt_tz dt = None \<Longrightarrow> dt_order_key (ensure_aware dt) = dt_order_key dt"
  by (simp add: ensure_aware_def dt_order_key_def wall_micros_def)

end
