(* ===== verification/Oracle.thy ===== *)
theory Oracle
  imports Dates
begin

text \<open>
  The collaborators the code calls but does not define, as one record \<open>env\<close> passed to
  every operation that uses them (the spec's "capability-checked collaborator"):
  \<^item> \<open>openai_imported\<close>: whether \<^verbatim>\<open>from openai import OpenAI\<close> succeeded
    (otherwise \<^verbatim>\<open>OpenAI = None\<close>); \<open>openai_api_key\<close>: \<^verbatim>\<open>settings.OPENAI_API_KEY\<close>;
  \<^item> \<open>llm_respond\<close>: \<^verbatim>\<open>client.responses.create(model=..., input=messages)\<close> followed by
    \<^verbatim>\<open>.output_text\<close>, as one of three outcomes (\<open>api_outcome\<close>);
  \<^item> \<open>search_respond\<close>: the same call with the \<^verbatim>\<open>web_search\<close> tool (clients.py);
  \<^item> \<open>json_loads\<close> (\<open>None\<close>: \<^verbatim>\<open>JSONDecodeError\<close>), \<open>json_dumps\<close>;
  \<^item> \<open>dateutil_imported\<close>: whether \<^verbatim>\<open>from dateutil import parser\<close> succeeded;
    \<open>dateutil_parse\<close>: \<^verbatim>\<open>parser.parse\<close>; \<open>fromisoformat\<close>:
    \<^verbatim>\<open>datetime.fromisoformat\<close> (\<open>None\<close> where they raise);
    \<open>digest\<close>: the SHA-1 hex digest.
  A message is a pair (role, content). The theory also models
  \<^verbatim>\<open>ESGService._openai_available\<close> and \<^verbatim>\<open>ESGService._execute_openai_prompt\<close>.
\<close>

type_synonym message = "string \<times> string"

datatype api_outcome =
    Responded string      \<comment> \<open>the call returned and \<^verbatim>\<open>output_text\<close> is this text\<close>
  | RequestFailed string  \<comment> \<open>\<^verbatim>\<open>responses.create\<close> raised an exception with this message\<close>
  | NoOutputText          \<comment> \<open>the response has no \<^verbatim>\<open>output_text\<close> (\<^verbatim>\<open>AttributeError\<close>)\<close>

record env =
  openai_imported :: bool
  openai_api_key :: string
  llm_respond :: "message list \<Rightarrow> api_outcome"
  search_respond :: "message list \<Rightarrow> api_outcome"
  json_loads :: "string \<Rightarrow> json option"
  json_dumps :: "json \<Rightarrow> string"
  dateutil_imported :: bool
  dateutil_parse :: "string \<Rightarrow> datetime option"
  fromisoformat :: "string \<Rightarrow> datetime option"
  digest :: "string \<Rightarrow> string"

text \<open>The parser \<^verbatim>\<open>safe_parse_datetime\<close> uses: \<^verbatim>\<open>parser.parse\<close> when
  \<^verbatim>\<open>dateutil\<close> imported, \<^verbatim>\<open>datetime.fromisoformat\<close> when the import fell back to
  \<^verbatim>\<open>parser = None\<close>.\<close>

definition date_parser :: "env \<Rightarrow> string \<Rightarrow> datetime option" where
  "date_parser e = (if dateutil_imported e then dateutil_parse e else fromisoformat e)"

text \<open>\<^verbatim>\<open>bool(OpenAI and settings.OPENAI_API_KEY)\<close>.\<close>

definition openai_available :: "env \<Rightarrow> bool" where
  "openai_available e \<longleftrightarrow> openai_imported e \<and> openai_api_key e \<noteq> []"

text \<open>The text of an answer, \<open>None\<close> where the call or \<^verbatim>\<open>output_text\<close> raised (both are
  caught alike in \<^verbatim>\<open>fetch_articles\<close>).\<close>

fun answer_text :: "api_outcome \<Rightarrow> string option" where
  "answer_text (Responded t) = Some t"
| "answer_text _ = None"

definition execute_openai_prompt :: "env \<Rightarrow> string \<Rightarrow> string option \<Rightarrow> string result" where
  "execute_openai_prompt e user_prompt system_prompt =
     (if \<not> openai_available e then Inl (ESGServiceError ''OpenAI is not configured.'')
      else
        let messages =
              (case system_prompt of Some sp \<Rightarrow> if sp \<noteq> [] then [(''system'', sp)] else [] | None \<Rightarrow> [])
              @ [(''user'', user_prompt)]
        in case llm_respond e messages of
             RequestFailed msg \<Rightarrow> Inl (ESGServiceError (''OpenAI request failed: '' @ msg))
           | NoOutputText \<Rightarrow> Inl (ESGServiceError ''Unexpected OpenAI response format.'')
           | Responded text \<Rightarrow> Inr text)"

lemma execute_openai_prompt_errors:
  "execute_openai_prompt e u s = Inl x \<Longrightarrow> is_esg_error x"
  by (auto simp: execute_openai_prompt_def Let_def split: if_splits api_outcome.splits)

lemma execute_openai_prompt_unavailable:
  "\<not> openai_available e \<Longrightarrow> \<exists>msg. execute_openai_prompt e u s = Inl (ESGServiceError msg)"
  by (simp add: execute_openai_prompt_def)

end
