(* ===== verification/Articles.thy ===== *)
theory Articles
  imports Oracle Keywords "HOL-Library.Char_ord" "HOL-Library.List_Lexorder"
begin

text \<open>
  The article source: \<^verbatim>\<open>deduplicate_articles\<close> and \<^verbatim>\<open>take_latest\<close> of
  \<^verbatim>\<open>src/esg/utils.py\<close>, and \<^verbatim>\<open>fetch_articles\<close> and \<^verbatim>\<open>_parse_articles_payload\<close>
  of \<^verbatim>\<open>src/esg/clients.py\<close>. An article is the dict \<^verbatim>\<open>fetch_articles\<close> builds; its
  text fields hold whatever JSON value the oracle sent.
\<close>

record article =
  title :: json
  description :: json
  url :: json
  source :: json
  published_at :: datetime
  source_type :: string

section \<open>Deduplication\<close>

text \<open>
  Set membership compares by hash and \<^verbatim>\<open>==\<close>: numbers of any type compare by value,
  a NaN equals nothing, and a list or dict cannot be hashed (\<^verbatim>\<open>TypeError\<close>).
\<close>

fun num_val :: "json \<Rightarrow> rat option" where
  "num_val (JBool b) = Some (if b then 1 else 0)"
| "num_val (JInt i) = Some (of_int i)"
| "num_val (JFloat (Fin r)) = Some r"
| "num_val _ = None"

definition py_key_eq :: "json \<Rightarrow> json \<Rightarrow> bool" where
  "py_key_eq a b =
     (case (num_val a, num_val b) of
        (Some x, Some y) \<Rightarrow> x = y
      | _ \<Rightarrow> a = b \<and> a \<noteq> JFloat NaN)"

fun hashable :: "json \<Rightarrow> bool" where
  "hashable (JList _) = False"
| "hashable (JDict _) = False"
| "hashable _ = True"

text \<open>\<^verbatim>\<open>next((kc for kc in (url, title) if kc), None)\<close>.\<close>

definition unique_key :: "article \<Rightarrow> json option" where
  "unique_key a =
     (if py_truthy (url a) then Some (url a) else if py_truthy (title a) then Some (title a) else None)"

fun dedup_loop :: "json list \<Rightarrow> article list \<Rightarrow> article list result" where
  "dedup_loop seen [] = Inr []"
| "dedup_loop seen (e # es) =
     (case unique_key e of
        None \<Rightarrow> dedup_loop seen es
      | Some k \<Rightarrow>
          if \<not> hashable k then Inl TypeError
          else if (\<exists>s \<in> set seen. py_key_eq s k) then dedup_loop seen es
          else rbind (dedup_loop (k # seen) es) (\<lambda>rest. Inr (e # rest)))"

definition deduplicate_articles :: "article list \<Rightarrow> article list result" where
  "deduplicate_articles entries = dedup_loop [] entries"

text \<open>Two kept articles never share a key.\<close>

definition keys_differ :: "article \<Rightarrow> article \<Rightarrow> bool" where
  "keys_differ a b \<longleftrightarrow>
     (case (unique_key a, unique_key b) of (Some ka, Some kb) \<Rightarrow> \<not> py_key_eq ka kb | _ \<Rightarrow> True)"

section \<open>Most recent first\<close>

text \<open>\<^verbatim>\<open>xs[:n]\<close> for an int \<open>n\<close>: a negative bound counts from the end.\<close>

definition py_slice_to :: "'a list \<Rightarrow> int \<Rightarrow> 'a list" where
  "py_slice_to xs n = (if 0 \<le> n then take (nat n) xs else take (nat (int (length xs) + n)) xs)"

text \<open>
  \<^verbatim>\<open>sorted(entries, key=published_at, reverse=True)[:limit]\<close>. Any comparison sort
  compares the two neighbours of the output where naive and aware values meet, so a list
  holding both raises \<^verbatim>\<open>TypeError\<close>; otherwise the keys are one total order.
\<close>

definition take_latest :: "article list \<Rightarrow> int \<Rightarrow> article list result" where
  "take_latest entries limit =
     (if \<exists>a \<in> set entries. \<exists>b \<in> set entries. \<not> dt_comparable (published_at a) (published_at b)
      then Inl TypeError
      else Inr (py_slice_to (py_sorted_desc (\<lambda>a. dt_order_key (published_at a)) entries) limit))"

section \<open>Extracting the JSON object of the oracle's answer\<close>

text \<open>
  \<^verbatim>\<open>re.findall(r"```(?:json)?\s*(\{.*?\})\s*```", text, flags=re.DOTALL)\<close>. At a
  position the pattern needs three backticks, takes \<^verbatim>\<open>json\<close> if it is there (without
  it the next character is \<^verbatim>\<open>j\<close> and the rest cannot match), skips whitespace, needs
  \<^verbatim>\<open>{\<close>, and the lazy group ends at the first \<^verbatim>\<open>}\<close> that whitespace and three
  backticks follow. The scan resumes after a match, or one character further on.
\<close>

definition fence :: string where
  "fence = ''```''"

fun lazy_close :: "string \<Rightarrow> string \<Rightarrow> (string \<times> string) option" where
  "lazy_close acc [] = None"
| "lazy_close acc (c # cs) =
     (if c = CHR ''}'' \<and> take 3 (dropWhile py_isspace cs) = fence
      then Some (rev (c # acc), drop 3 (dropWhile py_isspace cs))
      else lazy_close (c # acc) cs)"

definition fence_match :: "string \<Rightarrow> (string \<times> string) option" where
  "fence_match s =
     (if take 3 s \<noteq> fence then None
      else
        let r = drop 3 s;
            r' = dropWhile py_isspace (if take 4 r = ''json'' then drop 4 r else r)
        in case r' of
             c # cs \<Rightarrow> if c = CHR ''{'' then map_option (\<lambda>(g, rest). (c # g, rest)) (lazy_close [] cs)
                       else None
           | [] \<Rightarrow> None)"

lemma lazy_close_shorter: "lazy_close acc cs = Some (g, rest) \<Longrightarrow> length rest < length cs"
proof (induction acc cs rule: lazy_close.induct)
  case (2 acc c cs)
  then show ?case
    using length_dropWhile_le [of py_isspace cs] by (auto split: if_splits)
qed simp

lemma fence_match_shorter: "fence_match s = Some (g, rest) \<Longrightarrow> length rest < length s"
proof -
  assume m: "fence_match s = Some (g, rest)"
  then obtain cs g' where r': "dropWhile py_isspace (if take 4 (drop 3 s) = ''json'' then drop 4 (drop 3 s) else drop 3 s)
                        = CHR ''{'' # cs"
    and lc: "lazy_close [] cs = Some (g', rest)"
    by (auto simp: fence_match_def Let_def split: if_splits list.splits)
  have "length (CHR ''{'' # cs) \<le> length s"
    by (subst r' [symmetric], rule order_trans [OF length_dropWhile_le]) auto
  with lazy_close_shorter [OF lc] show ?thesis by simp
qed

function findall_fenced :: "string \<Rightarrow> string list" where
  "findall_fenced [] = []"
| "findall_fenced (c # cs) =
     (case fence_match (c # cs) of
        Some (g, rest) \<Rightarrow> g # findall_fenced rest
      | None \<Rightarrow> findall_fenced cs)"
  by pat_completeness auto
termination
  by (relation "measure length") (auto dest: fence_match_shorter)

text \<open>\<^verbatim>\<open>str.find\<close> and \<^verbatim>\<open>str.rfind\<close>, \<open>-1\<close> when absent.\<close>

definition py_find :: "string \<Rightarrow> char \<Rightarrow> int" where
  "py_find s c = (if c \<in> set s then int (length (takeWhile (\<lambda>x. x \<noteq> c) s)) else -1)"

definition py_rfind :: "string \<Rightarrow> char \<Rightarrow> int" where
  "py_rfind s c = (if c \<in> set s then int (length s) - 1 - int (length (takeWhile (\<lambda>x. x \<noteq> c) (rev s))) else -1)"

text \<open>The first fenced block that parses, if any.\<close>

fun first_parsed :: "(string \<Rightarrow> json option) \<Rightarrow> string list \<Rightarrow> json option" where
  "first_parsed loads [] = None"
| "first_parsed loads (b # bs) = (case loads b of Some v \<Rightarrow> Some v | None \<Rightarrow> first_parsed loads bs)"

definition parse_articles_payload :: "env \<Rightarrow> string \<Rightarrow> json result" where
  "parse_articles_payload e raw_text =
     (let text = py_strip raw_text in
      case json_loads e text of
        Some v \<Rightarrow> Inr v
      | None \<Rightarrow>
          (case first_parsed (json_loads e) (findall_fenced text) of
             Some v \<Rightarrow> Inr v
           | None \<Rightarrow>
               let start = py_find text CHR ''{''; end = py_rfind text CHR ''}''
               in if start \<noteq> -1 \<and> end \<noteq> -1 \<and> start < end
                  then (case json_loads e (take (nat (end + 1) - nat start) (drop (nat start) text)) of
                          Some v \<Rightarrow> Inr v
                        | None \<Rightarrow> Inl JSONDecodeError)
                  else Inl JSONDecodeError))"

section \<open>Fetching\<close>

definition LOOKBACK_DAYS :: nat where
  "LOOKBACK_DAYS = 730"

definition nl :: string where
  "nl = [CHR 0x0A]"

definition fetch_system_prompt :: "int \<Rightarrow> string" where
  "fetch_system_prompt limit =
     ''You are an ESG research assistant. Use the web_search tool to find recent (last 2 years) ''
     @ ''news items describing environmental, social, or governance risks involving the requested company. Make the search less strict and retrieve several relevant results. ''
     @ ''Return strictly valid JSON with a top-level key \"articles\" containing a list of objects with ''
     @ ''keys: title, description, url, source, published_at (ISO 8601). Include up to '' @ int_str limit @ '' distinct articles ''
     @ ''from credible sources. Focus on risk/controversy narratives, not generic corporate press releases.''"

definition fetch_user_prompt :: "string \<Rightarrow> string" where
  "fetch_user_prompt company_name =
     ''Company: '' @ company_name @ nl
     @ ''Time horizon: last '' @ nat_str LOOKBACK_DAYS @ '' days (approx. 2 years).'' @ nl
     @ ''Relevant ESG keywords: '' @ py_join '', '' (sort ALL_KEYWORDS) @ ''.'' @ nl
     @ ''Provide concise descriptions summarising the ESG risk highlighted by each article.''"

text \<open>One raw item of the payload made an article; \<open>now\<close> is \<^verbatim>\<open>datetime.utcnow()\<close>, naive.\<close>

definition make_article :: "env \<Rightarrow> datetime \<Rightarrow> json \<Rightarrow> article result" where
  "make_article e now item =
     rbind (py_get item ''published_at'' JNone) (\<lambda>p.
     let pub = (case safe_parse_datetime (date_parser e) p of Some dt \<Rightarrow> dt | None \<Rightarrow> now) in
     rbind (py_get item ''title'' (JStr [])) (\<lambda>t.
     rbind (py_get item ''description'' (JStr [])) (\<lambda>d.
     rbind (py_get item ''url'' JNone) (\<lambda>u.
     rbind (py_get item ''source'' JNone) (\<lambda>s.
     Inr \<lparr>title = t, description = d, url = u, source = s, published_at = pub,
          source_type = ''openai_web_search''\<rparr>)))))"

text \<open>
  The request to the search oracle fails softly (\<open>None\<close>: no articles), and so does an
  answer with no JSON object in it; every other exception propagates.
\<close>

definition fetch_articles :: "env \<Rightarrow> datetime \<Rightarrow> string \<Rightarrow> int \<Rightarrow> article list result" where
  "fetch_articles e now company_name limit =
     (if \<not> openai_available e then Inr []
      else
        case answer_text (search_respond e [(''system'', fetch_system_prompt limit), (''user'', fetch_user_prompt company_name)]) of
          None \<Rightarrow> Inr []
        | Some response_text \<Rightarrow>
            (case parse_articles_payload e response_text of
               Inl JSONDecodeError \<Rightarrow> Inr []
             | Inl x \<Rightarrow> Inl x
             | Inr payload \<Rightarrow>
                 rbind (py_get payload ''articles'' (JList [])) (\<lambda>raw.
                 rbind (py_iter raw) (\<lambda>items.
                 rbind (result_map (make_article e now) items) (\<lambda>articles.
                 rbind (deduplicate_articles articles) (\<lambda>unique_articles.
                 take_latest unique_articles limit))))))"

section \<open>Which exceptions escape\<close>

lemma make_article_Inl: "make_article e now item = Inl x \<Longrightarrow> x = AttributeError"
  unfolding make_article_def Let_def by (auto dest!: rbind_eq_Inl py_get_Inl)

lemma dedup_loop_Inl: "dedup_loop seen es = Inl x \<Longrightarrow> x = TypeError"
  by (induction seen es rule: dedup_loop.induct) (auto split: option.splits if_splits dest!: rbind_eq_Inl)

lemma take_latest_Inl: "take_latest es n = Inl x \<Longrightarrow> x = TypeError"
  by (auto simp: take_latest_def split: if_splits)

lemma fetch_articles_Inl:
  "fetch_articles e now name limit = Inl x \<Longrightarrow> x = AttributeError \<or> x = TypeError"
proof -
  assume f: "fetch_articles e now name limit = Inl x"
  have pp: "parse_articles_payload e t = Inl y \<Longrightarrow> y = JSONDecodeError" for t y
    by (auto simp: parse_articles_payload_def Let_def split: option.splits if_splits)
  from f show ?thesis
    unfolding fetch_articles_def
    by (auto split: if_splits option.splits sum.splits exc.splits
        dest!: pp rbind_eq_Inl py_get_Inl py_iter_Inl result_map_Inl make_article_Inl
        simp: deduplicate_articles_def dest: dedup_loop_Inl take_latest_Inl)
qed

section \<open>Deduplication, recency and fetching: properties\<close>

lemma py_key_eq_sym: "py_key_eq a b \<longleftrightarrow> py_key_eq b a"
  by (auto simp: py_key_eq_def split: option.splits)

lemma dedup_loop_spec:
  "dedup_loop seen es = Inr us \<Longrightarrow>
   subseq us es \<and> (\<forall>u \<in> set us. \<exists>k. unique_key u = Some k \<and> hashable k \<and> (\<forall>s \<in> set seen. \<not> py_key_eq s k))
   \<and> sorted_wrt keys_differ us"
proof (induction seen es arbitrary: us rule: dedup_loop.induct)
  case (1 seen)
  then show ?case by simp
next
  case (2 seen e es)
  show ?case
  proof (cases "unique_key e")
    case None
    with "2.prems" "2.IH"(1) show ?thesis by auto
  next
    case (Some k)
    show ?thesis
    proof (cases "hashable k \<and> \<not> (\<exists>s \<in> set seen. py_key_eq s k)")
      case False
      with Some "2.prems" "2.IH"(2) [OF Some] show ?thesis by (auto split: if_splits)
    next
      case True
      with Some "2.prems" obtain rest where rest: "dedup_loop (k # seen) es = Inr rest" and us: "us = e # rest"
        by (auto dest!: rbind_eq_Inr [THEN iffD1])
      from "2.IH"(3) [OF Some] True rest have IH:
        "subseq rest es \<and> (\<forall>u \<in> set rest. \<exists>k'. unique_key u = Some k' \<and> hashable k' \<and> (\<forall>s \<in> set (k # seen). \<not> py_key_eq s k'))
         \<and> sorted_wrt keys_differ rest" by auto
      have "\<forall>u \<in> set rest. keys_differ e u"
        using IH Some by (auto simp: keys_differ_def)
      with IH True Some us show ?thesis by auto
    qed
  qed
qed

lemma dedup_loop_first:
  "dedup_loop seen es = Inr us \<Longrightarrow> i < length es \<Longrightarrow> unique_key (es ! i) = Some k \<Longrightarrow>
   (\<exists>s \<in> set seen. py_key_eq s k) \<or> es ! i \<in> set us
   \<or> (\<exists>j<i. es ! j \<in> set us \<and> (\<exists>k'. unique_key (es ! j) = Some k' \<and> py_key_eq k' k))"
proof (induction seen es arbitrary: us i rule: dedup_loop.induct)
  case (1 seen)
  then show ?case by simp
next
  case (2 seen x es)
  show ?case
  proof (cases i)
    case 0
    with "2.prems" show ?thesis
      by (auto split: if_splits dest!: rbind_eq_Inr [THEN iffD1])
  next
    case (Suc i')
    with "2.prems" have i': "i' < length es" "unique_key (es ! i') = Some k" by auto
    have shift: "\<exists>j<i. (x # es) ! j \<in> set us \<and> (\<exists>k'. unique_key ((x # es) ! j) = Some k' \<and> py_key_eq k' k)"
      if "j' < i'" "es ! j' \<in> set us" "unique_key (es ! j') = Some k'" "py_key_eq k' k" for j' k'
      using that Suc by (intro exI [of _ "Suc j'"]) auto
    show ?thesis
    proof (cases "unique_key x")
      case None
      with "2.prems"(1) "2.IH"(1) [OF None _ i'] Suc shift show ?thesis by auto
    next
      case (Some kx)
      show ?thesis
      proof (cases "hashable kx \<and> \<not> (\<exists>s \<in> set seen. py_key_eq s kx)")
        case False
        with Some "2.prems"(1) have h: "hashable kx" "\<exists>s \<in> set seen. py_key_eq s kx"
          and d: "dedup_loop seen es = Inr us" by (auto split: if_splits)
        have "(\<exists>s \<in> set seen. py_key_eq s k) \<or> es ! i' \<in> set us
              \<or> (\<exists>j<i'. es ! j \<in> set us \<and> (\<exists>k'. unique_key (es ! j) = Some k' \<and> py_key_eq k' k))"
          using "2.IH"(2) [OF Some] h d i' by blast
        with Suc shift show ?thesis by auto
      next
        case True
        with Some "2.prems"(1) obtain rest where rest: "dedup_loop (kx # seen) es = Inr rest" and us: "us = x # rest"
          by (auto dest!: rbind_eq_Inr [THEN iffD1])
        from "2.IH"(3) [OF Some] True rest i'
        have "(\<exists>s \<in> set (kx # seen). py_key_eq s k) \<or> es ! i' \<in> set rest
              \<or> (\<exists>j<i'. es ! j \<in> set rest \<and> (\<exists>k'. unique_key (es ! j) = Some k' \<and> py_key_eq k' k))"
          by auto
        then show ?thesis
        proof (elim disjE)
          assume "\<exists>s \<in> set (kx # seen). py_key_eq s k"
          then consider "py_key_eq kx k" | "\<exists>s \<in> set seen. py_key_eq s k" by auto
          then show ?thesis
          proof cases
            case 1
            with Some us Suc show ?thesis by (intro disjI2 exI [of _ 0]) auto
          qed simp
        qed (use us Suc shift in auto)
      qed
    qed
  qed
qed

lemma dedup_loop_keyless: "unique_key e = None \<Longrightarrow> dedup_loop seen (e # es) = dedup_loop seen es"
  by simp


lemma take_latest_Inr:
  "take_latest es limit = Inr r \<Longrightarrow>
   r = py_slice_to (py_sorted_desc (\<lambda>a. dt_order_key (published_at a)) es) limit"
  by (simp add: take_latest_def split: if_splits)

lemma py_slice_to_prefix: "prefix (py_slice_to xs n) xs"
  by (simp add: py_slice_to_def take_is_prefix)

lemma py_slice_to_length: "0 \<le> n \<Longrightarrow> int (length (py_slice_to xs n)) \<le> n"
  by (simp add: py_slice_to_def)

theorem take_latest_spec:
  assumes "take_latest es limit = Inr r" and "0 \<le> limit"
  shows "int (length r) \<le> limit
    \<and> sorted_wrt (\<lambda>a b. dt_order_key (published_at b) \<le> dt_order_key (published_at a)) r
    \<and> prefix r (py_sorted_desc (\<lambda>a. dt_order_key (published_at a)) es)"
  using take_latest_Inr [OF assms(1)] assms(2)
  by (auto simp: py_slice_to_length py_slice_to_prefix
      intro: sorted_wrt_prefix [OF py_slice_to_prefix py_sorted_desc_sorted_wrt])

theorem take_latest_mixed:
  "a \<in> set es \<Longrightarrow> b \<in> set es \<Longrightarrow> is_aware (published_at a) \<Longrightarrow> \<not> is_aware (published_at b) \<Longrightarrow>
   take_latest es limit = Inl TypeError"
  by (auto simp: take_latest_def dt_comparable_def)

text \<open>C27: fetch_articles returns no articles when OpenAI is not configured, when the search returns nothing, or when no JSON can be extracted from its answer.\<close>

theorem fetch_articles_soft_failures:
  "\<not> openai_available e \<or> answer_text (search_respond e [(''system'', fetch_system_prompt limit), (''user'', fetch_user_prompt name)]) = None
   \<or> (\<exists>t. search_respond e [(''system'', fetch_system_prompt limit), (''user'', fetch_user_prompt name)] = Responded t
          \<and> parse_articles_payload e t = Inl JSONDecodeError)
   \<Longrightarrow> fetch_articles e now name limit = Inr []"
  by (auto simp: fetch_articles_def)

text \<open>C28: A successful fetch returns at most limit articles, most recent first.\<close>

theorem fetch_articles_spec:
  assumes "fetch_articles e now name limit = Inr arts" and "0 \<le> limit"
  shows "int (length arts) \<le> limit
    \<and> sorted_wrt (\<lambda>a b. dt_order_key (published_at b) \<le> dt_order_key (published_at a)) arts"
proof -
  from assms(1) have "arts = [] \<or> (\<exists>us. take_latest us limit = Inr arts)"
    unfolding fetch_articles_def
    by (auto split: if_splits option.splits sum.splits exc.splits elim!: rbindE)
  then show ?thesis
    using take_latest_spec assms(2) by auto
qed

text \<open>C26: When the search returns one article with a parseable date and one without, the undated one gets the naive utcnow default and sorting raises TypeError out of fetch_articles.\<close>

theorem fetch_articles_mixed_dates:
  assumes "openai_available e"
    and "search_respond e [(''system'', fetch_system_prompt limit), (''user'', fetch_user_prompt name)] = Responded resp"
    and "json_loads e (py_strip resp) =
           Some (JDict [(''articles'', JList [JDict [(''url'', JStr u1), (''published_at'', JStr d)],
                                             JDict [(''url'', JStr u2)]])])"
    and "u1 \<noteq> []" and "u2 \<noteq> []" and "u1 \<noteq> u2" and "d \<noteq> []"
    and "date_parser e d = Some dt" and "dt_tz now = None"
  shows "fetch_articles e now name limit = Inl TypeError"
proof -
  have pp: "parse_articles_payload e resp =
    Inr (JDict [(''articles'', JList [JDict [(''url'', JStr u1), (''published_at'', JStr d)], JDict [(''url'', JStr u2)]])])"
    using assms(3) by (simp add: parse_articles_payload_def)
  let ?a1 = "\<lparr>title = JStr [], description = JStr [], url = JStr u1, source = JNone,
              published_at = ensure_aware dt, source_type = ''openai_web_search''\<rparr>"
  let ?a2 = "\<lparr>title = JStr [], description = JStr [], url = JStr u2, source = JNone,
              published_at = now, source_type = ''openai_web_search''\<rparr>"
  have ma: "result_map (make_article e now)
              [JDict [(''url'', JStr u1), (''published_at'', JStr d)], JDict [(''url'', JStr u2)]] = Inr [?a1, ?a2]"
    using assms(7,8) by (simp add: make_article_def dict_lookup_def safe_parse_datetime_def Let_def)
  have dd: "deduplicate_articles [?a1, ?a2] = Inr [?a1, ?a2]"
    using assms(4,5,6) by (simp add: deduplicate_articles_def unique_key_def py_key_eq_def)
  have tl: "take_latest [?a1, ?a2] limit = Inl TypeError"
    by (rule take_latest_mixed [of ?a1 _ ?a2]) (simp_all add: is_aware_def ensure_aware_def assms(9))
  show ?thesis
    by (simp add: fetch_articles_def dict_lookup_def assms(1,2) pp ma dd tl del: result_map.simps)
qed

theorem parse_articles_payload_direct:
  "json_loads e (py_strip t) = Some v \<Longrightarrow> parse_articles_payload e t = Inr v"
  by (simp add: parse_articles_payload_def)

text \<open>The scanner of the fenced-block regex: text before the first backtick is skipped, and a
  block \<^verbatim>\<open>```json {...} ```\<close> whose body holds no closing brace is found whole.\<close>

lemma findall_fenced_skip: "CHR ''`'' \<notin> set pre \<Longrightarrow> findall_fenced (pre @ s) = findall_fenced s"
proof (induction pre)
  case (Cons c pre)
  then have "take 3 (c # pre @ s) \<noteq> fence" by (auto simp: fence_def)
  then have "fence_match (c # pre @ s) = None" by (simp add: fence_match_def)
  with Cons show ?case by simp
qed simp

lemma lazy_close_block:
  assumes "CHR ''}'' \<notin> set body" and "\<forall>c \<in> set ws. py_isspace c"
  shows "lazy_close acc (body @ CHR ''}'' # ws @ fence @ post) = Some (rev acc @ body @ ''}'', post)"
proof -
  have d: "dropWhile py_isspace (ws @ fence @ post) = fence @ post"
    using assms(2) by (simp add: fence_def py_isspace_def)
  from assms(1) show ?thesis
  proof (induction body arbitrary: acc)
    case Nil
    with d show ?case by (simp add: fence_def)
  qed auto
qed

lemma fence_match_block:
  assumes "tag \<in> {[], ''json''}" and "\<forall>c \<in> set ws1. py_isspace c" and "\<forall>c \<in> set ws2. py_isspace c"
    and "CHR ''}'' \<notin> set body"
  shows "fence_match (fence @ tag @ ws1 @ CHR ''{'' # body @ CHR ''}'' # ws2 @ fence @ post)
           = Some (''{'' @ body @ ''}'', post)"
proof -
  let ?r = "ws1 @ CHR ''{'' # body @ CHR ''}'' # ws2 @ fence @ post"
  have "take 4 ?r \<noteq> ''json''"
    using assms(2) by (cases ws1) (auto simp: py_isspace_def)
  moreover have "dropWhile py_isspace ?r = CHR ''{'' # body @ CHR ''}'' # ws2 @ fence @ post"
    using assms(2) by (simp add: py_isspace_def)
  ultimately show ?thesis
    using assms(1) lazy_close_block [OF assms(4,3), of "[]" post]
    by (auto simp: fence_match_def Let_def fence_def py_isspace_def)
qed

lemma findall_fenced_block:
  assumes "tag \<in> {[], ''json''}" and "\<forall>c \<in> set ws1. py_isspace c" and "\<forall>c \<in> set ws2. py_isspace c"
    and "CHR ''}'' \<notin> set body"
  shows "findall_fenced (fence @ tag @ ws1 @ CHR ''{'' # body @ CHR ''}'' # ws2 @ fence @ post)
           = (''{'' @ body @ ''}'') # findall_fenced post"
proof -
  have "findall_fenced (CHR ''`'' # xs) =
          (case fence_match (CHR ''`'' # xs) of Some (g, rest) \<Rightarrow> g # findall_fenced rest | None \<Rightarrow> findall_fenced xs)"
    for xs by simp
  from this [of "tl fence @ tag @ ws1 @ CHR ''{'' # body @ CHR ''}'' # ws2 @ fence @ post"]
    fence_match_block [OF assms, of post]
  show ?thesis by (simp add: fence_def)
qed

text \<open>C29: If the stripped answer is not JSON, and its first fenced block (three backticks, an
  optional json tag, whitespace, an object whose text has no closing brace inside, whitespace, three
  backticks) parses, _parse_articles_payload returns that block's value, whatever follows it.\<close>

theorem parse_articles_payload_fenced:
  assumes "py_strip t = pre @ fence @ tag @ ws1 @ CHR ''{'' # body @ CHR ''}'' # ws2 @ fence @ post"
    and "CHR ''`'' \<notin> set pre" and "tag \<in> {[], ''json''}"
    and "\<forall>c \<in> set ws1. py_isspace c" and "\<forall>c \<in> set ws2. py_isspace c" and "CHR ''}'' \<notin> set body"
    and "json_loads e (py_strip t) = None" and "json_loads e (''{'' @ body @ ''}'') = Some v"
  shows "parse_articles_payload e t = Inr v"
  using assms findall_fenced_block [OF assms(3-6), of post]
  by (simp add: parse_articles_payload_def findall_fenced_skip)

lemma first_parsed_Some: "first_parsed loads bs = Some v \<Longrightarrow> \<exists>b \<in> set bs. loads b = Some v"
  by (induction bs) (auto split: option.splits)

theorem parse_articles_payload_parsed:
  "parse_articles_payload e t = Inr v \<Longrightarrow> \<exists>s. json_loads e s = Some v"
  by (auto simp: parse_articles_payload_def Let_def split: option.splits if_splits dest: first_parsed_Some)

text \<open>C23: deduplicate_articles keeps a subsequence of the articles, each with a hashable key (url, else title), no two with equal keys.\<close>

theorem deduplicate_articles_spec:
  "deduplicate_articles es = Inr us \<Longrightarrow>
   subseq us es \<and> (\<forall>u \<in> set us. \<exists>k. unique_key u = Some k \<and> hashable k) \<and> sorted_wrt keys_differ us"
  unfolding deduplicate_articles_def by (drule dedup_loop_spec) auto

text \<open>C24: Every article with a key is kept, or an earlier article in the input with an equal key is kept.\<close>

theorem deduplicate_articles_complete:
  "deduplicate_articles es = Inr us \<Longrightarrow> i < length es \<Longrightarrow> unique_key (es ! i) = Some k \<Longrightarrow>
   es ! i \<in> set us \<or> (\<exists>j<i. es ! j \<in> set us \<and> (\<exists>k'. unique_key (es ! j) = Some k' \<and> py_key_eq k' k))"
  unfolding deduplicate_articles_def by (drule dedup_loop_first) auto

text \<open>C25: take_latest returns the first limit articles of the library's stable sort by descending publication time.\<close>

theorem take_latest_sort_key:
  "take_latest es limit = Inr r \<Longrightarrow> 0 \<le> limit \<Longrightarrow>
   r = take (nat limit) (sort_key (\<lambda>a. - dt_order_key (published_at a)) es)"
  by (drule take_latest_Inr) (simp add: py_slice_to_def py_sorted_desc_eq_sort_key)

text \<open>C13: An OpenAI search answer that parses as JSON but is not an object makes fetch_articles raise AttributeError instead of returning no articles.\<close>

theorem fetch_articles_wrong_shape:
  assumes "openai_available e"
    and "search_respond e [(''system'', fetch_system_prompt limit), (''user'', fetch_user_prompt name)] = Responded t"
    and "json_loads e (py_strip t) = Some v" and "\<forall>kvs. v \<noteq> JDict kvs"
  shows "fetch_articles e now name limit = Inl AttributeError"
  using assms by (simp add: fetch_articles_def parse_articles_payload_def py_get_non_dict)

end
