(* ===== verification/Scoring.thy ===== *)
theory Scoring
  imports Articles
begin

text \<open>
  The scoring engine: the methods of \<^verbatim>\<open>ESGService\<close> in \<^verbatim>\<open>src/esg/services.py\<close> from
  \<^verbatim>\<open>_analyse_articles\<close> to \<^verbatim>\<open>_format_display_date\<close>. An analysed item is the dict
  the code builds; its scores are exact rationals (Python floats, or the ints 0 and 70 of
  the heuristic). An analysis is the dict \<^verbatim>\<open>{'items': ..., 'overall_score': ...}\<close>;
  its overall score is a JSON value, since the oracle's value is passed on verbatim.
\<close>

record score_set =
  environment :: rat
  social :: rat
  governance :: rat
  overall :: rat

record analysed_item =
  ai_title :: json
  ai_description :: json
  ai_date :: json
  ai_display_date :: json
  ai_source :: json
  ai_url :: json
  ai_scores :: score_set

record analysis =
  an_items :: "analysed_item list"
  an_overall :: json

section \<open>Scores\<close>

definition WEIGHTS :: "(string \<times> nat) list" where
  "WEIGHTS = [(''environment'', 4), (''social'', 3), (''governance'', 3)]"

text \<open>\<^verbatim>\<open>WEIGHTS[k]\<close> for the three keys the code uses; they are all present.\<close>

definition weight :: "string \<Rightarrow> nat" where
  "weight k = (case map_of WEIGHTS k of Some w \<Rightarrow> w | None \<Rightarrow> 0)"

text \<open>
  IEEE \<^verbatim>\<open><\<close>: false whenever a NaN is involved. Python's \<^verbatim>\<open>min(a, b)\<close> keeps
  \<open>a\<close> unless \<open>b < a\<close>; \<^verbatim>\<open>max(a, b)\<close> keeps \<open>a\<close> unless \<open>a < b\<close>.
\<close>

fun pf_less :: "pyfloat \<Rightarrow> pyfloat \<Rightarrow> bool" where
  "pf_less (Fin a) (Fin b) = (a < b)"
| "pf_less NegInf (Fin _) = True"
| "pf_less NegInf PosInf = True"
| "pf_less (Fin _) PosInf = True"
| "pf_less _ _ = False"

definition py_min2 :: "pyfloat \<Rightarrow> pyfloat \<Rightarrow> pyfloat" where
  "py_min2 a b = (if pf_less b a then b else a)"

definition py_max2 :: "pyfloat \<Rightarrow> pyfloat \<Rightarrow> pyfloat" where
  "py_max2 a b = (if pf_less a b then b else a)"

text \<open>
  \<^verbatim>\<open>max(0.0, min(100.0, number))\<close>. The result is always finite
  (\<open>clamp_pf_Fin\<close> below); \<open>clamp_score\<close> reads it as a rational.
\<close>

definition clamp_pf :: "pyfloat \<Rightarrow> pyfloat" where
  "clamp_pf n = py_max2 (Fin 0) (py_min2 (Fin 100) n)"

definition clamp_score :: "pyfloat \<Rightarrow> rat" where
  "clamp_score n = (case clamp_pf n of Fin r \<Rightarrow> r | _ \<Rightarrow> 0)"

definition coerce_score :: "json \<Rightarrow> rat \<Rightarrow> rat" where
  "coerce_score value dflt = (case py_float value of None \<Rightarrow> dflt | Some n \<Rightarrow> clamp_score n)"

text \<open>
  \<^verbatim>\<open>_calculate_weighted_score\<close> on the dict of scores; a missing key reads
  \<^verbatim>\<open>None\<close> and coerces to 0.
\<close>

definition score_get :: "(string \<times> json) list \<Rightarrow> string \<Rightarrow> json" where
  "score_get scores k = (case dict_lookup scores k of Some v \<Rightarrow> v | None \<Rightarrow> JNone)"

definition calculate_weighted_score :: "(string \<times> json) list \<Rightarrow> rat" where
  "calculate_weighted_score scores =
     (let total_weight = sum_list (map snd WEIGHTS);
          weighted_sum =
            of_nat (weight ''environment'') * coerce_score (score_get scores ''environment'') 0
            + of_nat (weight ''social'') * coerce_score (score_get scores ''social'') 0
            + of_nat (weight ''governance'') * coerce_score (score_get scores ''governance'') 0
      in if total_weight \<noteq> 0 then round2 (weighted_sum / of_nat total_weight) else 0)"

definition score_dict :: "rat \<Rightarrow> rat \<Rightarrow> rat \<Rightarrow> (string \<times> json) list" where
  "score_dict e s g =
     [(''environment'', JFloat (Fin e)), (''social'', JFloat (Fin s)), (''governance'', JFloat (Fin g))]"

text \<open>The well-formedness of a score set: every score in [0, 100].\<close>

definition wf_scores :: "score_set \<Rightarrow> bool" where
  "wf_scores s \<longleftrightarrow>
     0 \<le> environment s \<and> environment s \<le> 100 \<and> 0 \<le> social s \<and> social s \<le> 100
     \<and> 0 \<le> governance s \<and> governance s \<le> 100 \<and> 0 \<le> overall s \<and> overall s \<le> 100"

section \<open>Items\<close>

text \<open>
  \<^verbatim>\<open>_format_display_date\<close>: the date in \<^verbatim>\<open>%b %d, %Y\<close>, else the value itself if it
  is truthy, else \<^verbatim>\<open>'N/A'\<close>.
\<close>

definition format_display_date :: "env \<Rightarrow> json \<Rightarrow> json" where
  "format_display_date e value =
     (let dt = (if py_truthy value then safe_parse_datetime (date_parser e) value else None)
      in case dt of None \<Rightarrow> py_or value (JStr ''N/A'') | Some d \<Rightarrow> JStr (strftime_date d))"

text \<open>The score block of \<^verbatim>\<open>_normalize_item_structure\<close>, on \<^verbatim>\<open>item.get('scores')\<close>.\<close>

definition normalize_scores :: "json \<Rightarrow> score_set result" where
  "normalize_scores sc =
     (let scores = py_or sc (JDict []) in
      rbind (py_get scores ''environment'' JNone) (\<lambda>ev.
      rbind (py_get scores ''social'' JNone) (\<lambda>sv.
      rbind (py_get scores ''governance'' JNone) (\<lambda>gv.
      let en = coerce_score ev 0; so = coerce_score sv 0; go = coerce_score gv 0 in
      rbind (py_get scores ''overall'' JNone) (\<lambda>ov.
      let ovr = coerce_score ov (calculate_weighted_score (score_dict en so go))
      in Inr \<lparr>environment = en, social = so, governance = go, overall = ovr\<rparr>)))))"

definition normalize_item_structure :: "env \<Rightarrow> json \<Rightarrow> analysed_item result" where
  "normalize_item_structure e item =
     rbind (py_get item ''scores'' JNone) (\<lambda>sc.
     rbind (normalize_scores sc) (\<lambda>normalized_scores.
     rbind (py_get item ''date'' JNone) (\<lambda>d.
     rbind (if py_truthy d then Inr d else py_get item ''published_at'' JNone) (\<lambda>date_value.
     rbind (py_get item ''title'' (JStr [])) (\<lambda>t.
     rbind (py_get item ''description'' (JStr [])) (\<lambda>ds.
     rbind (py_get item ''source'' JNone) (\<lambda>src.
     rbind (py_get item ''url'' JNone) (\<lambda>u.
     Inr \<lparr>ai_title = t, ai_description = ds, ai_date = date_value,
          ai_display_date = format_display_date e date_value, ai_source = src, ai_url = u,
          ai_scores = normalized_scores\<rparr>))))))))"

definition item_overall :: "analysed_item \<Rightarrow> rat" where
  "item_overall i = overall (ai_scores i)"

definition compute_overall_score :: "analysed_item list \<Rightarrow> rat" where
  "compute_overall_score items =
     (if items = [] then 0
      else let valid_scores = map item_overall items
           in if valid_scores = [] then 0
              else round2 (sum_list valid_scores / of_nat (length valid_scores)))"

definition sort_items_by_score :: "analysed_item list \<Rightarrow> analysed_item list" where
  "sort_items_by_score items = py_sorted_desc item_overall items"

section \<open>The heuristic path\<close>

text \<open>\<^verbatim>\<open>' '.join(filter(None, [title, description]))\<close>: \<^verbatim>\<open>TypeError\<close> on a non-string.\<close>

definition article_text :: "article \<Rightarrow> string result" where
  "article_text a =
     (let parts = filter py_truthy [title a, description a]
      in if \<forall>p \<in> set parts. is_jstr p
         then Inr (py_join '' '' (map jstr_val parts))
         else Inl TypeError)"

definition base_score :: int where
  "base_score = 70"

definition initial_scores :: "(string \<times> json) list" where
  "initial_scores = [(''environment'', JInt 0), (''social'', JInt 0), (''governance'', JInt 0)]"

definition heuristic_scores :: "string list \<Rightarrow> (string \<times> json) list" where
  "heuristic_scores aspects = fold (\<lambda>aspect sc. dict_set sc aspect (JInt base_score)) aspects initial_scores"

definition int_score :: "(string \<times> json) list \<Rightarrow> string \<Rightarrow> rat" where
  "int_score sc k = (case dict_lookup sc k of Some (JInt i) \<Rightarrow> of_int i | _ \<Rightarrow> 0)"

definition heuristic_item :: "env \<Rightarrow> article \<Rightarrow> analysed_item result" where
  "heuristic_item e a =
     rbind (article_text a) (\<lambda>text.
     let aspects = detect_esg_aspects text ESG_KEYWORDS;
         scores = heuristic_scores aspects;
         ovr = calculate_weighted_score scores;
         date_iso = JStr (isoformat (published_at a))
     in Inr \<lparr>ai_title = title a, ai_description = description a, ai_date = date_iso,
             ai_display_date = format_display_date e date_iso, ai_source = source a, ai_url = url a,
             ai_scores = \<lparr>environment = int_score scores ''environment'',
                          social = int_score scores ''social'',
                          governance = int_score scores ''governance'', overall = ovr\<rparr>\<rparr>)"

definition analyse_with_heuristics :: "env \<Rightarrow> article list \<Rightarrow> analysis result" where
  "analyse_with_heuristics e articles =
     rbind (result_map (heuristic_item e) articles) (\<lambda>items.
     let sorted_items = sort_items_by_score items
     in Inr \<lparr>an_items = sorted_items, an_overall = JFloat (Fin (compute_overall_score sorted_items))\<rparr>)"

section \<open>The oracle path\<close>

definition article_payload :: "article \<Rightarrow> json" where
  "article_payload a =
     JDict [(''title'', title a), (''description'', description a), (''url'', url a),
            (''source'', source a), (''published_at'', JStr (isoformat (published_at a)))]"

definition analysis_system_prompt :: "string \<Rightarrow> string" where
  "analysis_system_prompt company_name =
     ''You are an ESG analyst. Analyse the provided news items for ''
     @ company_name @ '' and return a JSON report with keys 'items' and 'overall_score'. ''
     @ ''Each item must include 'title', 'description', 'date', 'source', 'url', and a 'scores' object ''
     @ ''with numeric values (0-100) for 'environment', 'social', 'governance', and 'overall'.''"

definition analysis_user_prompt :: "env \<Rightarrow> article list \<Rightarrow> string" where
  "analysis_user_prompt e articles =
     ''News items JSON:'' @ nl @ json_dumps e (JList (map article_payload articles)) @ nl @ nl
     @ ''Respond strictly in JSON.''"

definition analyse_with_openai :: "env \<Rightarrow> string \<Rightarrow> article list \<Rightarrow> analysis result" where
  "analyse_with_openai e company_name articles =
     rbind (execute_openai_prompt e (analysis_user_prompt e articles)
              (Some (analysis_system_prompt company_name))) (\<lambda>response_text.
     rbind (case json_loads e response_text of
              None \<Rightarrow> Inl (ESGServiceError ''Failed to parse OpenAI ESG analysis'')
            | Some v \<Rightarrow> Inr v) (\<lambda>parsed.
     rbind (py_get parsed ''items'' (JList [])) (\<lambda>raw_items.
     rbind (py_iter raw_items) (\<lambda>its.
     rbind (result_map (normalize_item_structure e) its) (\<lambda>items.
     let sorted_items = sort_items_by_score items in
     rbind (py_get parsed ''overall_score'' JNone) (\<lambda>ov.
     let overall_score = (if ov = JNone then JFloat (Fin (compute_overall_score sorted_items)) else ov)
     in Inr \<lparr>an_items = sorted_items, an_overall = py_or overall_score (JInt 0)\<rparr>))))))"

text \<open>\<^verbatim>\<open>_analyse_articles\<close>: only \<^verbatim>\<open>ESGServiceError\<close> falls back to the heuristic.\<close>

definition analyse_articles :: "env \<Rightarrow> string \<Rightarrow> article list \<Rightarrow> analysis result" where
  "analyse_articles e company_name articles =
     (if articles = [] then Inr \<lparr>an_items = [], an_overall = JInt 0\<rparr>
      else if openai_available e then
        (case analyse_with_openai e company_name articles of
           Inl x \<Rightarrow> if is_esg_error x then analyse_with_heuristics e articles else Inl x
         | Inr r \<Rightarrow> Inr r)
      else analyse_with_heuristics e articles)"

text \<open>What an analysis promises: every item's scores well formed, items by descending overall score.\<close>

definition analysis_ok :: "analysis \<Rightarrow> bool" where
  "analysis_ok r \<longleftrightarrow>
     (\<forall>i \<in> set (an_items r). wf_scores (ai_scores i)) \<and> sorted (rev (map item_overall (an_items r)))"

text \<open>\<^verbatim>\<open>scores.get(k)\<close> on a dict.\<close>

definition score_field :: "(string \<times> json) list \<Rightarrow> string \<Rightarrow> json" where
  "score_field sc k = (case dict_lookup sc k of None \<Rightarrow> JNone | Some v \<Rightarrow> v)"

section \<open>Scores: bounds and formula\<close>

lemma clamp_pf_Fin: "clamp_pf n = Fin (clamp_score n) \<and> 0 \<le> clamp_score n \<and> clamp_score n \<le> 100"
  by (cases n) (auto simp: clamp_pf_def clamp_score_def py_min2_def py_max2_def)

lemma clamp_score_Fin: "clamp_score (Fin r) = max 0 (min 100 r)"
  by (auto simp: clamp_score_def clamp_pf_def py_min2_def py_max2_def)

lemma coerce_score_bounds:
  "0 \<le> d \<Longrightarrow> d \<le> 100 \<Longrightarrow> 0 \<le> coerce_score v d \<and> coerce_score v d \<le> 100"
  using clamp_pf_Fin by (auto simp: coerce_score_def split: option.splits)

lemma coerce_score_converted:
  "py_float v = Some n \<Longrightarrow> 0 \<le> coerce_score v d \<and> coerce_score v d \<le> 100"
  using clamp_pf_Fin by (simp add: coerce_score_def)

lemma coerce_score_unconverted: "py_float v = None \<Longrightarrow> coerce_score v d = d"
  by (simp add: coerce_score_def)

lemma coerce_score_in_range: "0 \<le> r \<Longrightarrow> r \<le> 100 \<Longrightarrow> coerce_score (JFloat (Fin r)) d = r"
  by (simp add: coerce_score_def clamp_score_Fin)

lemma coerce_score_int_in_range: "0 \<le> i \<Longrightarrow> i \<le> 100 \<Longrightarrow> coerce_score (JInt i) d = of_int i"
  by (simp add: coerce_score_def clamp_score_Fin)

text \<open>C16: A score that float() reads as NaN -- a JSON NaN, or a string that is "nan" in any
  case with an optional sign and surrounding whitespace -- is clamped to 100, not replaced by the default.\<close>

theorem coerce_score_NaN:
  "v = JFloat NaN \<or> (\<exists>s. v = JStr s \<and> py_lower (py_strip s) \<in> {''nan'', ''+nan'', ''-nan''})
   \<Longrightarrow> coerce_score v d = 100"
proof -
  assume "v = JFloat NaN \<or> (\<exists>s. v = JStr s \<and> py_lower (py_strip s) \<in> {''nan'', ''+nan'', ''-nan''})"
  then have "py_float v = Some NaN" by (auto intro: parse_float_NaN)
  then show ?thesis by (simp add: coerce_score_def clamp_score_def clamp_pf_def py_min2_def py_max2_def)
qed

lemma round_half_even_range:
  "0 \<le> y \<Longrightarrow> y \<le> of_int n \<Longrightarrow> 0 \<le> round_half_even y \<and> round_half_even y \<le> n"
proof -
  assume y: "0 \<le> y" "y \<le> of_int n"
  have b: "y - 1/2 \<le> of_int (round_half_even y)" "of_int (round_half_even y) \<le> y + 1/2"
    using round_half_even_bounds [of y] by auto
  from b(1) y(1) have "of_int (-1) < (of_int (round_half_even y) :: rat)"
    by simp
  then have "-1 < round_half_even y"
    by (simp only: of_int_less_iff)
  moreover from b(2) y(2) have "of_int (round_half_even y) < (of_int (n + 1) :: rat)"
    by simp
  then have "round_half_even y < n + 1"
    by (simp only: of_int_less_iff)
  ultimately show ?thesis by linarith
qed

lemma round2_bounds: "0 \<le> x \<Longrightarrow> x \<le> 100 \<Longrightarrow> 0 \<le> round2 x \<and> round2 x \<le> 100"
  using round_half_even_range [of "x * 100" 10000] by (simp add: round2_def)

lemma weights_values [simp]:
  "weight ''environment'' = 4" "weight ''social'' = 3" "weight ''governance'' = 3"
  "sum_list (map snd WEIGHTS) = 10"
  by (simp_all add: weight_def WEIGHTS_def)

lemma calculate_weighted_score_eq:
  "calculate_weighted_score scores =
     round2 ((4 * coerce_score (score_get scores ''environment'') 0
              + 3 * coerce_score (score_get scores ''social'') 0
              + 3 * coerce_score (score_get scores ''governance'') 0) / 10)"
  by (simp add: calculate_weighted_score_def Let_def)

lemma calculate_weighted_score_bounds:
  "0 \<le> calculate_weighted_score scores \<and> calculate_weighted_score scores \<le> 100"
proof -
  let ?e = "coerce_score (score_get scores ''environment'') 0"
  let ?s = "coerce_score (score_get scores ''social'') 0"
  let ?g = "coerce_score (score_get scores ''governance'') 0"
  have "0 \<le> ?e \<and> ?e \<le> 100" "0 \<le> ?s \<and> ?s \<le> 100" "0 \<le> ?g \<and> ?g \<le> 100"
    by (simp_all add: coerce_score_bounds)
  then have "0 \<le> (4 * ?e + 3 * ?s + 3 * ?g) / 10 \<and> (4 * ?e + 3 * ?s + 3 * ?g) / 10 \<le> 100"
    by auto
  then show ?thesis
    by (simp only: calculate_weighted_score_eq round2_bounds)
qed

lemma score_get_score_dict [simp]:
  "score_get (score_dict e s g) ''environment'' = JFloat (Fin e)"
  "score_get (score_dict e s g) ''social'' = JFloat (Fin s)"
  "score_get (score_dict e s g) ''governance'' = JFloat (Fin g)"
  by (simp_all add: score_get_def score_dict_def dict_lookup_def)

theorem calculate_weighted_score_formula:
  assumes "0 \<le> e" "e \<le> 100" "0 \<le> s" "s \<le> 100" "0 \<le> g" "g \<le> 100"
  shows "calculate_weighted_score (score_dict e s g) = round2 ((4 * e + 3 * s + 3 * g) / 10)"
  using assms by (simp add: calculate_weighted_score_eq coerce_score_in_range)

lemma normalize_scores_wf: "normalize_scores sc = Inr ss \<Longrightarrow> wf_scores ss"
  by (auto simp: normalize_scores_def rbind_eq_Inr Let_def wf_scores_def
      coerce_score_bounds calculate_weighted_score_bounds)

lemma normalize_item_structure_scores:
  "normalize_item_structure e item = Inr i \<Longrightarrow> \<exists>sc. normalize_scores sc = Inr (ai_scores i)"
  unfolding normalize_item_structure_def by (elim rbindE) auto

lemma normalize_item_structure_wf:
  "normalize_item_structure e item = Inr i \<Longrightarrow> wf_scores (ai_scores i)"
  using normalize_item_structure_scores normalize_scores_wf by blast

lemma heuristic_scores_fold:
  "set aspects \<subseteq> {''environment'', ''social'', ''governance''} \<Longrightarrow>
   fold (\<lambda>aspect sc. dict_set sc aspect (JInt base_score)) aspects
     [(''environment'', a), (''social'', b), (''governance'', c)] =
   [(''environment'', if ''environment'' \<in> set aspects then JInt base_score else a),
    (''social'', if ''social'' \<in> set aspects then JInt base_score else b),
    (''governance'', if ''governance'' \<in> set aspects then JInt base_score else c)]"
proof (induction aspects arbitrary: a b c)
  case (Cons x xs)
  from Cons.prems have xs: "set xs \<subseteq> {''environment'', ''social'', ''governance''}"
    and x: "x = ''environment'' \<or> x = ''social'' \<or> x = ''governance''"
    by auto
  from x show ?case
    by (elim disjE) (simp_all add: Cons.IH [OF xs])
qed simp

lemma detect_esg_aspects_keys:
  "set (detect_esg_aspects t ESG_KEYWORDS) \<subseteq> {''environment'', ''social'', ''governance''}"
  using detect_esg_aspects_keys_of [of t ESG_KEYWORDS] by (simp add: ESG_KEYWORDS_aspects)

section \<open>Items and analyses\<close>

lemma heuristic_scores_eq:
  "set aspects \<subseteq> {''environment'', ''social'', ''governance''} \<Longrightarrow>
   heuristic_scores aspects =
   [(''environment'', JInt (if ''environment'' \<in> set aspects then 70 else 0)),
    (''social'', JInt (if ''social'' \<in> set aspects then 70 else 0)),
    (''governance'', JInt (if ''governance'' \<in> set aspects then 70 else 0))]"
  using heuristic_scores_fold [of aspects "JInt 0" "JInt 0" "JInt 0"]
  by (simp add: heuristic_scores_def initial_scores_def base_score_def)

lemma heuristic_item_eq:
  assumes "article_text a = Inr t"
  defines "A \<equiv> set (detect_esg_aspects t ESG_KEYWORDS)"
  shows "heuristic_item e a = Inr
    \<lparr>ai_title = title a, ai_description = description a, ai_date = JStr (isoformat (published_at a)),
     ai_display_date = format_display_date e (JStr (isoformat (published_at a))),
     ai_source = source a, ai_url = url a,
     ai_scores = \<lparr>environment = (if ''environment'' \<in> A then 70 else 0),
                  social = (if ''social'' \<in> A then 70 else 0),
                  governance = (if ''governance'' \<in> A then 70 else 0),
                  overall = round2 ((4 * (if ''environment'' \<in> A then 70 else 0)
                                     + 3 * (if ''social'' \<in> A then 70 else 0)
                                     + 3 * (if ''governance'' \<in> A then 70 else 0)) / 10)\<rparr>\<rparr>"
proof -
  have hs: "heuristic_scores (detect_esg_aspects t ESG_KEYWORDS) =
   [(''environment'', JInt (if ''environment'' \<in> A then 70 else 0)),
    (''social'', JInt (if ''social'' \<in> A then 70 else 0)),
    (''governance'', JInt (if ''governance'' \<in> A then 70 else 0))]"
    unfolding A_def by (rule heuristic_scores_eq [OF detect_esg_aspects_keys])
  show ?thesis
    using assms(1)
    by (simp add: heuristic_item_def hs Let_def int_score_def dict_lookup_def calculate_weighted_score_eq
        score_get_def coerce_score_def clamp_score_Fin)
qed

lemma heuristic_item_wf: "heuristic_item e a = Inr i \<Longrightarrow> wf_scores (ai_scores i)"
proof -
  assume h: "heuristic_item e a = Inr i"
  then obtain t where t: "article_text a = Inr t"
    by (auto simp: heuristic_item_def)
  let ?A = "set (detect_esg_aspects t ESG_KEYWORDS)"
  let ?x = "(4 * (if ''environment'' \<in> ?A then 70 else 0) + 3 * (if ''social'' \<in> ?A then 70 else 0)
             + 3 * (if ''governance'' \<in> ?A then 70 else 0)) / (10::rat)"
  have "0 \<le> ?x \<and> ?x \<le> 100" by auto
  then have "0 \<le> round2 ?x \<and> round2 ?x \<le> 100" using round2_bounds by blast
  then show ?thesis
    using h heuristic_item_eq [OF t] by (auto simp: wf_scores_def)
qed

lemma sort_items_by_score_sorted: "sorted (rev (map item_overall (sort_items_by_score items)))"
  by (simp add: sort_items_by_score_def py_sorted_desc_sorted)

lemma set_sort_items_by_score [simp]: "set (sort_items_by_score items) = set items"
  by (simp add: sort_items_by_score_def)

lemma analyse_with_heuristics_Inr:
  "analyse_with_heuristics e articles = Inr r \<Longrightarrow>
   \<exists>items. result_map (heuristic_item e) articles = Inr items \<and> an_items r = sort_items_by_score items
     \<and> an_overall r = JFloat (Fin (compute_overall_score (an_items r)))"
  unfolding analyse_with_heuristics_def Let_def by (elim rbindE) auto

lemma analyse_with_openai_Inr:
  "analyse_with_openai e c articles = Inr r \<Longrightarrow>
   \<exists>its items. result_map (normalize_item_structure e) its = Inr items \<and> an_items r = sort_items_by_score items"
  unfolding analyse_with_openai_def Let_def by (elim rbindE) fastforce

lemma analyse_with_heuristics_ok: "analyse_with_heuristics e articles = Inr r \<Longrightarrow> analysis_ok r"
  using heuristic_item_wf
  by (fastforce simp: analysis_ok_def sort_items_by_score_sorted dest!: analyse_with_heuristics_Inr
      dest: result_map_Inr_all [where P = "\<lambda>i. wf_scores (ai_scores i)"])

lemma analyse_with_openai_ok: "analyse_with_openai e c articles = Inr r \<Longrightarrow> analysis_ok r"
  using normalize_item_structure_wf
  by (fastforce simp: analysis_ok_def sort_items_by_score_sorted dest!: analyse_with_openai_Inr
      dest: result_map_Inr_all [where P = "\<lambda>i. wf_scores (ai_scores i)"])

theorem analyse_articles_ok: "analyse_articles e c articles = Inr r \<Longrightarrow> analysis_ok r"
  unfolding analyse_articles_def
  by (auto simp: analysis_ok_def split: if_splits sum.splits
      dest: analyse_with_heuristics_ok analyse_with_openai_ok)

lemma analyse_articles_empty: "analyse_articles e c [] = Inr \<lparr>an_items = [], an_overall = JInt 0\<rparr>"
  by (simp add: analyse_articles_def)

text \<open>C11: For a non-empty article list, analysis falls back to the keyword heuristics when OpenAI is not configured or its analysis raises an ESG service error.\<close>

theorem analyse_articles_fallback:
  assumes "articles \<noteq> []"
    and "\<not> openai_available e \<or> (\<exists>x. analyse_with_openai e c articles = Inl x \<and> is_esg_error x)"
  shows "analyse_articles e c articles = analyse_with_heuristics e articles"
  using assms by (auto simp: analyse_articles_def)

text \<open>C12: An exception of the OpenAI analysis that is not an ESG service error (for example AttributeError on a JSON answer that is not an object) is not caught by _analyse_articles and propagates.\<close>

theorem analyse_articles_escapes:
  assumes "articles \<noteq> []" and "openai_available e"
    and "analyse_with_openai e c articles = Inl x" and "\<not> is_esg_error x"
  shows "analyse_articles e c articles = Inl x"
  using assms by (simp add: analyse_articles_def)

lemma article_text_total:
  "(py_truthy (title a) \<longrightarrow> is_jstr (title a)) \<Longrightarrow> (py_truthy (description a) \<longrightarrow> is_jstr (description a)) \<Longrightarrow>
   \<exists>t. article_text a = Inr t"
  unfolding article_text_def Let_def by (cases "title a"; cases "description a") auto

lemma heuristic_item_total:
  "(py_truthy (title a) \<longrightarrow> is_jstr (title a)) \<Longrightarrow> (py_truthy (description a) \<longrightarrow> is_jstr (description a)) \<Longrightarrow>
   \<exists>i. heuristic_item e a = Inr i"
  by (metis article_text_total heuristic_item_eq)

text \<open>C18: The heuristic analysis returns one item per article whenever every truthy title and description is a string.\<close>

theorem analyse_with_heuristics_total:
  assumes "\<forall>a \<in> set articles. (py_truthy (title a) \<longrightarrow> is_jstr (title a))
                              \<and> (py_truthy (description a) \<longrightarrow> is_jstr (description a))"
  shows "\<exists>r. analyse_with_heuristics e articles = Inr r \<and> length (an_items r) = length articles"
proof -
  obtain items where items: "result_map (heuristic_item e) articles = Inr items"
    using result_map_total [of articles "heuristic_item e"] assms heuristic_item_total by blast
  then show ?thesis
    by (simp add: analyse_with_heuristics_def sort_items_by_score_def Let_def result_map_Inr_length)
qed

lemma compute_overall_score_eq:
  "items \<noteq> [] \<Longrightarrow> compute_overall_score items = round2 (sum_list (map item_overall items) / of_nat (length items))"
  by (simp add: compute_overall_score_def)

lemma analyse_with_openai_non_dict:
  assumes "execute_openai_prompt e (analysis_user_prompt e articles) (Some (analysis_system_prompt c)) = Inr txt"
    and "json_loads e txt = Some v" and "\<forall>kvs. v \<noteq> JDict kvs"
  shows "analyse_with_openai e c articles = Inl AttributeError"
  unfolding analyse_with_openai_def
  by (simp only: assms rbind_Inr rbind_Inl option.case py_get_non_dict [OF assms(3)])


lemma analyse_with_heuristics_Inl: "analyse_with_heuristics e articles = Inl x \<Longrightarrow> x = TypeError"
  unfolding analyse_with_heuristics_def heuristic_item_def Let_def
  by (auto dest!: rbind_eq_Inl result_map_Inl simp: article_text_def Let_def split: if_splits)

lemma analyse_articles_Inl: "analyse_articles e c articles = Inl x \<Longrightarrow> \<not> is_esg_error x"
  unfolding analyse_articles_def
  by (auto split: if_splits sum.splits dest: analyse_with_heuristics_Inl)

lemma normalize_scores_JDict:
  "normalize_scores (JDict sc) =
     (let en = coerce_score (score_field sc ''environment'') 0;
          so = coerce_score (score_field sc ''social'') 0;
          go = coerce_score (score_field sc ''governance'') 0
      in Inr \<lparr>environment = en, social = so, governance = go,
              overall = coerce_score (score_field sc ''overall'') (calculate_weighted_score (score_dict en so go))\<rparr>)"
  by (cases "sc = []") (simp_all add: normalize_scores_def py_or_def score_field_def dict_lookup_def Let_def)

lemma normalize_item_structure_scores_dict:
  "dict_lookup kvs ''scores'' = Some (JDict sc) \<Longrightarrow> normalize_item_structure e (JDict kvs) = Inr i \<Longrightarrow>
   normalize_scores (JDict sc) = Inr (ai_scores i)"
  unfolding normalize_item_structure_def by (elim rbindE) auto

text \<open>C15: When an analysed item's overall score is missing or not a number, it is recomputed as the rounded weighted sum of the item's normalized aspect scores.\<close>

theorem normalize_item_recomputes_overall:
  assumes "dict_lookup kvs ''scores'' = Some (JDict sc)"
    and "py_float (score_field sc ''overall'') = None"
    and "normalize_item_structure e (JDict kvs) = Inr i"
  shows "overall (ai_scores i) =
         round2 ((4 * environment (ai_scores i) + 3 * social (ai_scores i) + 3 * governance (ai_scores i)) / 10)"
proof -
  have ns: "normalize_scores (JDict sc) = Inr (ai_scores i)"
    using assms(1,3) by (rule normalize_item_structure_scores_dict)
  have b: "0 \<le> coerce_score v 0 \<and> coerce_score v 0 \<le> 100" for v
    by (simp add: coerce_score_bounds)
  from ns [symmetric] assms(2) show ?thesis
    by (simp add: normalize_scores_JDict Let_def coerce_score_unconverted calculate_weighted_score_formula b)
qed

text \<open>C20: Keyword matching is by substring: any text containing sec (as in second or sector) is flagged as a governance risk.\<close>

theorem sec_substring_flags_governance:
  "py_in ''sec'' (py_lower t) \<Longrightarrow> ''governance'' \<in> set (detect_esg_aspects t ESG_KEYWORDS)"
  by (simp add: detect_esg_aspects_iff ESG_KEYWORDS_def GOVERNANCE_KEYWORDS_def)

text \<open>C14: The heuristic scores of an article are 70 on each ESG aspect whose keywords occur in its title and description and 0 otherwise, with the overall score the rounded weighted sum 0.4/0.3/0.3.\<close>

theorem heuristic_item_scores:
  assumes "article_text a = Inr t" and "heuristic_item e a = Inr i"
  shows "ai_scores i =
    (let A = set (detect_esg_aspects t ESG_KEYWORDS);
         en = (if ''environment'' \<in> A then 70 else 0);
         so = (if ''social'' \<in> A then 70 else 0);
         go = (if ''governance'' \<in> A then 70 else 0)
     in \<lparr>environment = en, social = so, governance = go, overall = round2 ((4 * en + 3 * so + 3 * go) / 10)\<rparr>)"
  using heuristic_item_eq [OF assms(1), of e] assms(2) by (simp add: Let_def)

text \<open>C17: _format_display_date returns a string exactly when its argument is a string or falsy; a truthy non-string date (such as a number from the model's JSON) is returned unchanged, against the str annotation.\<close>

theorem format_display_date_type:
  "is_jstr (format_display_date e v) \<longleftrightarrow> is_jstr v \<or> \<not> py_truthy v"
  by (cases v) (auto simp: format_display_date_def safe_parse_datetime_def py_or_def split: option.splits)

text \<open>C37: The top-level overall_score of the OpenAI answer is passed through unchecked (not coerced to a number nor clamped to [0, 100]) whenever it is present.\<close>

theorem analyse_with_openai_overall_unchecked:
  assumes "execute_openai_prompt e (analysis_user_prompt e articles) (Some (analysis_system_prompt c)) = Inr resp"
    and "json_loads e resp = Some (JDict kvs)" and "dict_lookup kvs ''overall_score'' = Some ov" and "ov \<noteq> JNone"
    and "analyse_with_openai e c articles = Inr r"
  shows "an_overall r = py_or ov (JInt 0)"
  using assms unfolding analyse_with_openai_def Let_def
  by (auto elim!: rbindE)

end
