(* ===== verification/Profile.thy ===== *)
theory Profile
  imports Scoring
begin

text \<open>
  The profile service: \<^verbatim>\<open>ESGService.get_company_esg_profile\<close>,
  \<^verbatim>\<open>_build_profile\<close> and \<^verbatim>\<open>_fetch_company_overview\<close> of \<^verbatim>\<open>src/esg/services.py\<close>,
  over the shared cache. The cache (Django's cache framework, outside the repository) is
  modelled from its interface in the spec: a map from key to value and expiry time;
  \<^verbatim>\<open>get\<close> answers only before the expiry, \<^verbatim>\<open>set\<close> stores with expiry now plus the
  timeout. One call reads four clocks: the cache lookup, the articles' default date,
  the profile's generation time and the cache write.
\<close>

record profile =
  company :: string
  generated_at :: string
  generated_at_display :: string
  overview :: string
  overall_score :: json
  items :: "analysed_item list"
  total_items :: nat
  search_window_days :: nat

type_synonym cache = "string \<Rightarrow> (profile \<times> int) option"

definition cache_get :: "cache \<Rightarrow> string \<Rightarrow> int \<Rightarrow> profile option" where
  "cache_get c k now = (case c k of Some (v, expiry) \<Rightarrow> if now < expiry then Some v else None | None \<Rightarrow> None)"

definition cache_set :: "cache \<Rightarrow> string \<Rightarrow> profile \<Rightarrow> int \<Rightarrow> int \<Rightarrow> cache" where
  "cache_set c k v timeout now = c(k \<mapsto> (v, now + timeout))"

text \<open>\<^verbatim>\<open>ESGService(cache_timeout=60 * 60, max_items=50)\<close>.\<close>

record service =
  cache_timeout :: int
  max_items :: int

definition default_service :: service where
  "default_service = \<lparr>cache_timeout = 60 * 60, max_items = 50\<rparr>"

record clocks =
  t_get :: int
  fetch_now :: datetime
  build_now :: datetime
  t_set :: int

definition overview_prompt :: "string \<Rightarrow> string" where
  "overview_prompt company_name =
     ''Provide a concise two-sentence overview of the company named ''
     @ [CHR 0x27] @ company_name @ [CHR 0x27]
     @ ''. Focus on its core business, scale, and recent strategic priorities.''"

definition fetch_company_overview :: "env \<Rightarrow> string \<Rightarrow> string result" where
  "fetch_company_overview e company_name =
     (if \<not> openai_available e
      then Inr (''Overview unavailable for '' @ company_name
                @ ''. Configure OPENAI_API_KEY to enable this summary.'')
      else
        case execute_openai_prompt e (overview_prompt company_name) None of
             Inr response_text \<Rightarrow> Inr (py_strip response_text)
           | Inl x \<Rightarrow> if is_esg_error x then Inr (''Overview unavailable for '' @ company_name @ ''.'')
                     else Inl x)"

definition build_profile :: "service \<Rightarrow> env \<Rightarrow> clocks \<Rightarrow> string \<Rightarrow> profile result" where
  "build_profile svc e clk company_name =
     rbind (fetch_company_overview e company_name) (\<lambda>ov.
     rbind (fetch_articles e (fetch_now clk) company_name (max_items svc)) (\<lambda>articles.
     rbind (analyse_articles e company_name articles) (\<lambda>analysis.
     let now = build_now clk in
     Inr \<lparr>company = company_name, generated_at = isoformat now,
          generated_at_display = strftime_generated now, overview = ov,
          overall_score = an_overall analysis, items = an_items analysis,
          total_items = length (an_items analysis), search_window_days = LOOKBACK_DAYS\<rparr>)))"

definition get_company_esg_profile ::
  "service \<Rightarrow> env \<Rightarrow> clocks \<Rightarrow> string \<Rightarrow> cache \<Rightarrow> ((profile \<times> bool) \<times> cache) result" where
  "get_company_esg_profile svc e clk company_name c =
     (let normalized = normalize_company_name company_name;
          key = make_cache_key (digest e) normalized
      in case cache_get c key (t_get clk) of
           Some cached_value \<Rightarrow> Inr ((cached_value, True), c)
         | None \<Rightarrow>
             rbind (build_profile svc e clk normalized) (\<lambda>p.
               Inr ((p, False), cache_set c key p (cache_timeout svc) (t_set clk))))"

section \<open>The cache and the profile\<close>

lemma make_cache_key_normalized:
  "make_cache_key h (normalize_company_name n) = make_cache_key h n"
  by (simp add: make_cache_key_def normalize_company_name_idem)

lemma cache_get_set_same:
  "now < t + timeout \<Longrightarrow> cache_get (cache_set c k v timeout t) k now = Some v"
  by (simp add: cache_get_def cache_set_def)

lemma get_profile_hit:
  assumes "cache_get c (make_cache_key (digest e) company_name) (t_get clk) = Some p"
  shows "get_company_esg_profile svc e clk company_name c = Inr ((p, True), c)"
  using assms by (simp add: get_company_esg_profile_def make_cache_key_normalized)

lemma get_profile_miss:
  assumes "cache_get c (make_cache_key (digest e) company_name) (t_get clk) = None"
  shows "get_company_esg_profile svc e clk company_name c =
         rbind (build_profile svc e clk (normalize_company_name company_name)) (\<lambda>p.
           Inr ((p, False), cache_set c (make_cache_key (digest e) company_name) p (cache_timeout svc) (t_set clk)))"
  using assms by (simp add: get_company_esg_profile_def make_cache_key_normalized)

lemma build_profile_Inr:
  "build_profile svc e clk name = Inr p \<Longrightarrow>
   \<exists>ov articles an. fetch_articles e (fetch_now clk) name (max_items svc) = Inr articles
     \<and> analyse_articles e name articles = Inr an \<and> items p = an_items an
     \<and> overall_score p = an_overall an \<and> total_items p = length (items p) \<and> company p = name
     \<and> search_window_days p = LOOKBACK_DAYS \<and> overview p = ov"
  unfolding build_profile_def Let_def by (elim rbindE) fastforce

lemma get_profile_store:
  assumes "get_company_esg_profile svc e clk n c = Inr ((p, False), c')"
  shows "build_profile svc e clk (normalize_company_name n) = Inr p
         \<and> c' = cache_set c (make_cache_key (digest e) n) p (cache_timeout svc) (t_set clk)"
proof -
  from assms have "cache_get c (make_cache_key (digest e) n) (t_get clk) = None"
    by (auto simp: get_company_esg_profile_def make_cache_key_normalized Let_def split: option.splits)
  with assms show ?thesis
    by (auto simp: get_profile_miss rbind_eq_Inr)
qed

text \<open>C1: A profile computed on a cache miss is returned from the cache, unchanged and with from_cache set, to any later call within the timeout whose name has the same words up to case; its company is the first caller's normalized name.\<close>

theorem get_profile_cached_within_ttl:
  assumes first: "get_company_esg_profile svc e clk1 n1 c = Inr ((p, False), c')"
    and same: "map py_lower (py_split n1) = map py_lower (py_split n2)"
    and ttl: "t_get clk2 < t_set clk1 + cache_timeout svc"
  shows "get_company_esg_profile svc e clk2 n2 c' = Inr ((p, True), c')
         \<and> company p = normalize_company_name n1"
proof -
  from get_profile_store [OF first] have built: "build_profile svc e clk1 (normalize_company_name n1) = Inr p"
    and c': "c' = cache_set c (make_cache_key (digest e) n1) p (cache_timeout svc) (t_set clk1)"
    by auto
  have "make_cache_key (digest e) n2 = make_cache_key (digest e) n1"
    using make_cache_key_words [OF same] by simp
  with c' ttl have "cache_get c' (make_cache_key (digest e) n2) (t_get clk2) = Some p"
    by (simp add: cache_get_set_same)
  then have "get_company_esg_profile svc e clk2 n2 c' = Inr ((p, True), c')"
    by (rule get_profile_hit)
  moreover from build_profile_Inr [OF built] have "company p = normalize_company_name n1"
    by auto
  ultimately show ?thesis ..
qed

text \<open>C2: Once the stored entry's expiry has passed, get_company_esg_profile recomputes the profile (from_cache is false) and stores the new one under the same key.\<close>

theorem get_profile_after_ttl:
  assumes "c (make_cache_key (digest e) n) = Some (p, expiry)" and "expiry \<le> t_get clk"
    and "get_company_esg_profile svc e clk n c = Inr ((q, from_cache), c')"
  shows "\<not> from_cache \<and> c' = cache_set c (make_cache_key (digest e) n) q (cache_timeout svc) (t_set clk)"
proof -
  from assms(1,2) have "cache_get c (make_cache_key (digest e) n) (t_get clk) = None"
    by (simp add: cache_get_def)
  with assms(3) show ?thesis
    by (auto simp: get_profile_miss rbind_eq_Inr)
qed

lemma fetch_company_overview_Inl: "fetch_company_overview e c = Inl x \<Longrightarrow> \<not> is_esg_error x"
  by (auto simp: fetch_company_overview_def Let_def split: if_splits sum.splits)

lemma get_profile_no_service_error:
  "get_company_esg_profile svc e clk name c = Inl x \<Longrightarrow> \<not> is_esg_error x"
  unfolding get_company_esg_profile_def build_profile_def Let_def
  by (auto split: option.splits dest!: rbind_eq_Inl fetch_articles_Inl
      dest: analyse_articles_Inl fetch_company_overview_Inl)

text \<open>C8: Without the OpenAI client, _build_profile returns the placeholder overview, no items, overall score 0 and the 730-day window, stamped with the build time.\<close>

theorem build_profile_unconfigured:
  "\<not> openai_available e \<Longrightarrow>
   build_profile svc e clk name =
     Inr \<lparr>company = name, generated_at = isoformat (build_now clk),
          generated_at_display = strftime_generated (build_now clk),
          overview = ''Overview unavailable for '' @ name @ ''. Configure OPENAI_API_KEY to enable this summary.'',
          overall_score = JInt 0, items = [], total_items = 0, search_window_days = 730\<rparr>"
  by (simp add: build_profile_def fetch_company_overview_def fetch_articles_def analyse_articles_def
      LOOKBACK_DAYS_def Let_def)

text \<open>C9: When the article fetch yields no articles, the profile has overall score 0, no items and total 0, with the overview as fetched.\<close>

theorem build_profile_no_articles:
  assumes "fetch_articles e (fetch_now clk) name (max_items svc) = Inr []"
    and "fetch_company_overview e name = Inr ov"
  shows "build_profile svc e clk name =
     Inr \<lparr>company = name, generated_at = isoformat (build_now clk),
          generated_at_display = strftime_generated (build_now clk), overview = ov,
          overall_score = JInt 0, items = [], total_items = 0, search_window_days = 730\<rparr>"
  using assms by (simp add: build_profile_def analyse_articles_def LOOKBACK_DAYS_def Let_def)

lemma build_profile_ok:
  "build_profile svc e clk name = Inr p \<Longrightarrow>
   total_items p = length (items p) \<and> (\<forall>i \<in> set (items p). wf_scores (ai_scores i))
   \<and> sorted (rev (map item_overall (items p))) \<and> company p = name"
  by (fastforce dest!: build_profile_Inr analyse_articles_ok simp: analysis_ok_def)

text \<open>The whole effect of a successful call on the cache: a hit leaves it as it is (the expiry
  is not refreshed); a miss writes the one entry under the call's key, expiring one timeout after
  the write.\<close>

lemma get_profile_cache_effect:
  assumes "get_company_esg_profile svc e clk n c = Inr ((p, hit), c')"
  shows "if hit then c' = c \<and> cache_get c (make_cache_key (digest e) n) (t_get clk) = Some p
         else c' = c(make_cache_key (digest e) n \<mapsto> (p, t_set clk + cache_timeout svc))"
proof (cases hit)
  case True
  with assms show ?thesis
    by (auto simp: get_company_esg_profile_def make_cache_key_normalized Let_def rbind_eq_Inr
        split: option.splits)
next
  case False
  with assms show ?thesis by (auto simp: cache_set_def dest: get_profile_store)
qed

text \<open>C19: _fetch_company_overview never raises: without OpenAI it returns the configuration hint; otherwise the stripped answer, or the short placeholder when the request fails or the answer has no text.\<close>

theorem fetch_company_overview_spec:
  "fetch_company_overview e n =
     Inr (if \<not> openai_available e
          then ''Overview unavailable for '' @ n @ ''. Configure OPENAI_API_KEY to enable this summary.''
          else case llm_respond e [(''user'', overview_prompt n)] of
                 Responded t \<Rightarrow> py_strip t
               | _ \<Rightarrow> ''Overview unavailable for '' @ n @ ''.'')"
  by (simp add: fetch_company_overview_def execute_openai_prompt_def split: api_outcome.split)

end
