(* ===== verification/History.thy ===== *)
theory History
  imports Text Dates
begin

text \<open>
  The search history repository, \<^verbatim>\<open>SearchHistoryRepository\<close> of
  \<^verbatim>\<open>src/esg/history.py\<close>, over the table of \<^verbatim>\<open>SearchHistory\<close> rows
  (\<^verbatim>\<open>src/dashboard/models.py\<close>), kept in insertion order. The query
  \<^verbatim>\<open>filter(user_id=...).order_by('-searched_at')\<close> is the user's rows, most recent
  first; rows with the same time keep their insertion order (the database leaves that
  order open; the lemmas below do not depend on it except where they say so).
\<close>

record search_history =
  user_id :: int
  company_name :: string
  searched_at :: datetime

type_synonym history = "search_history list"

definition record_search :: "history \<Rightarrow> int \<Rightarrow> string \<Rightarrow> datetime \<Rightarrow> history" where
  "record_search h uid name now =
     (if uid = 0 \<or> name = [] then h
      else h @ [\<lparr>user_id = uid, company_name = normalize_company_name name, searched_at = now\<rparr>])"

definition user_searches :: "history \<Rightarrow> int \<Rightarrow> history" where
  "user_searches h uid =
     py_sorted_desc (\<lambda>r. dt_order_key (searched_at r)) (filter (\<lambda>r. user_id r = uid) h)"

text \<open>
  The loop of \<^verbatim>\<open>get_recent_searches\<close>: skip a name seen before (case-insensitively),
  append the row, and stop once \<^verbatim>\<open>len(results) >= limit\<close>; the test follows the
  append, so the loop always takes the first row.
\<close>

fun recent_loop :: "string list \<Rightarrow> (string \<times> datetime) list \<Rightarrow> int \<Rightarrow> history \<Rightarrow> (string \<times> datetime) list" where
  "recent_loop seen results limit [] = results"
| "recent_loop seen results limit (entry # qs) =
     (let key = py_lower (company_name entry) in
      if key \<in> set seen then recent_loop seen results limit qs
      else
        let results' = results @ [(company_name entry, searched_at entry)]
        in if limit \<le> int (length results') then results'
           else recent_loop (key # seen) results' limit qs)"

definition get_recent_searches :: "history \<Rightarrow> int \<Rightarrow> int \<Rightarrow> (string \<times> datetime) list" where
  "get_recent_searches h uid limit =
     (if uid = 0 then [] else recent_loop [] [] limit (user_searches h uid))"

abbreviation lower_name :: "string \<times> datetime \<Rightarrow> string" where
  "lower_name x \<equiv> py_lower (fst x)"

section \<open>Properties\<close>


lemma recent_loop_distinct:
  "distinct (map lower_name results) \<Longrightarrow> set seen = set (map lower_name results) \<Longrightarrow>
   distinct (map lower_name (recent_loop seen results limit qs))"
  by (induction seen results limit qs rule: recent_loop.induct) (auto simp: Let_def)

lemma recent_loop_length:
  "int (length results) < max limit 1 \<Longrightarrow> int (length (recent_loop seen results limit qs)) \<le> max limit 1"
  by (induction seen results limit qs rule: recent_loop.induct) (auto simp: Let_def)

lemma recent_loop_prefix:
  "\<exists>ys. recent_loop seen results limit qs = results @ ys
     \<and> subseq ys (map (\<lambda>r. (company_name r, searched_at r)) qs)"
proof (induction seen results limit qs rule: recent_loop.induct)
  case (1 seen results limit)
  then show ?case by simp
next
  case (2 seen results limit entry qs)
  show ?case
  proof (cases "py_lower (company_name entry) \<in> set seen")
    case True
    with "2.IH"(1) obtain ys where "recent_loop seen results limit qs = results @ ys"
      and "subseq ys (map (\<lambda>r. (company_name r, searched_at r)) qs)" by auto
    with True show ?thesis by auto
  next
    case False
    let ?r = "results @ [(company_name entry, searched_at entry)]"
    show ?thesis
    proof (cases "limit \<le> int (length ?r)")
      case True
      with False show ?thesis by auto
    next
      case stop: False
      with False "2.IH"(2) obtain ys where "recent_loop (py_lower (company_name entry) # seen) ?r limit qs = ?r @ ys"
        and "subseq ys (map (\<lambda>r. (company_name r, searched_at r)) qs)" by auto
      with False stop show ?thesis by auto
    qed
  qed
qed

text \<open>C31: get_recent_searches never returns two entries whose company names differ only in case.\<close>

theorem get_recent_searches_distinct:
  "distinct (map (\<lambda>x. py_lower (fst x)) (get_recent_searches h uid limit))"
  by (simp add: get_recent_searches_def recent_loop_distinct)

text \<open>C32: get_recent_searches returns at most max(limit, 1) entries.\<close>

theorem get_recent_searches_length:
  "int (length (get_recent_searches h uid limit)) \<le> max limit 1"
  using recent_loop_length [of "[]" limit "[]" "user_searches h uid"]
  by (auto simp: get_recent_searches_def le_max_iff_disj)

lemma user_searches_sorted:
  "sorted_wrt (\<lambda>a b. dt_order_key (searched_at b) \<le> dt_order_key (searched_at a)) (user_searches h uid)"
proof -
  have "sorted (rev (map (\<lambda>r. dt_order_key (searched_at r)) (user_searches h uid)))"
    unfolding user_searches_def by (rule py_sorted_desc_sorted)
  then show ?thesis
    by (simp add: rev_map sorted_wrt_rev sorted_wrt_map)
qed

text \<open>C33: get_recent_searches lists entries most recent first.\<close>

theorem get_recent_searches_most_recent_first:
  "sorted_wrt (\<lambda>a b. dt_order_key (snd b) \<le> dt_order_key (snd a)) (get_recent_searches h uid limit)"
proof (cases "uid = 0")
  case False
  obtain ys where ys: "recent_loop [] [] limit (user_searches h uid) = ys"
    and sub: "subseq ys (map (\<lambda>r. (company_name r, searched_at r)) (user_searches h uid))"
    using recent_loop_prefix [of "[]" "[]" limit "user_searches h uid"] by auto
  have "sorted_wrt (\<lambda>a b. dt_order_key (snd b) \<le> dt_order_key (snd a))
          (map (\<lambda>r. (company_name r, searched_at r)) (user_searches h uid))"
    using user_searches_sorted [of h uid] by (simp add: sorted_wrt_map)
  with sub have "sorted_wrt (\<lambda>a b. dt_order_key (snd b) \<le> dt_order_key (snd a)) ys"
    by (rule sorted_wrt_subseq)
  with False ys show ?thesis by (simp add: get_recent_searches_def)
qed (simp add: get_recent_searches_def)

lemma record_search_noop: "uid = 0 \<or> name = [] \<Longrightarrow> record_search h uid name now = h"
  by (simp add: record_search_def)


lemma user_searches_nonempty: "(\<exists>r \<in> set h. user_id r = uid) \<Longrightarrow> user_searches h uid \<noteq> []"
proof -
  assume "\<exists>r \<in> set h. user_id r = uid"
  then have "filter (\<lambda>r. user_id r = uid) h \<noteq> []" by (simp add: filter_empty_conv)
  then show ?thesis
    by (metis length_py_sorted_desc length_0_conv user_searches_def)
qed

text \<open>C34: With a limit of 0 or less, get_recent_searches still returns one entry for a user with history, since the limit test follows the append.\<close>

theorem get_recent_searches_nonpositive_limit:
  assumes "uid \<noteq> 0" and "\<exists>r \<in> set h. user_id r = uid" and "limit \<le> 0"
  shows "length (get_recent_searches h uid limit) = 1"
proof -
  from user_searches_nonempty [OF assms(2)] obtain r rs where "user_searches h uid = r # rs"
    by (cases "user_searches h uid") auto
  with assms(1,3) show ?thesis
    by (simp add: get_recent_searches_def Let_def)
qed

lemma record_search_rows:
  "r \<in> set (record_search h uid name now) \<Longrightarrow> r \<in> set h \<or>
     (user_id r = uid \<and> uid \<noteq> 0 \<and> company_name r = normalize_company_name name)"
  by (auto simp: record_search_def split: if_splits)

lemma user_searches_record_latest:
  assumes "uid \<noteq> 0" and "name \<noteq> []"
    and "\<forall>r \<in> set h. user_id r = uid \<longrightarrow> dt_order_key (searched_at r) < dt_order_key now"
  shows "user_searches (record_search h uid name now) uid =
         \<lparr>user_id = uid, company_name = normalize_company_name name, searched_at = now\<rparr> # user_searches h uid"
  using assms by (simp add: record_search_def user_searches_def py_sorted_desc_snoc_greatest)

text \<open>C30: After record_search with a time later than all the user's rows, get_recent_searches returns the recorded normalized name and time first.\<close>

theorem get_recent_searches_after_record:
  assumes "uid \<noteq> 0" and "name \<noteq> []"
    and "\<forall>r \<in> set h. user_id r = uid \<longrightarrow> dt_order_key (searched_at r) < dt_order_key now"
  shows "\<exists>rest. get_recent_searches (record_search h uid name now) uid limit
                = (normalize_company_name name, now) # rest"
proof -
  let ?e = "(normalize_company_name name, now)"
  obtain ys where "recent_loop [py_lower (normalize_company_name name)] [?e] limit (user_searches h uid) = [?e] @ ys"
    using recent_loop_prefix by blast
  then show ?thesis
    using assms by (simp add: get_recent_searches_def user_searches_record_latest Let_def)
qed

lemma get_recent_searches_no_rows:
  "\<forall>r \<in> set h. user_id r \<noteq> uid \<Longrightarrow> get_recent_searches h uid limit = []"
  by (simp add: get_recent_searches_def user_searches_def filter_False py_sorted_desc_def)

end
