(* ===== verification/Dashboard.thy ===== *)
theory Dashboard
  imports Profile History
begin

text \<open>
  The dashboard, \<^verbatim>\<open>src/dashboard/views.py\<close>: \<^verbatim>\<open>_handle_company_search\<close> asks the
  profile service for the profile and then records the search; \<^verbatim>\<open>dashboard_view\<close> reads
  the recent searches, takes the company name from the posted form or the \<^verbatim>\<open>company\<close>
  query parameter, runs the search and turns an exception into a message. The form
  \<^verbatim>\<open>CompanySearchForm\<close> (\<^verbatim>\<open>src/dashboard/forms.py\<close>) is one \<^verbatim>\<open>CharField\<close>
  with Django's default cleaning: strip, required, at most 255 characters, no NUL.

  The state the views change is the cache and the history table, \<open>sys_state\<close>;
  \<open>reachable\<close> is the set of states a sequence of requests builds from the empty cache
  and history, and \<open>sys_inv\<close> the invariant it keeps.
\<close>

record sys_state =
  st_cache :: cache
  st_history :: history

datatype request = Post "string option" | Get "string option"

record view_ctx =
  recent_searches :: "(string \<times> datetime) list"
  result :: "(profile \<times> bool) option"
  error_message :: "string option"

definition clean_company_name :: "string option \<Rightarrow> string option" where
  "clean_company_name v =
     (case v of
        None \<Rightarrow> None
      | Some s \<Rightarrow>
          let t = py_strip s in
          if t = [] then None
          else if 255 < length t then None
          else if CHR 0x00 \<in> set t then None
          else Some t)"

text \<open>\<^verbatim>\<open>str(exc)\<close> of the service errors, raised with their message.\<close>

fun exc_str :: "exc \<Rightarrow> string" where
  "exc_str (ESGServiceError m) = m"
| "exc_str (ExternalAPIError m) = m"
| "exc_str _ = []"

definition handle_company_search ::
  "service \<Rightarrow> env \<Rightarrow> clocks \<Rightarrow> datetime \<Rightarrow> int \<Rightarrow> string \<Rightarrow> sys_state \<Rightarrow> ((profile \<times> bool) \<times> sys_state) result" where
  "handle_company_search svc e clk now uid cname st =
     rbind (get_company_esg_profile svc e clk cname (st_cache st)) (\<lambda>(r, c').
       Inr (r, \<lparr>st_cache = c', st_history = record_search (st_history st) uid cname now\<rparr>))"

definition searched_company :: "request \<Rightarrow> string option" where
  "searched_company req =
     (case req of
        Post v \<Rightarrow> clean_company_name v
      | Get v \<Rightarrow> (case v of Some preset \<Rightarrow> if preset \<noteq> [] then Some preset else None | None \<Rightarrow> None))"

definition unexpected_error_message :: string where
  "unexpected_error_message = ''An unexpected error occurred while processing the request.''"

definition dashboard_view ::
  "service \<Rightarrow> env \<Rightarrow> clocks \<Rightarrow> datetime \<Rightarrow> int \<Rightarrow> request \<Rightarrow> sys_state \<Rightarrow> view_ctx \<times> sys_state" where
  "dashboard_view svc e clk now uid req st =
     (let ctx = \<lparr>recent_searches = get_recent_searches (st_history st) uid 10, result = None,
                 error_message = None\<rparr>
      in case searched_company req of
           None \<Rightarrow> (ctx, st)
         | Some name \<Rightarrow>
             (case handle_company_search svc e clk now uid name st of
                Inr (r, st') \<Rightarrow> (ctx\<lparr>result := Some r\<rparr>, st')
              | Inl x \<Rightarrow> (ctx\<lparr>error_message :=
                            Some (if is_esg_error x then exc_str x else unexpected_error_message)\<rparr>, st)))"

section \<open>The system state and its invariant\<close>

text \<open>A profile as the service builds it.\<close>

definition profile_ok :: "profile \<Rightarrow> bool" where
  "profile_ok p \<longleftrightarrow>
     total_items p = length (items p) \<and> (\<forall>i \<in> set (items p). wf_scores (ai_scores i))
     \<and> sorted (rev (map item_overall (items p))) \<and> normalize_company_name (company p) = company p"

definition sys_inv :: "(string \<Rightarrow> string) \<Rightarrow> sys_state \<Rightarrow> bool" where
  "sys_inv d st \<longleftrightarrow>
     (\<forall>k p t. st_cache st k = Some (p, t) \<longrightarrow> k = make_cache_key d (company p) \<and> profile_ok p)
     \<and> (\<forall>r \<in> set (st_history st). user_id r \<noteq> 0 \<and> normalize_company_name (company_name r) = company_name r)"

definition empty_state :: sys_state where
  "empty_state = \<lparr>st_cache = Map.empty, st_history = []\<rparr>"

inductive reachable :: "(string \<Rightarrow> string) \<Rightarrow> sys_state \<Rightarrow> bool" for d where
  init: "reachable d empty_state"
| step: "reachable d st \<Longrightarrow> digest e = d \<Longrightarrow> dashboard_view svc e clk now uid req st = (ctx, st')
         \<Longrightarrow> reachable d st'"

text \<open>What the history repository promises the dashboard: a write adds only rows for a real
  user with the normalized name.\<close>

definition history_write_ok :: "bool" where
  "history_write_ok \<longleftrightarrow>
     (\<forall>h uid name now r. r \<in> set (record_search h uid name now) \<longrightarrow>
        r \<in> set h \<or> (user_id r = uid \<and> uid \<noteq> 0 \<and> company_name r = normalize_company_name name))"

section \<open>Properties\<close>

lemma build_profile_profile_ok:
  "build_profile svc e clk (normalize_company_name n) = Inr p \<Longrightarrow> profile_ok p"
  using build_profile_ok [of svc e clk "normalize_company_name n" p]
  by (simp add: profile_ok_def normalize_company_name_idem)

lemma get_profile_Inr_cache:
  assumes "get_company_esg_profile svc e clk n c = Inr ((p, fc), c')"
  shows "c' = c \<or> (c' = cache_set c (make_cache_key (digest e) (company p)) p (cache_timeout svc) (t_set clk)
                    \<and> profile_ok p)"
proof (cases "cache_get c (make_cache_key (digest e) n) (t_get clk)")
  case None
  with assms have b: "build_profile svc e clk (normalize_company_name n) = Inr p"
    and c': "c' = cache_set c (make_cache_key (digest e) n) p (cache_timeout svc) (t_set clk)"
    by (auto simp: get_profile_miss rbind_eq_Inr)
  from build_profile_Inr [OF b] have "company p = normalize_company_name n" by auto
  with b c' show ?thesis
    by (simp add: make_cache_key_normalized build_profile_profile_ok)
next
  case (Some q)
  with assms show ?thesis by (simp add: get_profile_hit)
qed

lemma sys_inv_handle:
  assumes "history_write_ok"
    and "sys_inv (digest e) st" and "handle_company_search svc e clk now uid name st = Inr (r, st')"
  shows "sys_inv (digest e) st'"
proof -
  obtain p fc c' where g: "get_company_esg_profile svc e clk name (st_cache st) = Inr ((p, fc), c')"
    and st': "st' = \<lparr>st_cache = c', st_history = record_search (st_history st) uid name now\<rparr>"
    using assms(3) by (auto simp: handle_company_search_def rbind_eq_Inr split: prod.splits)
  have old: "st_cache st k = Some (q, t) \<Longrightarrow> k = make_cache_key (digest e) (company q) \<and> profile_ok q"
    for k q t using assms(2) unfolding sys_inv_def by blast
  have "c' k = Some (q, t) \<Longrightarrow> k = make_cache_key (digest e) (company q) \<and> profile_ok q" for k q t
    using get_profile_Inr_cache [OF g] old [of k q t] by (auto simp: cache_set_def split: if_splits)
  moreover have "\<forall>x \<in> set (record_search (st_history st) uid name now).
                   user_id x \<noteq> 0 \<and> normalize_company_name (company_name x) = company_name x"
    using assms(1,2) unfolding history_write_ok_def sys_inv_def by (metis normalize_company_name_idem)
  ultimately show ?thesis unfolding sys_inv_def st' by auto
qed

lemma sys_inv_dashboard_view:
  "history_write_ok \<Longrightarrow> sys_inv (digest e) st \<Longrightarrow> dashboard_view svc e clk now uid req st = (ctx, st') \<Longrightarrow>
   sys_inv (digest e) st'"
  by (auto simp: dashboard_view_def Let_def split: option.splits sum.splits dest: sys_inv_handle)

text \<open>C4: In every state reachable by dashboard requests, each cache entry is stored under the key of its profile's company and holds a well-formed profile (item count, scores in range, items sorted, normalized company), and every history row has a user and a normalized company name.\<close>

theorem reachable_sys_inv: "reachable d st \<Longrightarrow> sys_inv d st"
proof (induction rule: reachable.induct)
  case init
  then show ?case by (simp add: sys_inv_def empty_state_def)
next
  case (step st e svc clk now uid req ctx st')
  have "history_write_ok"
    unfolding history_write_ok_def using record_search_rows by blast
  with step show ?case using sys_inv_dashboard_view by blast
qed

lemma normalize_company_name_blank: "py_strip s = [] \<Longrightarrow> normalize_company_name s = []"
  by (simp add: normalize_company_name_def)

text \<open>C10: When the profile service raises, the dashboard shows the generic error message, never the service-error text, and neither the cache nor the search history changes.\<close>

theorem dashboard_view_error_generic:
  assumes "searched_company req = Some name"
    and "get_company_esg_profile svc e clk name (st_cache st) = Inl x"
  shows "dashboard_view svc e clk now uid req st =
    (\<lparr>recent_searches = get_recent_searches (st_history st) uid 10, result = None,
      error_message = Some unexpected_error_message\<rparr>, st)"
  using assms get_profile_no_service_error [OF assms(2)]
  by (simp add: dashboard_view_def handle_company_search_def)

text \<open>C36: A GET request whose company parameter is only whitespace runs a search and records a history row with an empty company name.\<close>

theorem dashboard_get_blank_records_empty:
  assumes "s \<noteq> []" and "py_strip s = []" and "uid \<noteq> 0"
    and "get_company_esg_profile svc e clk s (st_cache st) = Inr (r, c')"
  shows "st_history (snd (dashboard_view svc e clk now uid (Get (Some s)) st)) =
         st_history st @ [\<lparr>user_id = uid, company_name = [], searched_at = now\<rparr>]"
  using assms by (simp add: dashboard_view_def handle_company_search_def searched_company_def
      record_search_def normalize_company_name_blank)

lemma dashboard_post_blank_no_search:
  "py_strip s = [] \<Longrightarrow>
   dashboard_view svc e clk now uid (Post (Some s)) st =
     (\<lparr>recent_searches = get_recent_searches (st_history st) uid 10, result = None, error_message = None\<rparr>, st)"
  by (simp add: dashboard_view_def searched_company_def clean_company_name_def)

lemma handle_company_search_Inr:
  "handle_company_search svc e clk now uid n st = Inr (r, st') \<longleftrightarrow>
   (\<exists>c'. get_company_esg_profile svc e clk n (st_cache st) = Inr (r, c')
         \<and> st' = \<lparr>st_cache = c', st_history = record_search (st_history st) uid n now\<rparr>)"
  by (cases r) (auto simp: handle_company_search_def rbind_eq_Inr)

lemma dashboard_view_searched:
  "searched_company req = Some n \<Longrightarrow> handle_company_search svc e clk now uid n st = Inr (r, st') \<Longrightarrow>
   dashboard_view svc e clk now uid req st =
     (\<lparr>recent_searches = get_recent_searches (st_history st) uid 10, result = Some r, error_message = None\<rparr>, st')"
  by (simp add: dashboard_view_def)

lemma dashboard_view_result:
  "dashboard_view svc e clk now uid req st = (ctx, st') \<Longrightarrow> result ctx = Some r \<Longrightarrow>
   \<exists>n. searched_company req = Some n \<and> handle_company_search svc e clk now uid n st = Inr (r, st')"
  by (auto simp: dashboard_view_def Let_def split: option.splits sum.splits)

text \<open>C7: The cache effect of a dashboard request that shows a profile: it was searched under a
  name, and either it came from the cache and the cache is left unchanged, or it was built and the
  cache differs only in that name's entry, which holds the profile until one timeout after the write.\<close>

theorem dashboard_view_cache_effect:
  assumes "dashboard_view svc e clk now uid req st = (ctx, st')" and "result ctx = Some (p, hit)"
  shows "\<exists>n. searched_company req = Some n \<and>
           (if hit then st_cache st' = st_cache st
                        \<and> cache_get (st_cache st) (make_cache_key (digest e) n) (t_get clk) = Some p
            else st_cache st' = (st_cache st)(make_cache_key (digest e) n \<mapsto> (p, t_set clk + cache_timeout svc)))"
proof -
  from dashboard_view_result [OF assms] obtain n where
    n: "searched_company req = Some n" and
    g: "get_company_esg_profile svc e clk n (st_cache st) = Inr ((p, hit), st_cache st')"
    by (force simp only: handle_company_search_Inr sys_state.simps)
  from n get_profile_cache_effect [OF g] show ?thesis by blast
qed

end
