(* ===== verification/Concurrency.thy ===== *)
theory Concurrency
  imports Profile
begin

text \<open>
  Concurrent callers of \<^verbatim>\<open>ESGService.get_company_esg_profile\<close>
  (\<^verbatim>\<open>src/esg/services.py\<close>). One call is two steps on the shared cache: the lookup
  (\<^verbatim>\<open>cache.get\<close> and, on a miss, \<^verbatim>\<open>_build_profile\<close>) and the commit
  (\<^verbatim>\<open>cache.set\<close> on a miss). Between the two steps of one caller, other callers may run:
  a schedule is a list of events, and \<open>run_events\<close> plays it on the shared state.
\<close>

datatype lookup = Hit profile | Built profile

definition profile_lookup :: "service \<Rightarrow> env \<Rightarrow> clocks \<Rightarrow> string \<Rightarrow> cache \<Rightarrow> lookup result" where
  "profile_lookup svc e clk company_name c =
     (let normalized = normalize_company_name company_name;
          key = make_cache_key (digest e) normalized
      in case cache_get c key (t_get clk) of
           Some cached_value \<Rightarrow> Inr (Hit cached_value)
         | None \<Rightarrow> rbind (build_profile svc e clk normalized) (\<lambda>p. Inr (Built p)))"

definition profile_commit :: "service \<Rightarrow> env \<Rightarrow> clocks \<Rightarrow> string \<Rightarrow> cache \<Rightarrow> lookup \<Rightarrow> (profile \<times> bool) \<times> cache" where
  "profile_commit svc e clk company_name c r =
     (case r of
        Hit cached_value \<Rightarrow> ((cached_value, True), c)
      | Built p \<Rightarrow> ((p, False),
          cache_set c (make_cache_key (digest e) (normalize_company_name company_name)) p (cache_timeout svc) (t_set clk)))"

datatype event = Begin nat | Commit nat

record conc_state =
  shared :: cache
  pending :: "nat \<Rightarrow> lookup option"
  answers :: "nat \<Rightarrow> ((profile \<times> bool) result) option"

type_synonym calls = "nat \<Rightarrow> clocks \<times> string"

fun conc_step :: "service \<Rightarrow> env \<Rightarrow> calls \<Rightarrow> conc_state \<Rightarrow> event \<Rightarrow> conc_state" where
  "conc_step svc e calls s (Begin i) =
     (case profile_lookup svc e (fst (calls i)) (snd (calls i)) (shared s) of
        Inl x \<Rightarrow> s\<lparr>answers := (answers s)(i \<mapsto> Inl x)\<rparr>
      | Inr r \<Rightarrow> s\<lparr>pending := (pending s)(i \<mapsto> r)\<rparr>)"
| "conc_step svc e calls s (Commit i) =
     (case pending s i of
        None \<Rightarrow> s
      | Some r \<Rightarrow>
          let (a, c') = profile_commit svc e (fst (calls i)) (snd (calls i)) (shared s) r
          in s\<lparr>shared := c', pending := (pending s)(i := None), answers := (answers s)(i \<mapsto> Inr a)\<rparr>)"

definition run_events :: "service \<Rightarrow> env \<Rightarrow> calls \<Rightarrow> conc_state \<Rightarrow> event list \<Rightarrow> conc_state" where
  "run_events svc e calls s evs = foldl (conc_step svc e calls) s evs"

definition idle :: "cache \<Rightarrow> conc_state" where
  "idle c = \<lparr>shared = c, pending = (\<lambda>_. None), answers = (\<lambda>_. None)\<rparr>"

section \<open>Properties\<close>

text \<open>get_company_esg_profile is its lookup step (cache.get, and _build_profile on a miss) followed by its commit step (cache.set on a miss) on the same cache.\<close>

lemma get_company_esg_profile_phases:
  "get_company_esg_profile svc e clk n c =
     rbind (profile_lookup svc e clk n c) (\<lambda>r. Inr (profile_commit svc e clk n c r))"
  by (simp add: get_company_esg_profile_def profile_lookup_def profile_commit_def Let_def rbind_assoc
      split: option.splits)

theorem run_alone_eq_call:
  "answers (run_events svc e calls (idle c) [Begin i, Commit i]) i =
     Some (map_sum id fst (get_company_esg_profile svc e (fst (calls i)) (snd (calls i)) c))
   \<and> shared (run_events svc e calls (idle c) [Begin i, Commit i]) =
     (case get_company_esg_profile svc e (fst (calls i)) (snd (calls i)) c of Inl _ \<Rightarrow> c | Inr (_, c') \<Rightarrow> c')"
  by (simp add: run_events_def idle_def get_company_esg_profile_phases
      split: sum.splits prod.splits)

text \<open>C5: Two concurrent callers that both miss the cache for the same company both build and both write: both report from_cache false and the cache ends with the later writer's profile (last writer wins, no single-flight).\<close>

theorem racing_misses_last_writer_wins:
  assumes "calls 1 = (clk1, n1)" and "calls 2 = (clk2, n2)"
    and "profile_lookup svc e clk1 n1 c = Inr (Built p1)"
    and "profile_lookup svc e clk2 n2 c = Inr (Built p2)"
    and "map py_lower (py_split n1) = map py_lower (py_split n2)"
  defines "s \<equiv> run_events svc e calls (idle c) [Begin 1, Begin 2, Commit 1, Commit 2]"
  shows "answers s 1 = Some (Inr (p1, False)) \<and> answers s 2 = Some (Inr (p2, False))
         \<and> shared s (make_cache_key (digest e) n1) = Some (p2, t_set clk2 + cache_timeout svc)"
proof -
  have "make_cache_key (digest e) n2 = make_cache_key (digest e) n1"
    using make_cache_key_words [OF assms(5)] by simp
  with assms show ?thesis
    by (simp add: run_events_def idle_def profile_commit_def cache_set_def make_cache_key_normalized)
qed

end
