(* ===== verification/Accounts.thy ===== *)
theory Accounts
  imports Dashboard
begin

text \<open>
  Authentication around the dashboard: \<^verbatim>\<open>SignInView\<close> and \<^verbatim>\<open>SignUpView\<close> of
  \<^verbatim>\<open>src/accounts/views.py\<close>, and the \<^verbatim>\<open>@login_required\<close> guard of the two views
  of \<^verbatim>\<open>src/dashboard/views.py\<close>. The user table is the list of user names in creation
  order; the user created \<open>n\<close>-th has id \<open>n\<close> (the auto-increment key), and the
  session holds the id of the signed-in user. Django's password checks are parameters:
  \<open>pw_ok\<close> (the sign-up form's password validation) and \<open>check\<close>
  (\<^verbatim>\<open>authenticate\<close>'s password comparison). \<^verbatim>\<open>SearchHistory.__str__\<close> reads the
  user table through the row's foreign key.
\<close>

record auth_state =
  users :: "string list"
  session :: "int option"

record web_state =
  auth :: auth_state
  app :: sys_state

datatype response = Redirect string | Render view_ctx | RenderForm

fun find_user :: "string list \<Rightarrow> string \<Rightarrow> nat \<Rightarrow> int option" where
  "find_user [] u n = None"
| "find_user (x # xs) u n = (if x = u then Some (int n) else find_user xs u (Suc n))"

text \<open>\<^verbatim>\<open>SignUpView.form_valid\<close>: \<^verbatim>\<open>super().form_valid\<close> saves the new user and
  redirects to \<^verbatim>\<open>dashboard:home\<close>, then \<^verbatim>\<open>login\<close> puts the user in the session;
  an invalid form is rendered again.\<close>

definition sign_up :: "(string \<Rightarrow> string \<Rightarrow> bool) \<Rightarrow> string \<Rightarrow> string \<Rightarrow> string \<Rightarrow> auth_state \<Rightarrow> response \<times> auth_state" where
  "sign_up pw_ok uname p1 p2 a =
     (if uname \<noteq> [] \<and> uname \<notin> set (users a) \<and> pw_ok p1 p2
      then (Redirect ''dashboard:home'',
            \<lparr>users = users a @ [uname], session = Some (int (length (users a)) + 1)\<rparr>)
      else (RenderForm, a))"

text \<open>\<^verbatim>\<open>SignInView\<close> (a \<^verbatim>\<open>LoginView\<close>): a known user with the right password is
  put in the session and redirected to \<open>next_url\<close>; otherwise the form is rendered again.\<close>

definition sign_in :: "(string \<Rightarrow> string \<Rightarrow> bool) \<Rightarrow> string \<Rightarrow> string \<Rightarrow> string \<Rightarrow> auth_state \<Rightarrow> response \<times> auth_state" where
  "sign_in check next_url uname pw a =
     (case find_user (users a) uname 1 of
        Some uid \<Rightarrow> if check uname pw then (Redirect next_url, a\<lparr>session := Some uid\<rparr>) else (RenderForm, a)
      | None \<Rightarrow> (RenderForm, a))"

datatype 'a guarded = Allowed 'a | LoginRedirect

definition login_required :: "auth_state \<Rightarrow> (int \<Rightarrow> 'a) \<Rightarrow> 'a guarded" where
  "login_required a view = (case session a of None \<Rightarrow> LoginRedirect | Some uid \<Rightarrow> Allowed (view uid))"

definition dashboard_request :: "service \<Rightarrow> env \<Rightarrow> clocks \<Rightarrow> datetime \<Rightarrow> request \<Rightarrow> web_state \<Rightarrow> response \<times> web_state" where
  "dashboard_request svc e clk now req w =
     (case login_required (auth w) (\<lambda>uid. dashboard_view svc e clk now uid req (app w)) of
        LoginRedirect \<Rightarrow> (Redirect ''login'', w)
      | Allowed (ctx, st') \<Rightarrow> (Render ctx, w\<lparr>app := st'\<rparr>))"

definition redirect_to_dashboard :: "auth_state \<Rightarrow> response" where
  "redirect_to_dashboard a =
     (case login_required a (\<lambda>_. ()) of LoginRedirect \<Rightarrow> Redirect ''login'' | Allowed _ \<Rightarrow> Redirect ''dashboard:home'')"

definition empty_web :: web_state where
  "empty_web = \<lparr>auth = \<lparr>users = [], session = None\<rparr>, app = empty_state\<rparr>"

inductive web_reachable :: "(string \<Rightarrow> string) \<Rightarrow> web_state \<Rightarrow> bool" for d where
  init: "web_reachable d empty_web"
| signup: "web_reachable d w \<Longrightarrow> sign_up pw_ok u p1 p2 (auth w) = (resp, a') \<Longrightarrow> web_reachable d (w\<lparr>auth := a'\<rparr>)"
| signin: "web_reachable d w \<Longrightarrow> sign_in check nxt u pw (auth w) = (resp, a') \<Longrightarrow> web_reachable d (w\<lparr>auth := a'\<rparr>)"
| dashboard: "web_reachable d w \<Longrightarrow> digest e = d \<Longrightarrow> dashboard_request svc e clk now req w = (resp, w')
              \<Longrightarrow> web_reachable d w'"

text \<open>Every id in the session or in the history is the id of a registered user.\<close>

definition registered :: "auth_state \<Rightarrow> int \<Rightarrow> bool" where
  "registered a uid \<longleftrightarrow> 1 \<le> uid \<and> uid \<le> int (length (users a))"

definition web_inv :: "web_state \<Rightarrow> bool" where
  "web_inv w \<longleftrightarrow>
     (case session (auth w) of None \<Rightarrow> True | Some uid \<Rightarrow> registered (auth w) uid)
     \<and> (\<forall>r \<in> set (st_history (app w)). registered (auth w) (user_id r))"

text \<open>\<^verbatim>\<open>SearchHistory.__str__\<close> of \<^verbatim>\<open>src/dashboard/models.py\<close>: the user's name
  (the row's foreign key, the id-th user), the company name and \<^verbatim>\<open>searched_at.isoformat()\<close>.\<close>

definition search_history_str :: "auth_state \<Rightarrow> search_history \<Rightarrow> string" where
  "search_history_str a r =
     users a ! nat (user_id r - 1) @ '': '' @ company_name r @ '' at '' @ dt_isoformat (searched_at r)"

section \<open>Properties\<close>

lemma find_user_range: "find_user xs u n = Some uid \<Longrightarrow> int n \<le> uid \<and> uid < int n + int (length xs)"
  by (induction xs u n rule: find_user.induct) (fastforce split: if_splits)+

lemma dashboard_view_history:
  "dashboard_view svc e clk now uid req st = (ctx, st') \<Longrightarrow>
   r \<in> set (st_history st') \<Longrightarrow> r \<in> set (st_history st) \<or> user_id r = uid"
  by (auto simp: dashboard_view_def handle_company_search_Inr record_search_def Let_def
      split: option.splits sum.splits if_splits)

lemma web_inv_sign_up: "web_inv w \<Longrightarrow> sign_up pw_ok u p1 p2 (auth w) = (resp, a') \<Longrightarrow> web_inv (w\<lparr>auth := a'\<rparr>)"
  by (auto simp: web_inv_def sign_up_def registered_def split: if_splits option.splits)

lemma web_inv_sign_in: "web_inv w \<Longrightarrow> sign_in check nxt u pw (auth w) = (resp, a') \<Longrightarrow> web_inv (w\<lparr>auth := a'\<rparr>)"
  by (auto simp: web_inv_def sign_in_def registered_def split: if_splits option.splits dest!: find_user_range)

lemma web_inv_dashboard:
  assumes "web_inv w" and "dashboard_request svc e clk now req w = (resp, w')"
  shows "web_inv w'"
proof (cases "session (auth w)")
  case None
  with assms show ?thesis by (simp add: dashboard_request_def login_required_def)
next
  case (Some uid)
  obtain ctx st' where v: "dashboard_view svc e clk now uid req (app w) = (ctx, st')"
    and w': "w' = w\<lparr>app := st'\<rparr>"
    using assms(2) Some by (auto simp: dashboard_request_def login_required_def split: prod.splits)
  from assms(1) Some have "registered (auth w) uid" by (simp add: web_inv_def)
  with assms(1) w' Some show ?thesis
    by (auto simp: web_inv_def dest: dashboard_view_history [OF v])
qed

lemma web_reachable_inv: "web_reachable d w \<Longrightarrow> web_inv w"
proof (induction rule: web_reachable.induct)
  case init
  show ?case by (simp add: web_inv_def empty_web_def empty_state_def)
next
  case (signup w pw_ok u p1 p2 resp a')
  from signup.IH signup.hyps(2) show ?case by (rule web_inv_sign_up)
next
  case (signin w check nxt u pw resp a')
  from signin.IH signin.hyps(2) show ?case by (rule web_inv_sign_in)
next
  case (dashboard w e svc clk now req resp w')
  then show ?case using web_inv_dashboard by blast
qed

text \<open>The debug representation of every history row of a reachable state names a registered
  user: the foreign key of the row is never dangling.\<close>

lemma search_history_str_registered:
  assumes "web_reachable d w" and "r \<in> set (st_history (app w))"
  shows "\<exists>u \<in> set (users (auth w)).
           search_history_str (auth w) r = u @ '': '' @ company_name r @ '' at '' @ dt_isoformat (searched_at r)"
proof -
  from web_reachable_inv [OF assms(1)] assms(2)
  have "1 \<le> user_id r \<and> user_id r \<le> int (length (users (auth w)))"
    by (auto simp: web_inv_def registered_def)
  then have "nat (user_id r - 1) < length (users (auth w))" by linarith
  then show ?thesis by (auto simp: search_history_str_def)
qed

text \<open>C6: In every state reachable by sign-up, sign-in and dashboard requests behind login_required, every search-history row belongs to a registered user.\<close>

theorem web_history_registered:
  "web_reachable d w \<Longrightarrow> r \<in> set (st_history (app w)) \<Longrightarrow> 1 \<le> user_id r \<and> user_id r \<le> int (length (users (auth w)))"
  using web_reachable_inv by (auto simp: web_inv_def registered_def)

lemma anonymous_dashboard_request:
  "session (auth w) = None \<Longrightarrow> dashboard_request svc e clk now req w = (Redirect ''login'', w)"
  by (simp add: dashboard_request_def login_required_def)

text \<open>C35: In any reachable state, a successful sign-up logs in a new user whose recent searches are empty.\<close>

theorem sign_up_fresh_history:
  assumes "web_reachable d w" and "sign_up pw_ok u p1 p2 (auth w) = (Redirect ''dashboard:home'', a')"
  shows "\<exists>uid. session a' = Some uid \<and> get_recent_searches (st_history (app w)) uid 10 = []"
proof -
  from assms(2) have a': "a' = \<lparr>users = users (auth w) @ [u], session = Some (int (length (users (auth w))) + 1)\<rparr>"
    by (simp add: sign_up_def split: if_splits)
  from web_reachable_inv [OF assms(1)]
  have "\<forall>r \<in> set (st_history (app w)). user_id r \<noteq> int (length (users (auth w))) + 1"
    by (auto simp: web_inv_def registered_def)
  with a' show ?thesis by (simp add: get_recent_searches_no_rows)
qed

end
