(* ===== verification/Spec2Isabelle.thy ===== *)
theory Spec2Isabelle
  imports Prelude Text Keywords Json Dates Oracle Articles Scoring Profile History Dashboard Concurrency
    Accounts
begin

text \<open>
  \<^bold>\<open>A verified model of the ESG profile service.\<close>

  The program (under \<^verbatim>\<open>src/\<close>) lets a signed-in user search a company and shows an
  ESG risk profile built from recent news. Its parts, and the theory modelling each:

  \<^item> \<^emph>\<open>Prelude\<close>: Python exceptions as the datatype \<open>exc\<close>
    (\<^verbatim>\<open>esg/exceptions.py\<close> plus the built-in \<^verbatim>\<open>TypeError\<close>, \<^verbatim>\<open>AttributeError\<close>,
    \<^verbatim>\<open>json.JSONDecodeError\<close>); a raising computation returns \<open>exc + 'a\<close>
    (\<open>'a result\<close>, \<open>Inl\<close> the exception) and \<open>rbind\<close> sequences them. Also
    \<^verbatim>\<open>str.strip\<close>/\<^verbatim>\<open>str.lower\<close>/\<^verbatim>\<open>in\<close> on strings, \<^verbatim>\<open>round\<close> (half to even,
    on exact rationals) and \<^verbatim>\<open>sorted(..., reverse=True)\<close> as \<open>py_sorted_desc\<close>,
    proved equal to the library's stable \<open>sort_key\<close> on the negated key.
  \<^item> \<^emph>\<open>Text\<close>: \<^verbatim>\<open>normalize_company_name\<close>, \<^verbatim>\<open>make_cache_key\<close> and
    \<^verbatim>\<open>detect_esg_aspects\<close> of \<^verbatim>\<open>esg/utils.py\<close>; \<^verbatim>\<open>re.sub(r'\s+', ' ', ...)\<close> is
    \<open>sub_ws\<close>. The reference \<open>py_split\<close>/\<open>py_join\<close> (\<^verbatim>\<open>str.split\<close>,
    \<^verbatim>\<open>' '.join\<close>) give the refinement lemma and the split/join round trip.
  \<^item> \<^emph>\<open>Keywords\<close>: the keyword lists of \<^verbatim>\<open>esg/keywords.py\<close>, in source order.
  \<^item> \<^emph>\<open>Json\<close>: the Python values \<^verbatim>\<open>json.loads\<close> produces, truthiness, \<^verbatim>\<open>dict.get\<close>,
    iteration and \<^verbatim>\<open>float()\<close> with its string syntax (NaN and infinities included).
  \<^item> \<^emph>\<open>Dates\<close>: \<^verbatim>\<open>safe_parse_datetime\<close>, \<^verbatim>\<open>ensure_aware\<close>, \<^verbatim>\<open>isoformat\<close> of
    \<^verbatim>\<open>esg/utils.py\<close>, the \<^verbatim>\<open>strftime\<close> formats of \<^verbatim>\<open>esg/services.py\<close>, and the
    order of aware and naive datetimes (comparing the two kinds raises \<^verbatim>\<open>TypeError\<close>).
  \<^item> \<^emph>\<open>Oracle\<close>: the collaborators the code calls but does not define, as the record
    \<open>env\<close>: whether the \<^verbatim>\<open>openai\<close> package imported and the API key, the chat
    and web-search calls as one of three outcomes (\<open>api_outcome\<close>: an answer, the request
    raised, or no \<^verbatim>\<open>output_text\<close>), \<^verbatim>\<open>json.loads\<close>/\<^verbatim>\<open>json.dumps\<close>,
    whether \<^verbatim>\<open>dateutil\<close> imported, its parser and \<^verbatim>\<open>datetime.fromisoformat\<close>,
    and \<^verbatim>\<open>sha1(...).hexdigest()\<close>; \<^verbatim>\<open>_openai_available\<close>,
    \<^verbatim>\<open>_execute_openai_prompt\<close> and the parser \<^verbatim>\<open>safe_parse_datetime\<close> uses
    (\<open>date_parser\<close>: \<^verbatim>\<open>dateutil\<close>'s if the import succeeded) over them.
  \<^item> \<^emph>\<open>Articles\<close>: \<^verbatim>\<open>esg/clients.py\<close> (\<^verbatim>\<open>fetch_articles\<close>,
    \<^verbatim>\<open>_parse_articles_payload\<close> with the fenced-block regex as \<open>findall_fenced\<close>)
    and \<^verbatim>\<open>deduplicate_articles\<close>/\<^verbatim>\<open>take_latest\<close> of \<^verbatim>\<open>esg/utils.py\<close>.
  \<^item> \<^emph>\<open>Scoring\<close>: the analysis half of \<^verbatim>\<open>ESGService\<close> (\<^verbatim>\<open>_analyse_articles\<close>,
    the OpenAI and heuristic paths, score normalization, weighting, sorting).
  \<^item> \<^emph>\<open>Profile\<close>: \<^verbatim>\<open>get_company_esg_profile\<close>, \<^verbatim>\<open>_build_profile\<close>,
    \<^verbatim>\<open>_fetch_company_overview\<close> over the cache.
  \<^item> \<^emph>\<open>History\<close>: \<^verbatim>\<open>SearchHistoryRepository\<close> (\<^verbatim>\<open>esg/history.py\<close>) over the
    \<^verbatim>\<open>SearchHistory\<close> table of \<^verbatim>\<open>dashboard/models.py\<close>, a list in insertion order.
  \<^item> \<^emph>\<open>Dashboard\<close>: \<^verbatim>\<open>dashboard/views.py\<close> and the form of
    \<^verbatim>\<open>dashboard/forms.py\<close>; the system state (cache and history), the step relation
    \<open>reachable\<close> of sequences of requests, and its invariant \<open>sys_inv\<close>. The
    invariant proof assumes only the repository's write contract \<open>history_write_ok\<close>,
    which \<open>record_search_rows\<close> of \<^emph>\<open>History\<close> discharges.
  \<^item> \<^emph>\<open>Concurrency\<close>: \<^verbatim>\<open>get_company_esg_profile\<close> split into its lookup
    step (\<open>profile_lookup\<close>: \<^verbatim>\<open>cache.get\<close>, then \<^verbatim>\<open>_build_profile\<close> on a
    miss) and its commit step (\<open>profile_commit\<close>: \<^verbatim>\<open>cache.set\<close>), proved equal to
    the whole call; schedules of several callers' steps on the shared cache
    (\<open>run_events\<close>), for the concurrency the spec allows (section 5 of the spec: last writer wins).
  \<^item> \<^emph>\<open>Accounts\<close>: \<^verbatim>\<open>SignUpView\<close> and \<^verbatim>\<open>SignInView\<close> of
    \<^verbatim>\<open>accounts/views.py\<close> and the \<^verbatim>\<open>@login_required\<close> guard of the dashboard
    views, over a user table and a session; \<open>web_reachable\<close> are the states a
    sequence of sign-ups, sign-ins and dashboard requests builds; \<^verbatim>\<open>SearchHistory.__str__\<close>
    of \<^verbatim>\<open>dashboard/models.py\<close> (\<open>search_history_str\<close>) over the user table.

  How they interact: the view cleans the company name, asks the profile service, then
  records the search; the service looks the normalized name up in the cache and on a miss
  fetches the overview (\<^emph>\<open>Oracle\<close>), the articles (\<^emph>\<open>Articles\<close>) and their analysis
  (\<^emph>\<open>Scoring\<close>), assembles the profile and stores it with the timeout. Each function
  takes the state it reads and returns the state it writes: the cache is a map from key to
  profile and expiry, the history a list of rows.

  What the lemmas show, by group: concurrent callers that both miss recompute and the
  later write wins (\<^emph>\<open>Concurrency\<close>); behind \<open>login_required\<close> every history row
  belongs to a registered user and a new user starts with no history (\<^emph>\<open>Accounts\<close>);
  the cache returns the stored profile within the timeout
  for any spelling with the same words and recomputes after it (\<^emph>\<open>Profile\<close>, and end
  to end through the view here); the reachable states keep the cache keyed by the
  profile's company and every cached profile well formed (\<^emph>\<open>Dashboard\<close>, by rule
  induction); the degradation policy, branch by branch, with the exceptions that escape it
  (\<^emph>\<open>Articles\<close>, \<^emph>\<open>Scoring\<close>, \<^emph>\<open>Profile\<close>, \<^emph>\<open>Dashboard\<close>); scores
  in [0, 100], the weighted formula and the heuristic values (\<^emph>\<open>Scoring\<close>); deduplication,
  keeping the first occurrence, recency order and the limit, that a title can collide with
  an earlier URL, and the fenced-block scan of the answer (\<^emph>\<open>Articles\<close>); a string
  \<^verbatim>\<open>float()\<close> reads as NaN scores 100 (\<^emph>\<open>Scoring\<close>); the read path of the history
  and the round trip of a recorded search (\<^emph>\<open>History\<close>); a request that shows a
  profile leaves the cache unchanged on a hit and changes only the searched name's entry on a
  miss (\<^emph>\<open>Dashboard\<close>).
  The claims C1 to C38 name the main theorems; the theorems ending in \<open>_witness\<close> below
  apply each at a concrete input (\<open>demo_env\<close>, an unconfigured client, and its
  variants), evaluated by the simplifier.

  Choices. Clocks are explicit arguments: one call reads the cache clock, the articles'
  default date, the build time and the cache write time separately (\<open>clocks\<close>); the
  per-article \<^verbatim>\<open>utcnow()\<close> default is read once per fetch. Numbers are exact
  rationals: Python floats are modelled as rationals (plus NaN and the infinities where
  \<^verbatim>\<open>float()\<close> produces them), so rounding is exact rather than binary. Lower-casing
  is ASCII. The database returns rows with equal timestamps in insertion order. Every loop
  of the code is over a finite list and is structural recursion here; the two
  non-structural ones (\<open>sub_ws\<close>, \<open>findall_fenced\<close>) have termination proofs, so no
  fuel is needed.

  Not modelled: the Django cache backend, ORM, authentication machinery, templates and
  messages framework (the cache is modelled from its interface; a view returns its context);
  Django's password hashing and validators (the parameters \<open>pw_ok\<close> and \<open>check\<close>
  of \<^emph>\<open>Accounts\<close>), sign-out and the \<^verbatim>\<open>next\<close> parameter of the login redirect;
  logging; the HTTP
  transport to OpenAI (the answers are arguments); the JSON text grammar and
  \<^verbatim>\<open>dateutil\<close>'s formats (functions of \<open>env\<close>); SHA-1 (the parameter \<open>digest\<close>);
  the \<^verbatim>\<open>.env\<close> loading at the top of \<^verbatim>\<open>esg/clients.py\<close>, whose only effect is
  on the process environment read by the settings module, which is not part of the sources
  (the key it yields is the parameter \<open>openai_api_key\<close>).
\<close>

section \<open>Demonstration inputs\<close>

definition demo_env :: env where
  "demo_env = \<lparr>openai_imported = True, openai_api_key = [], llm_respond = (\<lambda>_. NoOutputText),
               search_respond = (\<lambda>_. NoOutputText),
               json_loads = (\<lambda>_. None), json_dumps = (\<lambda>_. []), dateutil_imported = True,
               dateutil_parse = (\<lambda>_. None), fromisoformat = (\<lambda>_. None), digest = id\<rparr>"

definition demo_time :: datetime where
  "demo_time = \<lparr>dt_year = 2025, dt_month = 3, dt_day = 14, dt_hour = 9, dt_minute = 30, dt_second = 0,
                dt_micro = 0, dt_tz = Some 0\<rparr>"

definition demo_clocks :: "int \<Rightarrow> clocks" where
  "demo_clocks t = \<lparr>t_get = t, fetch_now = demo_time, build_now = demo_time, t_set = t\<rparr>"

definition demo_article :: "string \<Rightarrow> string \<Rightarrow> datetime \<Rightarrow> article" where
  "demo_article t u dt = \<lparr>title = JStr t, description = JStr [], url = JStr u, source = JNone,
                          published_at = dt, source_type = ''openai_web_search''\<rparr>"

definition demo_first :: "((profile \<times> bool) \<times> cache) result" where
  "demo_first = get_company_esg_profile default_service demo_env (demo_clocks 0) ''Adani Power'' Map.empty"

definition demo_view :: "view_ctx \<times> sys_state" where
  "demo_view = dashboard_view default_service demo_env (demo_clocks 0) demo_time 7 (Post (Some ''Adani Power'')) empty_state"

definition demo_llm :: env where
  "demo_llm = demo_env\<lparr>openai_api_key := ''sk-demo'',
                         llm_respond := (\<lambda>_. Responded '' Adani Power is an Indian power company. '')\<rparr>"

definition demo_list :: env where
  "demo_list = demo_env\<lparr>openai_api_key := ''sk-demo'', llm_respond := (\<lambda>_. Responded ''[]''),
                          search_respond := (\<lambda>_. Responded ''[]''), json_loads := (\<lambda>_. Some (JList []))\<rparr>"

definition demo_oil :: article where
  "demo_oil = demo_article ''Oil spill at port'' ''https://news.example/1'' demo_time"

definition demo_item :: "rat \<Rightarrow> analysed_item" where
  "demo_item r = \<lparr>ai_title = JNone, ai_description = JNone, ai_date = JNone, ai_display_date = JNone,
                  ai_source = JNone, ai_url = JNone,
                  ai_scores = \<lparr>environment = 0, social = 0, governance = 0, overall = r\<rparr>\<rparr>"

definition demo_scored :: "(string \<times> json) list" where
  "demo_scored = [(''title'', JStr ''Tariff dispute''),
                  (''scores'', JDict [(''environment'', JInt 80), (''social'', JStr '' 50 ''),
                                      (''governance'', JStr ''n/a''), (''overall'', JStr ''n/a'')])]"

definition demo_later :: datetime where
  "demo_later = demo_time\<lparr>dt_day := 15\<rparr>"

definition demo_naive :: datetime where
  "demo_naive = demo_time\<lparr>dt_tz := None\<rparr>"

definition demo_dups :: "article list" where
  "demo_dups = [demo_article ''Spill'' ''https://news.example/1'' demo_time,
                demo_article ''Spill again'' ''https://news.example/1'' demo_later,
                demo_article ''Strike'' ''https://news.example/2'' demo_later]"

definition demo_mixed :: env where
  "demo_mixed = demo_env\<lparr>openai_api_key := ''sk-demo'', search_respond := (\<lambda>_. Responded ''{...}''),
     json_loads := (\<lambda>_. Some (JDict [(''articles'', JList [
        JDict [(''url'', JStr ''https://news.example/1''), (''published_at'', JStr ''2025-03-14'')],
        JDict [(''url'', JStr ''https://news.example/2'')]])])),
     dateutil_parse := (\<lambda>_. Some demo_time)\<rparr>"

definition demo_fence :: env where
  "demo_fence = demo_env\<lparr>json_loads := (\<lambda>s. if s = ''{}'' then Some (JDict []) else None)\<rparr>"

definition demo_row :: "int \<Rightarrow> string \<Rightarrow> datetime \<Rightarrow> search_history" where
  "demo_row uid n t = \<lparr>user_id = uid, company_name = n, searched_at = t\<rparr>"

definition demo_hist :: history where
  "demo_hist = [demo_row 7 ''Adani Power'' demo_time, demo_row 8 ''Infosys'' demo_time,
                demo_row 7 ''Tata Steel'' demo_later, demo_row 7 ''ADANI POWER'' demo_later]"

definition demo_latest :: datetime where
  "demo_latest = demo_time\<lparr>dt_day := 16\<rparr>"

definition demo_calls :: calls where
  "demo_calls i = (if i = 1 then (demo_clocks 0, ''Adani Power'') else (demo_clocks 5, ''adani  power''))"

definition demo_pw :: "string \<Rightarrow> string \<Rightarrow> bool" where
  "demo_pw p1 p2 \<longleftrightarrow> p1 = p2 \<and> p1 \<noteq> []"

definition demo_web :: web_state where
  "demo_web = snd (dashboard_request default_service demo_env (demo_clocks 0) demo_time (Post (Some ''Adani Power''))
                    (empty_web\<lparr>auth := snd (sign_up demo_pw ''alice'' ''pw'' ''pw'' (auth empty_web))\<rparr>))"

definition demo_fail :: env where
  "demo_fail = demo_env\<lparr>openai_api_key := ''sk-demo'', llm_respond := (\<lambda>_. RequestFailed ''timed out'')\<rparr>"

definition demo_hype :: env where
  "demo_hype = demo_env\<lparr>openai_api_key := ''sk-demo'', llm_respond := (\<lambda>_. Responded ''{...}''),
     json_loads := (\<lambda>_. Some (JDict [(''items'', JList []), (''overall_score'', JInt 250)]))\<rparr>"

text \<open>The definitions a run on the demonstration inputs unfolds: the environments, and the
  profile build on a cache miss.\<close>

lemmas demo_env_defs = demo_env_def openai_available_def date_parser_def

lemmas profile_run_defs = cache_get_def build_profile_def fetch_company_overview_def fetch_articles_def
  analyse_articles_def Let_def

section \<open>Properties across components\<close>

text \<open>C3: End to end through the dashboard view: a search that built a profile, followed within the timeout by a search for the same company in other spacing or case, shows the same profile marked as cached.\<close>

theorem dashboard_repeat_within_ttl:
  assumes v1: "dashboard_view svc e clk1 now1 uid1 req1 st = (ctx1, st1)"
    and r1: "result ctx1 = Some (p, False)"
    and s1: "searched_company req1 = Some n1" and s2: "searched_company req2 = Some n2"
    and same: "map py_lower (py_split n1) = map py_lower (py_split n2)"
    and ttl: "t_get clk2 < t_set clk1 + cache_timeout svc"
  shows "result (fst (dashboard_view svc e clk2 now2 uid2 req2 st1)) = Some (p, True)"
proof -
  from dashboard_view_result [OF v1 r1] s1
  have "handle_company_search svc e clk1 now1 uid1 n1 st = Inr ((p, False), st1)" by auto
  then obtain c' where g: "get_company_esg_profile svc e clk1 n1 (st_cache st) = Inr ((p, False), c')"
    and st1: "st_cache st1 = c'"
    by (auto simp: handle_company_search_Inr)
  from get_profile_store [OF g] st1
  have "st_cache st1 = cache_set (st_cache st) (make_cache_key (digest e) n1) p (cache_timeout svc) (t_set clk1)"
    by simp
  moreover have "make_cache_key (digest e) n2 = make_cache_key (digest e) n1"
    using make_cache_key_words [OF same] by simp
  ultimately have "cache_get (st_cache st1) (make_cache_key (digest e) n2) (t_get clk2) = Some p"
    using ttl by (simp add: cache_get_set_same)
  then have "get_company_esg_profile svc e clk2 n2 (st_cache st1) = Inr ((p, True), st_cache st1)"
    by (rule get_profile_hit)
  then have "handle_company_search svc e clk2 now2 uid2 n2 st1 =
             Inr ((p, True), \<lparr>st_cache = st_cache st1, st_history = record_search (st_history st1) uid2 n2 now2\<rparr>)"
    by (simp add: handle_company_search_Inr)
  from dashboard_view_searched [OF s2 this] show ?thesis by simp
qed

section \<open>Witnesses\<close>

lemma demo_miss_shape:
  "get_company_esg_profile default_service demo_env (demo_clocks t) n Map.empty
     = Inr ((fst (fst (projr (get_company_esg_profile default_service demo_env (demo_clocks t) n Map.empty))), False),
            snd (projr (get_company_esg_profile default_service demo_env (demo_clocks t) n Map.empty)))"
  by (simp add: get_company_esg_profile_def demo_env_defs profile_run_defs)

lemma demo_first_shape:
  "get_company_esg_profile default_service demo_env (demo_clocks 0) ''Adani Power'' Map.empty
     = Inr ((fst (fst (projr demo_first)), False), snd (projr demo_first))"
  unfolding demo_first_def by (rule demo_miss_shape)

lemma demo_searched: "searched_company (Post (Some ''Adani Power'')) = Some ''Adani Power''"
  by code_simp

lemma demo_view_shape:
  "result (fst demo_view) = Some (fst (the (result (fst demo_view))), False)"
  unfolding demo_view_def
  by (simp add: dashboard_view_def demo_searched handle_company_search_def get_company_esg_profile_def
      demo_env_defs profile_run_defs empty_state_def)

lemma adani_words: "map py_lower (py_split ''Adani Power'') = map py_lower (py_split '' adani  POWER'')"
  by code_simp

theorem get_profile_cached_within_ttl_witness:
  "get_company_esg_profile default_service demo_env (demo_clocks 100) '' adani  POWER'' (snd (projr demo_first))
     = Inr ((fst (fst (projr demo_first)), True), snd (projr demo_first))
   \<and> company (fst (fst (projr demo_first))) = normalize_company_name ''Adani Power''"
  by (rule Profile.get_profile_cached_within_ttl [OF demo_first_shape adani_words])
     (simp add: demo_clocks_def default_service_def)

theorem get_profile_after_ttl_witness:
  "\<not> snd (fst (projr (get_company_esg_profile default_service demo_env (demo_clocks 3600) ''Adani Power''
                      (snd (projr demo_first)))))"
proof -
  let ?c = "snd (projr demo_first)"
  let ?r = "get_company_esg_profile default_service demo_env (demo_clocks 3600) ''Adani Power'' ?c"
  have key: "?c (make_cache_key (digest demo_env) ''Adani Power'') = Some (fst (fst (projr demo_first)), 3600)"
    unfolding demo_first_def
    by (simp add: get_company_esg_profile_def demo_env_defs cache_set_def profile_run_defs default_service_def
        demo_clocks_def make_cache_key_normalized)
  have "?r = Inr ((fst (fst (projr ?r)), snd (fst (projr ?r))), snd (projr ?r))"
    unfolding demo_first_def
    by (simp add: get_company_esg_profile_def demo_env_defs cache_set_def profile_run_defs default_service_def
        demo_clocks_def)
  from Profile.get_profile_after_ttl [OF key _ this] show ?thesis
    by (simp add: demo_clocks_def)
qed

theorem reachable_sys_inv_witness: "sys_inv id (snd demo_view)"
proof -
  have "dashboard_view default_service demo_env (demo_clocks 0) demo_time 7 (Post (Some ''Adani Power'')) empty_state
        = (fst demo_view, snd demo_view)"
    by (simp add: demo_view_def)
  then have "reachable id (snd demo_view)"
    by (rule reachable.step [OF reachable.init, rotated]) (simp add: demo_env_defs)
  then show ?thesis by (rule Dashboard.reachable_sys_inv)
qed

theorem dashboard_repeat_within_ttl_witness:
  "result (fst (dashboard_view default_service demo_env (demo_clocks 60) demo_time 7
                  (Get (Some '' adani  POWER'')) (snd demo_view)))
   = Some (fst (the (result (fst demo_view))), True)"
proof (rule dashboard_repeat_within_ttl)
  show "dashboard_view default_service demo_env (demo_clocks 0) demo_time 7 (Post (Some ''Adani Power'')) empty_state
        = (fst demo_view, snd demo_view)"
    by (simp add: demo_view_def)
  show "result (fst demo_view) = Some (fst (the (result (fst demo_view))), False)"
    by (rule demo_view_shape)
  show "searched_company (Post (Some ''Adani Power'')) = Some ''Adani Power''"
    by (rule demo_searched)
  show "searched_company (Get (Some '' adani  POWER'')) = Some '' adani  POWER''"
    by (simp add: searched_company_def)
  show "map py_lower (py_split ''Adani Power'') = map py_lower (py_split '' adani  POWER'')"
    by (rule adani_words)
  show "t_get (demo_clocks 60) < t_set (demo_clocks 0) + cache_timeout default_service"
    by (simp add: demo_clocks_def default_service_def)
qed

theorem build_profile_unconfigured_witness:
  "build_profile default_service demo_env (demo_clocks 0) ''Adani Power'' =
     Inr \<lparr>company = ''Adani Power'', generated_at = isoformat demo_time,
          generated_at_display = strftime_generated demo_time,
          overview = ''Overview unavailable for Adani Power. Configure OPENAI_API_KEY to enable this summary.'',
          overall_score = JInt 0, items = [], total_items = 0, search_window_days = 730\<rparr>"
  using Profile.build_profile_unconfigured [of demo_env default_service "demo_clocks 0" "''Adani Power''"]
  by (simp add: demo_env_defs demo_clocks_def)

theorem build_profile_no_articles_witness:
  "build_profile default_service demo_llm (demo_clocks 0) ''Adani Power'' =
     Inr \<lparr>company = ''Adani Power'', generated_at = isoformat demo_time,
          generated_at_display = strftime_generated demo_time,
          overview = ''Adani Power is an Indian power company.'',
          overall_score = JInt 0, items = [], total_items = 0, search_window_days = 730\<rparr>"
proof -
  have strip: "py_strip '' Adani Power is an Indian power company. '' = ''Adani Power is an Indian power company.''"
    by code_simp
  show ?thesis
    using Profile.build_profile_no_articles [of demo_llm "demo_clocks 0" "''Adani Power''" default_service]
    by (simp add: demo_llm_def demo_env_defs demo_clocks_def fetch_articles_def fetch_company_overview_def
        execute_openai_prompt_def strip)
qed

lemma demo_list_fails:
  "get_company_esg_profile default_service demo_list (demo_clocks 0) ''Adani Power'' Map.empty = Inl AttributeError"
  by (simp add: get_company_esg_profile_def demo_list_def demo_env_defs cache_get_def build_profile_def
      fetch_company_overview_def execute_openai_prompt_def fetch_articles_def parse_articles_payload_def Let_def)

theorem dashboard_view_error_generic_witness:
  "dashboard_view default_service demo_list (demo_clocks 0) demo_time 7 (Get (Some ''Adani Power'')) empty_state
   = (\<lparr>recent_searches = [], result = None, error_message = Some unexpected_error_message\<rparr>, empty_state)"
  using Dashboard.dashboard_view_error_generic [of "Get (Some ''Adani Power'')" "''Adani Power''" default_service demo_list
          "demo_clocks 0" empty_state AttributeError demo_time 7]
  by (simp add: searched_company_def demo_list_fails empty_state_def get_recent_searches_def user_searches_def py_sorted_desc_def)

theorem analyse_articles_fallback_witness:
  "analyse_articles demo_env ''Adani Power'' [demo_oil] = analyse_with_heuristics demo_env [demo_oil]"
  by (rule Scoring.analyse_articles_fallback) (simp_all add: demo_env_defs)

lemma demo_list_openai: "analyse_with_openai demo_list ''Adani Power'' [demo_oil] = Inl AttributeError"
  by (simp add: analyse_with_openai_def execute_openai_prompt_def demo_list_def demo_env_defs)

theorem analyse_articles_escapes_witness:
  "analyse_articles demo_list ''Adani Power'' [demo_oil] = Inl AttributeError"
  by (rule Scoring.analyse_articles_escapes [OF _ _ demo_list_openai]) (simp_all add: demo_list_def demo_env_defs)

theorem fetch_articles_wrong_shape_witness:
  "fetch_articles demo_list demo_time ''Adani Power'' 50 = Inl AttributeError"
  by (rule Articles.fetch_articles_wrong_shape [where v = "JList []"]) (simp_all add: demo_list_def demo_env_defs)

theorem heuristic_item_scores_witness:
  "ai_scores (projr (heuristic_item demo_env demo_oil)) =
     \<lparr>environment = 70, social = 0, governance = 0, overall = 28\<rparr>"
proof -
  have t: "article_text demo_oil = Inr ''Oil spill at port''"
    by code_simp
  have i: "heuristic_item demo_env demo_oil = Inr (projr (heuristic_item demo_env demo_oil))"
    by (simp add: heuristic_item_def t Let_def)
  have "ai_scores (projr (heuristic_item demo_env demo_oil)) =
    (let A = set (detect_esg_aspects ''Oil spill at port'' ESG_KEYWORDS);
         en = (if ''environment'' \<in> A then 70 else 0);
         so = (if ''social'' \<in> A then 70 else 0);
         go = (if ''governance'' \<in> A then 70 else 0)
     in \<lparr>environment = en, social = so, governance = go, overall = round2 ((4 * en + 3 * so + 3 * go) / 10)\<rparr>)"
    by (rule Scoring.heuristic_item_scores [OF t i])
  also have "\<dots> = \<lparr>environment = 70, social = 0, governance = 0, overall = 28\<rparr>"
    by code_simp
  finally show ?thesis .
qed

theorem normalize_item_recomputes_overall_witness:
  "overall (ai_scores (projr (normalize_item_structure demo_env (JDict demo_scored)))) = 47"
proof -
  let ?sc = "[(''environment'', JInt 80), (''social'', JStr '' 50 ''), (''governance'', JStr ''n/a''),
              (''overall'', JStr ''n/a'')]"
  let ?i = "projr (normalize_item_structure demo_env (JDict demo_scored))"
  have l: "dict_lookup demo_scored ''scores'' = Some (JDict ?sc)"
    by (simp add: demo_scored_def dict_lookup_def)
  have f: "py_float (score_field ?sc ''overall'') = None"
    by code_simp
  have n: "normalize_item_structure demo_env (JDict demo_scored) = Inr ?i"
    by (simp add: normalize_item_structure_def normalize_scores_def demo_scored_def dict_lookup_def py_or_def Let_def)
  have "overall (ai_scores ?i) =
        round2 ((4 * environment (ai_scores ?i) + 3 * social (ai_scores ?i) + 3 * governance (ai_scores ?i)) / 10)"
    by (rule Scoring.normalize_item_recomputes_overall [OF l f n])
  moreover have "environment (ai_scores ?i) = 80 \<and> social (ai_scores ?i) = 50 \<and> governance (ai_scores ?i) = 0"
    by code_simp
  moreover have "round2 ((4 * 80 + 3 * 50 + 3 * 0) / 10) = (47 :: rat)"
    by code_simp
  ultimately show ?thesis by simp
qed

theorem coerce_score_NaN_witness: "coerce_score (JStr '' -NaN '') 0 = 100"
proof (rule Scoring.coerce_score_NaN)
  have "py_lower (py_strip '' -NaN '') = ''-nan''" by code_simp
  then show "JStr '' -NaN '' = JFloat NaN \<or> (\<exists>s. JStr '' -NaN '' = JStr s \<and> py_lower (py_strip s) \<in> {''nan'', ''+nan'', ''-nan''})"
    by simp
qed

theorem analyse_with_heuristics_total_witness:
  "\<exists>r. analyse_with_heuristics demo_env [demo_oil] = Inr r \<and> length (an_items r) = 1"
  using Scoring.analyse_with_heuristics_total [of "[demo_oil]" demo_env]
  by (simp add: demo_oil_def demo_article_def)

theorem sec_substring_flags_governance_witness:
  "''governance'' \<in> set (detect_esg_aspects ''Oil spill in second sector'' ESG_KEYWORDS)"
  by (rule Scoring.sec_substring_flags_governance) code_simp

theorem normalize_company_name_refines_witness:
  "normalize_company_name ''  Adani   Power '' = ''Adani Power''
   \<and> py_split (normalize_company_name ''  Adani   Power '') = [''Adani'', ''Power'']"
proof -
  have r: "normalize_company_name ''  Adani   Power '' = py_join '' '' (py_split ''  Adani   Power '')
        \<and> py_split (normalize_company_name ''  Adani   Power '') = py_split ''  Adani   Power ''"
    by (rule Text.normalize_company_name_refines)
  have sp: "py_split ''  Adani   Power '' = [''Adani'', ''Power'']"
    by code_simp
  from conjunct1 [OF r] have "normalize_company_name ''  Adani   Power '' = ''Adani Power''"
    unfolding sp by simp
  moreover from conjunct2 [OF r] have "py_split (normalize_company_name ''  Adani   Power '') = [''Adani'', ''Power'']"
    unfolding sp .
  ultimately show ?thesis ..
qed

theorem make_cache_key_eq_iff_witness:
  "make_cache_key id ''Adani Power'' = make_cache_key id '' adani  POWER''"
  using Text.make_cache_key_eq_iff [of id "''Adani Power''" "'' adani  POWER''"] adani_words by simp

lemma demo_dedup:
  "deduplicate_articles demo_dups =
     Inr [demo_article ''Spill'' ''https://news.example/1'' demo_time,
          demo_article ''Strike'' ''https://news.example/2'' demo_later]"
  by code_simp

theorem deduplicate_articles_spec_witness:
  "subseq [demo_article ''Spill'' ''https://news.example/1'' demo_time,
           demo_article ''Strike'' ''https://news.example/2'' demo_later] demo_dups
   \<and> sorted_wrt keys_differ [demo_article ''Spill'' ''https://news.example/1'' demo_time,
                             demo_article ''Strike'' ''https://news.example/2'' demo_later]"
  using Articles.deduplicate_articles_spec [OF demo_dedup] by simp

theorem deduplicate_articles_complete_witness:
  "\<exists>j<1. demo_dups ! j \<in> set [demo_article ''Spill'' ''https://news.example/1'' demo_time,
                                demo_article ''Strike'' ''https://news.example/2'' demo_later]
          \<and> (\<exists>k'. unique_key (demo_dups ! j) = Some k' \<and> py_key_eq k' (JStr ''https://news.example/1''))"
proof -
  have "1 < length demo_dups" by (simp add: demo_dups_def)
  moreover have "unique_key (demo_dups ! 1) = Some (JStr ''https://news.example/1'')"
    by (simp add: demo_dups_def unique_key_def demo_article_def)
  ultimately have "demo_dups ! 1 \<in> set [demo_article ''Spill'' ''https://news.example/1'' demo_time,
                                         demo_article ''Strike'' ''https://news.example/2'' demo_later]
    \<or> (\<exists>j<1. demo_dups ! j \<in> set [demo_article ''Spill'' ''https://news.example/1'' demo_time,
                                   demo_article ''Strike'' ''https://news.example/2'' demo_later]
          \<and> (\<exists>k'. unique_key (demo_dups ! j) = Some k' \<and> py_key_eq k' (JStr ''https://news.example/1'')))"
    by (rule Articles.deduplicate_articles_complete [OF demo_dedup])
  moreover have "demo_dups ! 1 \<notin> set [demo_article ''Spill'' ''https://news.example/1'' demo_time,
                                       demo_article ''Strike'' ''https://news.example/2'' demo_later]"
    by (simp add: demo_dups_def demo_article_def)
  ultimately show ?thesis by blast
qed


theorem take_latest_sort_key_witness:
  "projr (take_latest demo_dups 1) = [demo_article ''Spill again'' ''https://news.example/1'' demo_later]"
proof -
  have t: "take_latest demo_dups 1 = Inr (projr (take_latest demo_dups 1))"
    by code_simp
  have "projr (take_latest demo_dups 1) = take (nat 1) (sort_key (\<lambda>a. - dt_order_key (published_at a)) demo_dups)"
    by (rule Articles.take_latest_sort_key [OF t]) simp
  also have "\<dots> = [demo_article ''Spill again'' ''https://news.example/1'' demo_later]"
    by code_simp
  finally show ?thesis .
qed

theorem fetch_articles_mixed_dates_witness:
  "fetch_articles demo_mixed demo_naive ''Adani Power'' 50 = Inl TypeError"
  by (rule Articles.fetch_articles_mixed_dates [where resp = "''{...}''" and d = "''2025-03-14''" and dt = demo_time])
     (simp_all add: demo_mixed_def demo_env_defs demo_naive_def, code_simp+)

theorem fetch_articles_soft_failures_witness:
  "fetch_articles demo_env demo_time ''Adani Power'' 50 = Inr []"
  by (rule Articles.fetch_articles_soft_failures) (simp add: demo_env_defs)

theorem fetch_articles_spec_witness:
  "int (length (projr (fetch_articles demo_llm demo_time ''Adani Power'' 50))) \<le> 50"
proof -
  have "fetch_articles demo_llm demo_time ''Adani Power'' 50 = Inr (projr (fetch_articles demo_llm demo_time ''Adani Power'' 50))"
    by (simp add: fetch_articles_def demo_llm_def demo_env_defs)
  from Articles.fetch_articles_spec [OF this] show ?thesis by simp
qed

theorem parse_articles_payload_fenced_witness:
  "parse_articles_payload demo_fence ''Sure: ```json {} ``` done'' = Inr (JDict [])"
  by (rule Articles.parse_articles_payload_fenced [of "''Sure: ```json {} ``` done''" "''Sure: ''" "''json''" "'' ''"
        "[]" "'' ''" "'' done''"])
     (simp_all add: demo_fence_def demo_env_defs fence_def, code_simp+)

theorem get_recent_searches_distinct_witness:
  "distinct (map (\<lambda>x. py_lower (fst x)) (get_recent_searches demo_hist 7 10))"
  by (rule History.get_recent_searches_distinct)

theorem get_recent_searches_length_witness:
  "int (length (get_recent_searches demo_hist 7 1)) \<le> 1"
  using History.get_recent_searches_length [of demo_hist 7 1] by simp

theorem get_recent_searches_most_recent_first_witness:
  "sorted_wrt (\<lambda>a b. dt_order_key (snd b) \<le> dt_order_key (snd a)) (get_recent_searches demo_hist 7 10)"
  by (rule History.get_recent_searches_most_recent_first)

theorem get_recent_searches_nonpositive_limit_witness: "length (get_recent_searches demo_hist 7 0) = 1"
  by (rule History.get_recent_searches_nonpositive_limit) (simp_all add: demo_hist_def demo_row_def)

theorem dashboard_get_blank_records_empty_witness:
  "st_history (snd (dashboard_view default_service demo_env (demo_clocks 0) demo_time 7 (Get (Some ''   '')) empty_state))
   = [\<lparr>user_id = 7, company_name = [], searched_at = demo_time\<rparr>]"
proof -
  have h: "get_company_esg_profile default_service demo_env (demo_clocks 0) ''   '' (st_cache empty_state)
   = Inr ((fst (fst (projr (get_company_esg_profile default_service demo_env (demo_clocks 0) ''   '' Map.empty))), False),
          snd (projr (get_company_esg_profile default_service demo_env (demo_clocks 0) ''   '' Map.empty)))"
    using demo_miss_shape [of 0 "''   ''"] by (simp add: empty_state_def)
  have "py_strip ''   '' = []" by code_simp
  from Dashboard.dashboard_get_blank_records_empty [OF _ this _ h] show ?thesis
    by (simp add: empty_state_def)
qed

theorem get_recent_searches_after_record_witness:
  "hd (get_recent_searches (record_search demo_hist 7 '' Tata  Steel '' demo_latest) 7 10) = (''Tata Steel'', demo_latest)"
proof -
  have "\<forall>r \<in> set demo_hist. user_id r = 7 \<longrightarrow> dt_order_key (searched_at r) < dt_order_key demo_latest"
    by code_simp
  from History.get_recent_searches_after_record [OF _ _ this, of "'' Tata  Steel ''" 10]
  obtain rest where "get_recent_searches (record_search demo_hist 7 '' Tata  Steel '' demo_latest) 7 10
                     = (normalize_company_name '' Tata  Steel '', demo_latest) # rest" by auto
  moreover have "normalize_company_name '' Tata  Steel '' = ''Tata Steel''" by code_simp
  ultimately show ?thesis by simp
qed

theorem format_display_date_type_witness: "\<not> is_jstr (format_display_date demo_env (JInt 2024))"
  using Scoring.format_display_date_type [of demo_env "JInt 2024"] by simp

theorem dashboard_view_cache_effect_witness:
  "st_cache (snd demo_view) = [make_cache_key id ''Adani Power'' \<mapsto> (fst (the (result (fst demo_view))), 3600)]"
proof -
  have v: "dashboard_view default_service demo_env (demo_clocks 0) demo_time 7 (Post (Some ''Adani Power'')) empty_state
        = (fst demo_view, snd demo_view)"
    by (simp add: demo_view_def)
  from Dashboard.dashboard_view_cache_effect [OF v demo_view_shape]
  show ?thesis by (simp add: demo_searched demo_env_defs demo_clocks_def default_service_def empty_state_def)
qed

lemma demo_lookup:
  "profile_lookup default_service demo_env (demo_clocks t) n Map.empty =
     Inr (Built (projr (build_profile default_service demo_env (demo_clocks t) (normalize_company_name n))))"
  by (simp add: profile_lookup_def demo_env_defs profile_run_defs)

theorem racing_misses_last_writer_wins_witness:
  "shared (run_events default_service demo_env demo_calls (idle Map.empty) [Begin 1, Begin 2, Commit 1, Commit 2])
     (make_cache_key id ''Adani Power'')
   = Some (projr (build_profile default_service demo_env (demo_clocks 5) (normalize_company_name ''adani  power'')), 3605)"
proof -
  have "map py_lower (py_split ''Adani Power'') = map py_lower (py_split ''adani  power'')" by code_simp
  from Concurrency.racing_misses_last_writer_wins [of demo_calls "demo_clocks 0" "''Adani Power''" "demo_clocks 5"
          "''adani  power''" default_service demo_env Map.empty, OF _ _ demo_lookup demo_lookup this]
  show ?thesis by (simp add: demo_calls_def demo_env_defs demo_clocks_def default_service_def)
qed

lemma demo_web_reachable: "web_reachable id demo_web"
proof -
  let ?w1 = "empty_web\<lparr>auth := snd (sign_up demo_pw ''alice'' ''pw'' ''pw'' (auth empty_web))\<rparr>"
  have "web_reachable id ?w1"
    by (rule web_reachable.signup [OF web_reachable.init, where resp = "fst (sign_up demo_pw ''alice'' ''pw'' ''pw'' (auth empty_web))"])
       simp
  then show ?thesis unfolding demo_web_def
    by (rule web_reachable.dashboard [where e = demo_env and resp = "fst (dashboard_request default_service demo_env
          (demo_clocks 0) demo_time (Post (Some ''Adani Power'')) ?w1)"]) (simp_all add: demo_env_defs)
qed

lemma demo_web_history:
  "st_history (app demo_web) = [\<lparr>user_id = 1, company_name = normalize_company_name ''Adani Power'', searched_at = demo_time\<rparr>]"
  by (simp add: demo_web_def dashboard_request_def login_required_def sign_up_def demo_pw_def empty_web_def
      dashboard_view_def demo_searched handle_company_search_def get_company_esg_profile_def demo_env_defs empty_state_def profile_run_defs record_search_def)

theorem web_history_registered_witness:
  "1 \<le> user_id (hd (st_history (app demo_web))) \<and> user_id (hd (st_history (app demo_web))) \<le> int (length (users (auth demo_web)))"
  by (rule Accounts.web_history_registered [OF demo_web_reachable]) (simp add: demo_web_history)

lemma demo_web_auth: "auth demo_web = \<lparr>users = [''alice''], session = Some 1\<rparr>"
  by (simp add: demo_web_def dashboard_request_def login_required_def sign_up_def demo_pw_def empty_web_def
      split: prod.split)

theorem sign_up_fresh_history_witness:
  "\<exists>uid. session (snd (sign_up demo_pw ''bob'' ''pw'' ''pw'' (auth demo_web))) = Some uid
         \<and> get_recent_searches (st_history (app demo_web)) uid 10 = []"
proof (rule Accounts.sign_up_fresh_history [OF demo_web_reachable])
  show "sign_up demo_pw ''bob'' ''pw'' ''pw'' (auth demo_web)
        = (Redirect ''dashboard:home'', snd (sign_up demo_pw ''bob'' ''pw'' ''pw'' (auth demo_web)))"
    by (simp add: demo_web_auth sign_up_def demo_pw_def)
qed

theorem fetch_company_overview_spec_witness:
  "fetch_company_overview demo_fail ''Adani Power'' = Inr ''Overview unavailable for Adani Power.''"
  using Profile.fetch_company_overview_spec [of demo_fail "''Adani Power''"]
  by (simp add: demo_fail_def demo_env_defs)

theorem analyse_with_openai_overall_unchecked_witness:
  "an_overall (projr (analyse_with_openai demo_hype ''Adani Power'' [demo_oil])) = JInt 250"
proof -
  let ?r = "projr (analyse_with_openai demo_hype ''Adani Power'' [demo_oil])"
  have x: "execute_openai_prompt demo_hype (analysis_user_prompt demo_hype [demo_oil])
             (Some (analysis_system_prompt ''Adani Power'')) = Inr ''{...}''"
    by (simp add: execute_openai_prompt_def demo_hype_def demo_env_defs analysis_system_prompt_def)
  have a: "analyse_with_openai demo_hype ''Adani Power'' [demo_oil] = Inr ?r"
    by (simp add: analyse_with_openai_def x) (simp add: demo_hype_def demo_env_def dict_lookup_def)
  have "an_overall ?r = py_or (JInt 250) (JInt 0)"
  proof (rule Scoring.analyse_with_openai_overall_unchecked [OF x _ _ _ a])
    show "json_loads demo_hype ''{...}'' = Some (JDict [(''items'', JList []), (''overall_score'', JInt 250)])"
      by (simp add: demo_hype_def demo_env_def)
    show "dict_lookup [(''items'', JList []), (''overall_score'', JInt 250)] ''overall_score'' = Some (JInt 250)"
      by code_simp
  qed simp
  then show ?thesis by (simp add: py_or_def)
qed

end
